theory Spec2Isabelle
  imports Complex_Main
begin

section \<open>The pooled connection and its transactions\<close>

text \<open>
  The controllers and \<open>DatabaseService\<close> talk to MySQL through a pooled connection
  (\<open>utils/db.js\<close>: \<open>mysql2/promise\<close>). The store itself is outside the repository, so it
  is modelled by what the code relies on: \<open>pool.getConnection()\<close>,
  \<open>connection.beginTransaction()\<close>, \<open>.execute\<close>/\<open>.query\<close>, \<open>.commit()\<close>,
  \<open>.rollback()\<close> and \<open>.release()\<close>.

  A \<open>world\<close> holds the data other readers see (\<open>committed\<close>), the working copy of the
  transaction open on the connection in use (\<open>tx\<close>, \<open>None\<close> in autocommit mode), the
  record of every driver call made so far with its outcome (\<open>trace\<close>), the lines written
  to the console, and the local variable \<open>connection\<close> of the function being run
  (\<open>let connection;\<close> leaves it unset).

  Any driver call but \<open>release\<close> may throw: the set \<open>faults\<close> names the positions in the
  trace at which the store or the connection fails the call. A failing call changes nothing
  in the store. A statement can also be refused by the server (a key it breaks, text that is
  not SQL); the trace records a call that threw, for either reason, with \<open>False\<close>.
\<close>

datatype error =
    StoreFailure
  | SqlError
  | DupEntry
  | NoReferencedRow
  | RowIsReferenced
  | TypeError
  | IllegalArguments
  | JsonWebTokenError
  | TokenExpiredError
  | OtherError

datatype call = GetConnection | BeginTransaction | Execute | Commit | Rollback | Release

record 'db world =
  committed :: 'db
  tx :: "'db option"
  faults :: "nat set"
  trace :: "(call \<times> bool) list"
  console :: "string list"
  connection :: bool

type_synonym ('db, 'a) io = "'db world \<Rightarrow> (error + 'a) \<times> 'db world"

definition return :: "'a \<Rightarrow> ('db, 'a) io" where
  "return x w = (Inr x, w)"

definition throw :: "error \<Rightarrow> ('db, 'a) io" where
  "throw e w = (Inl e, w)"

definition bind :: "('db, 'a) io \<Rightarrow> ('a \<Rightarrow> ('db, 'b) io) \<Rightarrow> ('db, 'b) io" where
  "bind m f w = (case m w of (Inl e, w') \<Rightarrow> (Inl e, w') | (Inr x, w') \<Rightarrow> f x w')"

text \<open>\<open>try { m } catch (error) { h error }\<close>\<close>

definition try_catch :: "('db, 'a) io \<Rightarrow> (error \<Rightarrow> ('db, 'a) io) \<Rightarrow> ('db, 'a) io" where
  "try_catch m h w = (case m w of (Inl e, w') \<Rightarrow> h e w' | (Inr x, w') \<Rightarrow> (Inr x, w'))"

text \<open>\<open>try { m } finally { fin }\<close>: the block runs on every exit of \<open>m\<close>; an error it
  throws itself replaces the result.\<close>

definition try_finally :: "('db, 'a) io \<Rightarrow> ('db, unit) io \<Rightarrow> ('db, 'a) io" where
  "try_finally m fin w =
     (case m w of (r, w') \<Rightarrow>
        (case fin w' of (Inl e, w'') \<Rightarrow> (Inl e, w'') | (Inr _, w'') \<Rightarrow> (r, w'')))"

definition console_log :: "string \<Rightarrow> ('db, unit) io" where
  "console_log line w = (Inr (), w\<lparr>console := console w @ [line]\<rparr>)"

text \<open>One call into the driver: it is recorded, and it throws when its position is a fault.\<close>

definition attempt :: "call \<Rightarrow> ('db, unit) io" where
  "attempt c w =
     (let ok = length (trace w) \<notin> faults w;
          w' = w\<lparr>trace := trace w @ [(c, ok)]\<rparr>
      in if ok then (Inr (), w') else (Inl StoreFailure, w'))"

text \<open>\<open>let connection;\<close>\<close>

definition let_connection :: "('db, unit) io" where
  "let_connection w = (Inr (), w\<lparr>connection := False\<rparr>)"

text \<open>\<open>connection = await pool.getConnection();\<close> The pool hands out a connection in
  autocommit mode, with no transaction open.\<close>

definition getConnection :: "('db, unit) io" where
  "getConnection = bind (attempt GetConnection) (\<lambda>_ w. (Inr (), w\<lparr>tx := None, connection := True\<rparr>))"

text \<open>\<open>START TRANSACTION\<close>: statements now work on a copy that only \<open>commit\<close> publishes.
  (MySQL commits a transaction that is still open; no path of the code begins twice.)\<close>

definition beginTransaction :: "('db, unit) io" where
  "beginTransaction = bind (attempt BeginTransaction) (\<lambda>_ w.
     (Inr (), case tx w of
                None \<Rightarrow> w\<lparr>tx := Some (committed w)\<rparr>
              | Some d \<Rightarrow> w\<lparr>committed := d, tx := Some d\<rparr>))"

text \<open>A statement is a function on the store that returns its result or its error; a statement
  that fails leaves the store as it was.\<close>

definition execute :: "('db \<Rightarrow> (error + 'r) \<times> 'db) \<Rightarrow> ('db, 'r) io" where
  "execute stmt w =
     (if length (trace w) \<in> faults w
      then (Inl StoreFailure, w\<lparr>trace := trace w @ [(Execute, False)]\<rparr>)
      else
        (case tx w of
           Some d \<Rightarrow>
             (case stmt d of (r, d') \<Rightarrow>
                (r, w\<lparr>trace := trace w @ [(Execute, \<not> isl r)], tx := Some d'\<rparr>))
         | None \<Rightarrow>
             (case stmt (committed w) of (r, d') \<Rightarrow>
                (r, w\<lparr>trace := trace w @ [(Execute, \<not> isl r)], committed := d'\<rparr>))))"

text \<open>\<open>connection.execute(sql, params)\<close> throws a TypeError, before anything is sent, when
  one of the parameters is \<open>undefined\<close>. The parameters listed are the body fields that the
  code passes as they are: a field that the body does not have (\<open>None\<close>) is \<open>undefined\<close>.
  (A parameter written \<open>v || null\<close>, a path parameter and a computed value never are.)\<close>

definition execute_given ::
  "string option list \<Rightarrow> ('db \<Rightarrow> (error + 'r) \<times> 'db) \<Rightarrow> ('db, 'r) io" where
  "execute_given params stmt w =
     (if None \<in> set params
      then (Inl TypeError, w\<lparr>trace := trace w @ [(Execute, False)]\<rparr>)
      else execute stmt w)"

text \<open>\<open>connection.query\<close> (used for the bulk \<open>VALUES ?\<close> inserts) differs from
  \<open>connection.execute\<close> only in how the driver sends the statement.\<close>

definition query :: "('db \<Rightarrow> (error + 'r) \<times> 'db) \<Rightarrow> ('db, 'r) io" where
  "query stmt = execute stmt"

definition commit :: "('db, unit) io" where
  "commit = bind (attempt Commit) (\<lambda>_ w.
     (Inr (), case tx w of None \<Rightarrow> w | Some d \<Rightarrow> w\<lparr>committed := d, tx := None\<rparr>))"

definition rollback :: "('db, unit) io" where
  "rollback = bind (attempt Rollback) (\<lambda>_ w. (Inr (), w\<lparr>tx := None\<rparr>))"

definition release :: "('db, unit) io" where
  "release w = (Inr (), w\<lparr>trace := trace w @ [(Release, True)]\<rparr>)"

text \<open>\<open>if (connection) m\<close>\<close>

definition if_connection :: "('db, unit) io \<Rightarrow> ('db, unit) io" where
  "if_connection m w = (if connection w then m w else (Inr (), w))"

text \<open>The driver calls a run added to the trace.\<close>

definition calls_since :: "'db world \<Rightarrow> 'db world \<Rightarrow> (call \<times> bool) list" where
  "calls_since w w' = drop (length (trace w)) (trace w')"


section \<open>DatabaseService: the generic record helper\<close>

text \<open>
  \<open>services/databaseService.js\<close> works on any table by name, so its store holds rows as
  lists of column and value. The SQL text each method builds is modelled by the statement it
  denotes. Numbers are exact integers (no rounding of doubles), text is compared as it is
  written (no collation), and a table's \<open>id\<close> column is its AUTO_INCREMENT key.
\<close>

datatype sqlval = Null | Num int | Text string

type_synonym row = "(string \<times> sqlval) list"

record gstore =
  tables :: "string \<Rightarrow> row list"
  auto_increment :: "string \<Rightarrow> nat"
  ordered :: "string \<Rightarrow> row list \<Rightarrow> row list"

text \<open>What \<open>connection.execute\<close> resolves to is \<open>[results, fields]\<close>: \<open>results\<close> is the array
  of rows of a SELECT, and the result header (\<open>affectedRows\<close>, \<open>insertId\<close>) of any other
  statement, as the controllers read it (\<open>surveyorResult.insertId\<close>, \<open>result.affectedRows\<close>).\<close>

record header =
  affectedRows :: nat
  insertId :: int

datatype results = Rows "row list" | Header header

definition is_space :: "char \<Rightarrow> bool" where
  "is_space c = (c \<in> set [CHR '' '', CHR 0x09, CHR 0x0A, CHR 0x0B, CHR 0x0C, CHR 0x0D])"

definition is_digit :: "char \<Rightarrow> bool" where
  "is_digit c = (48 \<le> (of_char c :: nat) \<and> (of_char c :: nat) \<le> 57)"

definition dec_value :: "string \<Rightarrow> nat" where
  "dec_value ds = foldl (\<lambda>a c. 10 * a + ((of_char c :: nat) - 48)) 0 ds"

text \<open>How the server reads a text parameter where a number is expected: leading blanks, a sign,
  then the leading digits; 0 when there are none. (Fractions and exponents are not modelled.)\<close>

definition sql_int :: "string \<Rightarrow> int" where
  "sql_int s =
     (let s1 = dropWhile is_space s in
      case s1 of
        c # r \<Rightarrow>
          if c = CHR ''-'' then - int (dec_value (takeWhile is_digit r))
          else if c = CHR ''+'' then int (dec_value (takeWhile is_digit r))
          else int (dec_value (takeWhile is_digit s1))
      | [] \<Rightarrow> 0)"

text \<open>\<open>column = ?\<close>: NULL equals nothing; text against a number is read as a number.\<close>

fun sql_eq :: "sqlval \<Rightarrow> sqlval \<Rightarrow> bool" where
  "sql_eq Null _ = False"
| "sql_eq _ Null = False"
| "sql_eq (Num i) (Num j) = (i = j)"
| "sql_eq (Text s) (Text t) = (s = t)"
| "sql_eq (Num i) (Text s) = (i = sql_int s)"
| "sql_eq (Text s) (Num i) = (sql_int s = i)"

definition column :: "row \<Rightarrow> string \<Rightarrow> sqlval" where
  "column r c = (case map_of r c of Some v \<Rightarrow> v | None \<Rightarrow> Null)"

definition matches :: "(string \<times> sqlval) list \<Rightarrow> row \<Rightarrow> bool" where
  "matches conds r = list_all (\<lambda>(f, v). sql_eq (column r f) v) conds"

definition project :: "string list \<Rightarrow> row \<Rightarrow> row" where
  "project columns r = (if columns = [''*''] then r else filter (\<lambda>(c, v). c \<in> set columns) r)"

text \<open>\<open>SELECT columns FROM table WHERE f1 = ? AND ...\<close>\<close>

definition select_where ::
  "string list \<Rightarrow> string \<Rightarrow> (string \<times> sqlval) list \<Rightarrow> gstore \<Rightarrow> (error + results) \<times> gstore" where
  "select_where columns table conds d =
     (Inr (Rows (map (project columns) (filter (matches conds) (tables d table)))), d)"

text \<open>\<open>SELECT 1 FROM table WHERE field = ? LIMIT 1\<close>\<close>

definition select_one ::
  "string \<Rightarrow> string \<Rightarrow> sqlval \<Rightarrow> gstore \<Rightarrow> (error + results) \<times> gstore" where
  "select_one table field v d =
     (Inr (Rows (map (\<lambda>_. [(''1'', Num 1)]) (take 1 (filter (matches [(field, v)]) (tables d table))))), d)"

text \<open>\<open>INSERT INTO table (flds) VALUES (?, ...)\<close>: the new row gets the next key.\<close>

definition insert_into ::
  "string \<Rightarrow> (string \<times> sqlval) list \<Rightarrow> gstore \<Rightarrow> (error + results) \<times> gstore" where
  "insert_into table flds d =
     (let i = auto_increment d table in
      (Inr (Header \<lparr>affectedRows = 1, insertId = int i\<rparr>),
       d\<lparr>tables := (tables d)(table := tables d table @ [(''id'', Num (int i)) # flds]),
         auto_increment := (auto_increment d)(table := Suc i)\<rparr>))"

text \<open>\<open>INSERT INTO table (flds) VALUES ?\<close> with the list of value lists as its one parameter,
  sent by \<open>connection.execute\<close>: a prepared statement has no placeholder for a list of rows,
  and the server refuses the statement when it prepares it. (The controllers send their
  \<open>VALUES ?\<close> by \<open>connection.query\<close>, which writes the rows into the text.)\<close>

definition insert_values ::
  "string \<Rightarrow> string list \<Rightarrow> sqlval list list \<Rightarrow> gstore \<Rightarrow> (error + results) \<times> gstore" where
  "insert_values table flds vals d = (Inl SqlError, d)"

definition assign :: "(string \<times> sqlval) list \<Rightarrow> row \<Rightarrow> row" where
  "assign flds r = map (\<lambda>(c, v). (c, case map_of flds c of Some v' \<Rightarrow> v' | None \<Rightarrow> v)) r"

text \<open>\<open>UPDATE table SET f1 = ?, ... WHERE id = ?\<close>; an empty SET list is not SQL.\<close>

definition update_by_id ::
  "string \<Rightarrow> (string \<times> sqlval) list \<Rightarrow> sqlval \<Rightarrow> gstore \<Rightarrow> (error + results) \<times> gstore" where
  "update_by_id table flds i d =
     (if flds = [] then (Inl SqlError, d)
      else (Inr (Header \<lparr>affectedRows = length (filter (matches [(''id'', i)]) (tables d table)),
                         insertId = 0\<rparr>),
            d\<lparr>tables := (tables d)(table :=
                 map (\<lambda>r. if matches [(''id'', i)] r then assign flds r else r) (tables d table))\<rparr>))"

text \<open>\<open>DELETE FROM table WHERE id = ?\<close>\<close>

definition delete_by_id :: "string \<Rightarrow> sqlval \<Rightarrow> gstore \<Rightarrow> (error + results) \<times> gstore" where
  "delete_by_id table i d =
     (Inr (Header \<lparr>affectedRows = length (filter (matches [(''id'', i)]) (tables d table)),
                   insertId = 0\<rparr>),
      d\<lparr>tables := (tables d)(table := filter (\<lambda>r. \<not> matches [(''id'', i)] r) (tables d table))\<rparr>)"

text \<open>The rows a \<open>where\<close> option selects: all of them without the option. With the option and
  no field in it the text ends in a bare \<open>WHERE\<close>, which the server refuses.\<close>

definition where_rows :: "(string \<times> sqlval) list option \<Rightarrow> row list \<Rightarrow> error + row list" where
  "where_rows wh rs =
     (case wh of
        None \<Rightarrow> Inr rs
      | Some conds \<Rightarrow> if conds = [] then Inl SqlError else Inr (filter (matches conds) rs))"

text \<open>\<open>SELECT COUNT(*) as total FROM table whereClause\<close>\<close>

definition select_count ::
  "string \<Rightarrow> (string \<times> sqlval) list option \<Rightarrow> gstore \<Rightarrow> (error + results) \<times> gstore" where
  "select_count table wh d =
     (case where_rows wh (tables d table) of
        Inl e \<Rightarrow> (Inl e, d)
      | Inr rs \<Rightarrow> (Inr (Rows [[(''total'', Num (int (length rs)))]]), d))"

text \<open>\<open>SELECT columns FROM table whereClause orderClause LIMIT ? OFFSET ?\<close>; the server
  refuses a negative limit or offset.\<close>

definition select_page ::
  "string list \<Rightarrow> string \<Rightarrow> (string \<times> sqlval) list option \<Rightarrow> string option \<Rightarrow> int \<Rightarrow> int
   \<Rightarrow> gstore \<Rightarrow> (error + results) \<times> gstore" where
  "select_page columns table wh orderBy lmt ofs d =
     (case where_rows wh (tables d table) of
        Inl e \<Rightarrow> (Inl e, d)
      | Inr rs \<Rightarrow>
          if lmt < 0 \<or> ofs < 0 then (Inl SqlError, d)
          else (Inr (Rows (map (project columns)
                  (take (nat lmt) (drop (nat ofs)
                     (case orderBy of None \<Rightarrow> rs | Some by \<Rightarrow> ordered d by rs))))), d))"

subsection \<open>The methods\<close>

definition executeQuery ::
  "('db \<Rightarrow> (error + 'r) \<times> 'db) \<Rightarrow> ('db, 'r) io" where
  "executeQuery stmt =
     bind let_connection (\<lambda>_.
     try_finally
       (try_catch
          (bind getConnection (\<lambda>_.
           bind (execute stmt) (\<lambda>results.
           return results)))
          (\<lambda>error.
           bind (console_log ''Database query error:'') (\<lambda>_.
           throw error)))
       (if_connection release))"

text \<open>The callback of \<open>executeTransaction\<close> receives the connection; the callbacks modelled
  are those that run statements on it, one after the other, each choosing the next from the
  last result.\<close>

datatype ('db, 'r, 'a) script =
    Done 'a
  | Raise error
  | Exec "'db \<Rightarrow> (error + 'r) \<times> 'db" "'r \<Rightarrow> ('db, 'r, 'a) script"

primrec run_script :: "('db, 'r, 'a) script \<Rightarrow> ('db, 'a) io" where
  "run_script (Done x) = return x"
| "run_script (Raise e) = throw e"
| "run_script (Exec stmt k) = bind (execute stmt) (\<lambda>r. run_script (k r))"

definition executeTransaction :: "('db, 'r, 'a) script \<Rightarrow> ('db, 'a) io" where
  "executeTransaction callback =
     bind let_connection (\<lambda>_.
     try_finally
       (try_catch
          (bind getConnection (\<lambda>_.
           bind beginTransaction (\<lambda>_.
           bind (run_script callback) (\<lambda>result.
           bind commit (\<lambda>_.
           return result)))))
          (\<lambda>error.
           bind (if_connection rollback) (\<lambda>_.
           bind (console_log ''Transaction error:'') (\<lambda>_.
           throw error))))
       (if_connection release))"

text \<open>\<open>const [result] = v\<close>: the first element of an array, \<open>undefined\<close> (\<open>None\<close>) when it is
  empty; a result header is an object, not an iterable, and destructuring it throws.\<close>

definition first_of :: "results \<Rightarrow> ('db, row option) io" where
  "first_of v =
     (case v of
        Rows rs \<Rightarrow> return (case rs of [] \<Rightarrow> None | r # _ \<Rightarrow> Some r)
      | Header h \<Rightarrow> throw TypeError)"

text \<open>\<open>results.length > 0\<close>; a header has no \<open>length\<close>, and \<open>undefined > 0\<close> is false.\<close>

definition nonempty :: "results \<Rightarrow> bool" where
  "nonempty v = (case v of Rows rs \<Rightarrow> rs \<noteq> [] | Header h \<Rightarrow> False)"

definition findById :: "string \<Rightarrow> sqlval \<Rightarrow> string list \<Rightarrow> (gstore, row option) io" where
  "findById table i columns =
     bind (executeQuery (select_where columns table [(''id'', i)])) (\<lambda>results.
     return (case results of Rows (r # _) \<Rightarrow> Some r | _ \<Rightarrow> None))"

definition findByField ::
  "string \<Rightarrow> string \<Rightarrow> sqlval \<Rightarrow> string list \<Rightarrow> (gstore, results) io" where
  "findByField table field v columns = executeQuery (select_where columns table [(field, v)])"

definition insert :: "string \<Rightarrow> (string \<times> sqlval) list \<Rightarrow> (gstore, row option) io" where
  "insert table dat =
     bind (executeQuery (insert_into table dat)) (\<lambda>results.
     bind (first_of results) (\<lambda>result.
     return result))"

definition updateById ::
  "string \<Rightarrow> sqlval \<Rightarrow> (string \<times> sqlval) list \<Rightarrow> (gstore, row option) io" where
  "updateById table i dat =
     bind (executeQuery (update_by_id table dat i)) (\<lambda>results.
     bind (first_of results) (\<lambda>result.
     return result))"

definition deleteById :: "string \<Rightarrow> sqlval \<Rightarrow> (gstore, row option) io" where
  "deleteById table i =
     bind (executeQuery (delete_by_id table i)) (\<lambda>results.
     bind (first_of results) (\<lambda>result.
     return result))"

definition existsByField :: "string \<Rightarrow> string \<Rightarrow> sqlval \<Rightarrow> (gstore, bool) io" where
  "existsByField table field v =
     bind (executeQuery (select_one table field v)) (\<lambda>results.
     return (nonempty results))"

text \<open>A JavaScript number as far as \<open>paginate\<close> needs it: \<open>total / limit\<close> is infinite or
  \<open>NaN\<close> when \<open>limit\<close> is 0.\<close>

datatype jsnum = Number int | Infinity | NegInfinity | NaN

definition math_ceil_div :: "int \<Rightarrow> int \<Rightarrow> jsnum" where
  "math_ceil_div tot lmt =
     (if lmt = 0 then (if tot = 0 then NaN else if 0 < tot then Infinity else NegInfinity)
      else Number \<lceil>real_of_int tot / real_of_int lmt\<rceil>)"

fun js_less :: "int \<Rightarrow> jsnum \<Rightarrow> bool" where
  "js_less p (Number n) = (p < n)"
| "js_less p Infinity = True"
| "js_less p NegInfinity = False"
| "js_less p NaN = False"

record pagination =
  page :: int
  limit :: int
  total :: int
  totalPages :: jsnum
  hasNext :: bool
  hasPrev :: bool

record paginated =
  data :: results
  pagination :: pagination

text \<open>\<open>countResult[0].total\<close>: \<open>COUNT(*)\<close> answers with one row holding a number. Reading
  \<open>total\<close> ofs anything else throws in the model (ofs a row without the column JavaScript
  would go on with \<open>undefined\<close>; no statement here produces one).\<close>

definition total_of :: "results \<Rightarrow> ('db, int) io" where
  "total_of countResult =
     (case countResult of
        Rows (r # _) \<Rightarrow> (case map_of r ''total'' of Some (Num t) \<Rightarrow> return t | _ \<Rightarrow> throw TypeError)
      | _ \<Rightarrow> throw TypeError)"

definition paginate ::
  "string \<Rightarrow> int \<Rightarrow> int \<Rightarrow> (string \<times> sqlval) list option \<Rightarrow> string option \<Rightarrow> string list
   \<Rightarrow> (gstore, paginated) io" where
  "paginate table pg lm wh orderBy columns =
     (let offset = (pg - 1) * lm in
      bind (executeQuery (select_count table wh)) (\<lambda>countResult.
      bind (total_of countResult) (\<lambda>tot.
      bind (executeQuery (select_page columns table wh orderBy lm offset)) (\<lambda>dat.
      return \<lparr>data = dat,
              pagination = \<lparr>page = pg, limit = lm, total = tot,
                            totalPages = math_ceil_div tot lm,
                            hasNext = js_less pg (math_ceil_div tot lm),
                            hasPrev = (1 < pg)\<rparr>\<rparr>))))"

text \<open>\<open>batchInsert\<close>: without records it returns the literal
  \<open>{ affectedRows: 0, insertId: null }\<close>; otherwise the field names are those of the first
  record, the values those of each record.\<close>

record no_rows =
  no_affectedRows :: nat
  no_insertId :: "int option"

definition batchInsert ::
  "string \<Rightarrow> (string \<times> sqlval) list list \<Rightarrow> (gstore, no_rows + row option) io" where
  "batchInsert table records =
     (if records = [] then return (Inl \<lparr>no_affectedRows = 0, no_insertId = None\<rparr>)
      else
        bind (executeQuery (insert_values table (map fst (hd records)) (map (map snd) records)))
          (\<lambda>results.
        bind (first_of results) (\<lambda>result.
        return (Inr result))))"


section \<open>The application's tables\<close>

text \<open>
  The tables the controllers name in their SQL. A text column holds a string or NULL (\<open>None\<close>).
  The same type stands for a body field, where \<open>None\<close> is a field that the body does not have
  (\<open>undefined\<close>; a body that gives \<open>null\<close> for a field is not modelled): \<open>execute_given\<close> is
  where the driver refuses it as a parameter, so a statement only runs with \<open>None\<close> for a
  value that the code has made \<open>null\<close>. Of the schema only \<open>surveyors_services\<close> is among the sources
  (a primary key on the pair and a foreign key on each column, none of them cascading).

  Modelled from the spec: the declarations of the other tables are not among the sources;
  section 3 gives a user's email as unique, the pairs of \<open>surveyors_counties\<close> as unique, and
  every association row as referring to an existing user and county.
\<close>

record surveyor =
  s_id :: int
  s_first_name :: "string option"
  s_last_name :: "string option"
  s_address :: "string option"
  s_town :: "string option"
  s_state :: "string option"
  s_zip_code :: "string option"
  s_phone :: "string option"
  s_email :: "string option"
  s_password :: "string option"
  s_company_name :: "string option"

record db =
  surveyors :: "surveyor list"
  next_surveyor_id :: int
  service_categories :: "(int \<times> string) list"
  service_subcategories :: "(int \<times> string \<times> int) list"
  counties :: "(int \<times> string) list"
  surveyors_services :: "(int \<times> int) list"
  surveyors_counties :: "(int \<times> int) list"

text \<open>\<open>SELECT id FROM surveyors WHERE email = ?\<close>\<close>

definition select_id_by_email :: "string option \<Rightarrow> db \<Rightarrow> (error + int list) \<times> db" where
  "select_id_by_email e d =
     (Inr (map s_id (filter (\<lambda>r. e \<noteq> None \<and> s_email r = e) (surveyors d))), d)"

text \<open>\<open>INSERT INTO surveyors (first_name, last_name, address, town, state, zip_code, phone,
  email, password, company_name) VALUES (?, ?, ?, ?, ?, ?, ?, ?, ?, ?)\<close>\<close>

definition insert_surveyor ::
  "string option \<Rightarrow> string option \<Rightarrow> string option \<Rightarrow> string option \<Rightarrow> string option \<Rightarrow>
   string option \<Rightarrow> string option \<Rightarrow> string option \<Rightarrow> string option \<Rightarrow> string option \<Rightarrow>
   db \<Rightarrow> (error + header) \<times> db" where
  "insert_surveyor fnm lnm ad tw st zc ph em pw cn d =
     (if em \<noteq> None \<and> em \<in> s_email ` set (surveyors d) then (Inl DupEntry, d)
      else
        (Inr \<lparr>affectedRows = 1, insertId = next_surveyor_id d\<rparr>,
         d\<lparr>surveyors := surveyors d @
              [\<lparr>s_id = next_surveyor_id d, s_first_name = fnm, s_last_name = lnm, s_address = ad,
                s_town = tw, s_state = st, s_zip_code = zc, s_phone = ph, s_email = em,
                s_password = pw, s_company_name = cn\<rparr>],
           next_surveyor_id := next_surveyor_id d + 1\<rparr>))"

text \<open>\<open>SELECT id, name FROM counties WHERE name IN (...)\<close>\<close>

definition select_counties_in :: "string list \<Rightarrow> db \<Rightarrow> (error + (int \<times> string) list) \<times> db" where
  "select_counties_in names d = (Inr (filter (\<lambda>(i, n). n \<in> set names) (counties d)), d)"

text \<open>\<open>SELECT id FROM counties WHERE name IN (...)\<close>\<close>

definition select_county_ids :: "string list \<Rightarrow> db \<Rightarrow> (error + int list) \<times> db" where
  "select_county_ids names d =
     (Inr (map fst (filter (\<lambda>(i, n). n \<in> set names) (counties d))), d)"

text \<open>\<open>SELECT id FROM service_subcategories WHERE name IN (...)\<close>\<close>

definition select_subcategory_ids :: "string list \<Rightarrow> db \<Rightarrow> (error + int list) \<times> db" where
  "select_subcategory_ids names d =
     (Inr (map fst (filter (\<lambda>(i, n, c). n \<in> set names) (service_subcategories d))), d)"

text \<open>\<open>INSERT INTO surveyors_counties (surveyor_id, county_id) VALUES ?\<close>: all the rows or,
  when one of them breaks a key, none.\<close>

definition insert_surveyors_counties :: "(int \<times> int) list \<Rightarrow> db \<Rightarrow> (error + header) \<times> db" where
  "insert_surveyors_counties new d =
     (if \<not> distinct new \<or> set new \<inter> set (surveyors_counties d) \<noteq> {} then (Inl DupEntry, d)
      else if \<not> (fst ` set new \<subseteq> s_id ` set (surveyors d) \<and> snd ` set new \<subseteq> fst ` set (counties d))
        then (Inl NoReferencedRow, d)
      else (Inr \<lparr>affectedRows = length new, insertId = 0\<rparr>,
            d\<lparr>surveyors_counties := surveyors_counties d @ new\<rparr>))"

text \<open>\<open>INSERT INTO surveyors_services (surveyor_id, subcategory_id) VALUES ?\<close>\<close>

definition insert_surveyors_services :: "(int \<times> int) list \<Rightarrow> db \<Rightarrow> (error + header) \<times> db" where
  "insert_surveyors_services new d =
     (if \<not> distinct new \<or> set new \<inter> set (surveyors_services d) \<noteq> {} then (Inl DupEntry, d)
      else if \<not> (fst ` set new \<subseteq> s_id ` set (surveyors d)
                 \<and> snd ` set new \<subseteq> fst ` set (service_subcategories d))
        then (Inl NoReferencedRow, d)
      else (Inr \<lparr>affectedRows = length new, insertId = 0\<rparr>,
            d\<lparr>surveyors_services := surveyors_services d @ new\<rparr>))"

text \<open>\<open>DELETE FROM surveyors_services WHERE surveyor_id = ?\<close>\<close>

definition delete_surveyors_services :: "int \<Rightarrow> db \<Rightarrow> (error + header) \<times> db" where
  "delete_surveyors_services u d =
     (Inr \<lparr>affectedRows = length (filter (\<lambda>(s, c). s = u) (surveyors_services d)), insertId = 0\<rparr>,
      d\<lparr>surveyors_services := filter (\<lambda>(s, c). s \<noteq> u) (surveyors_services d)\<rparr>)"

text \<open>\<open>DELETE FROM surveyors_counties WHERE surveyor_id = ?\<close>\<close>

definition delete_surveyors_counties :: "int \<Rightarrow> db \<Rightarrow> (error + header) \<times> db" where
  "delete_surveyors_counties u d =
     (Inr \<lparr>affectedRows = length (filter (\<lambda>(s, c). s = u) (surveyors_counties d)), insertId = 0\<rparr>,
      d\<lparr>surveyors_counties := filter (\<lambda>(s, c). s \<noteq> u) (surveyors_counties d)\<rparr>)"

text \<open>\<open>DELETE FROM surveyors WHERE id = ?\<close>: refused while an association row refers to
  the user.\<close>

definition delete_surveyor :: "int \<Rightarrow> db \<Rightarrow> (error + header) \<times> db" where
  "delete_surveyor u d =
     (if u \<in> s_id ` set (surveyors d)
         \<and> (u \<in> fst ` set (surveyors_services d) \<or> u \<in> fst ` set (surveyors_counties d))
      then (Inl RowIsReferenced, d)
      else (Inr \<lparr>affectedRows = length (filter (\<lambda>r. s_id r = u) (surveyors d)), insertId = 0\<rparr>,
            d\<lparr>surveyors := filter (\<lambda>r. s_id r \<noteq> u) (surveyors d)\<rparr>))"

text \<open>\<open>UPDATE surveyors SET first_name = ?, last_name = ?, company_name = ?, email = ?,
  phone = ?, address = ?, town = ?, state = ?, zip_code = ? WHERE id = ?\<close>. \<open>affectedRows\<close>
  counts the rows the WHERE clause finds (the driver's default).\<close>

definition set_info ::
  "string option \<Rightarrow> string option \<Rightarrow> string option \<Rightarrow> string option \<Rightarrow> string option \<Rightarrow>
   string option \<Rightarrow> string option \<Rightarrow> string option \<Rightarrow> string option \<Rightarrow> surveyor \<Rightarrow> surveyor" where
  "set_info fnm lnm cn em ph ad tw st zc r =
     r\<lparr>s_first_name := fnm, s_last_name := lnm, s_company_name := cn, s_email := em, s_phone := ph,
       s_address := ad, s_town := tw, s_state := st, s_zip_code := zc\<rparr>"

definition update_surveyor_info ::
  "string option \<Rightarrow> string option \<Rightarrow> string option \<Rightarrow> string option \<Rightarrow> string option \<Rightarrow>
   string option \<Rightarrow> string option \<Rightarrow> string option \<Rightarrow> string option \<Rightarrow> int \<Rightarrow>
   db \<Rightarrow> (error + header) \<times> db" where
  "update_surveyor_info fnm lnm cn em ph ad tw st zc u d =
     (if em \<noteq> None \<and> u \<in> s_id ` set (surveyors d)
         \<and> (\<exists>r \<in> set (surveyors d). s_id r \<noteq> u \<and> s_email r = em)
      then (Inl DupEntry, d)
      else (Inr \<lparr>affectedRows = length (filter (\<lambda>r. s_id r = u) (surveyors d)), insertId = 0\<rparr>,
            d\<lparr>surveyors :=
                map (\<lambda>r. if s_id r = u then set_info fnm lnm cn em ph ad tw st zc r else r)
                    (surveyors d)\<rparr>))"

text \<open>\<open>SELECT password FROM surveyors WHERE id = ?\<close>\<close>

definition select_password :: "int \<Rightarrow> db \<Rightarrow> (error + string option list) \<times> db" where
  "select_password u d = (Inr (map s_password (filter (\<lambda>r. s_id r = u) (surveyors d))), d)"

text \<open>\<open>UPDATE surveyors SET password = ? WHERE id = ?\<close>\<close>

definition update_password :: "string option \<Rightarrow> int \<Rightarrow> db \<Rightarrow> (error + header) \<times> db" where
  "update_password pw u d =
     (Inr \<lparr>affectedRows = length (filter (\<lambda>r. s_id r = u) (surveyors d)), insertId = 0\<rparr>,
      d\<lparr>surveyors := map (\<lambda>r. if s_id r = u then r\<lparr>s_password := pw\<rparr> else r) (surveyors d)\<rparr>)"

text \<open>\<open>SELECT id, email, password FROM surveyors WHERE email = ?\<close>\<close>

definition select_by_email :: "string option \<Rightarrow> db \<Rightarrow> (error + surveyor list) \<times> db" where
  "select_by_email e d = (Inr (filter (\<lambda>r. e \<noteq> None \<and> s_email r = e) (surveyors d)), d)"

text \<open>\<open>SELECT ... FROM surveyors WHERE id = ?\<close>\<close>

definition select_by_id :: "int \<Rightarrow> db \<Rightarrow> (error + surveyor list) \<times> db" where
  "select_by_id u d = (Inr (filter (\<lambda>r. s_id r = u) (surveyors d)), d)"

text \<open>The two joins of \<open>getUserProfile\<close>: the names of a user's subservices with the names of
  their categories, and the names of a user's counties (the order is the server's).\<close>

definition select_services_of :: "int \<Rightarrow> db \<Rightarrow> (error + (string \<times> string) list) \<times> db" where
  "select_services_of u d =
     (Inr (concat (map (\<lambda>(s, sub).
             concat (map (\<lambda>(i, n, c).
               map (\<lambda>(ci, cn). (n, cn)) (filter (\<lambda>(ci, cn). ci = c) (service_categories d)))
               (filter (\<lambda>(i, n, c). i = sub) (service_subcategories d))))
             (filter (\<lambda>(s, sub). s = u) (surveyors_services d)))), d)"

definition select_counties_of :: "int \<Rightarrow> db \<Rightarrow> (error + string list) \<times> db" where
  "select_counties_of u d =
     (Inr (concat (map (\<lambda>(s, c). map snd (filter (\<lambda>(i, n). i = c) (counties d)))
             (filter (\<lambda>(s, c). s = u) (surveyors_counties d)))), d)"


section \<open>Requests, responses and what the libraries compute\<close>

text \<open>
  A request carries the path parameter \<open>id\<close>, the \<open>Authorization\<close> header, the identity
  \<open>req.user\<close> that \<open>authenticateToken\<close> attaches, and the JSON body. A body field is a string
  or missing; the three array fields are lists of names or missing. Of a response only the
  status and the message are kept.
\<close>

record identity =
  user_id :: int
  user_email :: "string option"

record body =
  firstName :: "string option"
  lastName :: "string option"
  companyName :: "string option"
  email :: "string option"
  password :: "string option"
  confirmPassword :: "string option"
  phone :: "string option"
  address :: "string option"
  city :: "string option"
  state :: "string option"
  zipCode :: "string option"
  currentPassword :: "string option"
  newPassword :: "string option"
  mainServices :: "string list option"
  subservices :: "string list option"
  body_counties :: "string list option"

record request =
  params_id :: string
  authorization :: "string option"
  user :: "identity option"
  body :: body

record response =
  status :: nat
  message :: string

text \<open>bcrypt, jsonwebtoken and the validators of express-validator that are not plain string
  tests are libraries: what they compute is a parameter of the model.\<close>

record env =
  bcrypt_hash :: "string \<Rightarrow> string"
  bcrypt_compare :: "string \<Rightarrow> string \<Rightarrow> bool"
  jwt_verify :: "string \<Rightarrow> error + identity"
  jwt_sign :: "int \<Rightarrow> string option \<Rightarrow> string"
  isEmail :: "string \<Rightarrow> bool"
  normalizeEmail :: "string \<Rightarrow> string"
  isMobilePhone :: "string \<Rightarrow> bool"

definition respond :: "nat \<Rightarrow> string \<Rightarrow> ('db, response) io" where
  "respond code msg = return \<lparr>status = code, message = msg\<rparr>"

text \<open>\<open>!v\<close> for a string that may be missing.\<close>

definition falsy :: "string option \<Rightarrow> bool" where
  "falsy v = (v = None \<or> v = Some [])"

text \<open>\<open>v || null\<close>\<close>

definition or_null :: "string option \<Rightarrow> string option" where
  "or_null v = (if falsy v then None else v)"

text \<open>The white space of JavaScript (\<open>\s\<close>, and what \<open>parseInt\<close> skips), as far as an 8-bit
  character can be one: the six blanks of ASCII and the no-break space.\<close>

definition js_space :: "char \<Rightarrow> bool" where
  "js_space c = (is_space c \<or> c = CHR 0xA0)"

text \<open>A JavaScript number is a double: an integer of up to 53 bits is itself, a longer one is
  rounded to 53 bits, to the nearest and to the even one of two that are equally near, and
  is infinite (\<open>None\<close>) from \<open>2 ^ 1024\<close> on.\<close>

fun bit_length :: "nat \<Rightarrow> nat" where
  "bit_length n = (if n = 0 then 0 else Suc (bit_length (n div 2)))"

declare bit_length.simps [simp del]

definition double_of_nat :: "nat \<Rightarrow> nat option" where
  "double_of_nat n =
     (if bit_length n \<le> 53 then Some n
      else
        (let e = bit_length n - 53;
             q = n div 2 ^ e;
             r = n mod 2 ^ e;
             up = (2 ^ (e - 1) < r \<or> (r = 2 ^ (e - 1) \<and> odd q));
             m = (if up then q + 1 else q) * 2 ^ e
         in if 2 ^ 1024 \<le> m then None else Some m))"

definition js_number :: "bool \<Rightarrow> nat \<Rightarrow> jsnum" where
  "js_number negative n =
     (case double_of_nat n of
        Some m \<Rightarrow> Number (if negative then - int m else int m)
      | None \<Rightarrow> if negative then NegInfinity else Infinity)"

text \<open>\<open>parseInt(s)\<close>: leading white space, a sign, \<open>0x\<close> for base 16, then the leading digits;
  \<open>NaN\<close> when there are none, and otherwise the number nearest to what the digits say.\<close>

definition hex_value :: "char \<Rightarrow> nat option" where
  "hex_value c =
     (let n = (of_char c :: nat) in
      if 48 \<le> n \<and> n \<le> 57 then Some (n - 48)
      else if 97 \<le> n \<and> n \<le> 102 then Some (n - 87)
      else if 65 \<le> n \<and> n \<le> 70 then Some (n - 55)
      else None)"

definition hex_number :: "string \<Rightarrow> nat" where
  "hex_number ds = foldl (\<lambda>a c. 16 * a + (case hex_value c of Some v \<Rightarrow> v | None \<Rightarrow> 0)) 0 ds"

definition unsigned_int :: "string \<Rightarrow> nat option" where
  "unsigned_int s =
     (case s of
        a # b # r \<Rightarrow>
          if a = CHR ''0'' \<and> (b = CHR ''x'' \<or> b = CHR ''X'') then
            (let ds = takeWhile (\<lambda>c. hex_value c \<noteq> None) r
             in if ds = [] then None else Some (hex_number ds))
          else
            (let ds = takeWhile is_digit s
             in if ds = [] then None else Some (dec_value ds))
      | _ \<Rightarrow>
          (let ds = takeWhile is_digit s
           in if ds = [] then None else Some (dec_value ds)))"

definition parseInt :: "string \<Rightarrow> jsnum" where
  "parseInt s =
     (case dropWhile js_space s of
        c # r \<Rightarrow>
          if c = CHR ''-'' then (case unsigned_int r of None \<Rightarrow> NaN | Some n \<Rightarrow> js_number True n)
          else if c = CHR ''+'' then (case unsigned_int r of None \<Rightarrow> NaN | Some n \<Rightarrow> js_number False n)
          else (case unsigned_int (c # r) of None \<Rightarrow> NaN | Some n \<Rightarrow> js_number False n)
      | [] \<Rightarrow> NaN)"

text \<open>\<open>s.split(' ')\<close>\<close>

fun split_spaces :: "string \<Rightarrow> string list" where
  "split_spaces [] = [[]]"
| "split_spaces (c # cs) =
     (if c = CHR '' '' then [] # split_spaces cs
      else (case split_spaces cs of p # ps \<Rightarrow> (c # p) # ps | [] \<Rightarrow> [[c]]))"

text \<open>\<open>authHeader && authHeader.split(' ')[1]\<close>\<close>

definition bearer_token :: "string option \<Rightarrow> string option" where
  "bearer_token authHeader =
     (case authHeader of
        None \<Rightarrow> None
      | Some h \<Rightarrow> if h = [] then Some [] else (case split_spaces h of _ # t # _ \<Rightarrow> Some t | _ \<Rightarrow> None))"


section \<open>The controllers\<close>

text \<open>Each controller is one \<open>try { ... } catch (error) { ... } finally { ... }\<close> around its
  statements; an early \<open>return res.status(...)\<close> inside the \<open>try\<close> is the branch of an \<open>if\<close>
  that ends there. The text parameter \<open>req.params.id\<close> reaches an integer column as the
  number the server reads in it.\<close>

definition hashPassword :: "env \<Rightarrow> string option \<Rightarrow> ('db, string) io" where
  "hashPassword env pw =
     (case pw of Some p \<Rightarrow> return (bcrypt_hash env p) | None \<Rightarrow> throw IllegalArguments)"

text \<open>\<open>bcrypt.compare(plain, hash)\<close> throws on an argument that is not a string.\<close>

definition compare_password :: "env \<Rightarrow> string option \<Rightarrow> string option \<Rightarrow> ('db, bool) io" where
  "compare_password env plain hashed =
     (case (plain, hashed) of
        (Some p, Some h) \<Rightarrow> return (bcrypt_compare env p h)
      | _ \<Rightarrow> throw IllegalArguments)"

definition defaultCountyNames :: "string list" where
  "defaultCountyNames = [''Boulder'', ''Broomfield'', ''Gilpin'']"

definition registerUser :: "env \<Rightarrow> request \<Rightarrow> (db, response) io" where
  "registerUser env req =
     bind let_connection (\<lambda>_.
     try_finally
       (try_catch
          (let b = body req in
           if falsy (email b) \<or> falsy (password b) \<or> falsy (confirmPassword b)
              \<or> falsy (firstName b) \<or> falsy (lastName b) \<or> falsy (address b)
              \<or> falsy (city b) \<or> falsy (state b) \<or> falsy (zipCode b)
           then respond 400 ''All required fields must be provided.''
           else if password b \<noteq> confirmPassword b
           then respond 400 ''Passwords do not match.''
           else
             bind getConnection (\<lambda>_.
             bind beginTransaction (\<lambda>_.
             bind (execute_given [email b] (select_id_by_email (email b))) (\<lambda>existingUsers.
             if existingUsers \<noteq> [] then
               bind rollback (\<lambda>_.
               respond 409 ''User with that email already exists.'')
             else
               bind (hashPassword env (password b)) (\<lambda>hashedPassword.
               bind (execute_given
                       [firstName b, lastName b, address b, city b, state b, zipCode b, phone b,
                        email b]
                       (insert_surveyor (firstName b) (lastName b) (address b) (city b)
                          (state b) (zipCode b) (phone b) (email b) (Some hashedPassword)
                          (or_null (companyName b)))) (\<lambda>surveyorResult.
               let surveyorId = insertId surveyorResult in
               bind (execute (select_counties_in defaultCountyNames)) (\<lambda>defaultCounties.
               let surveyorCountiesInserts = map (\<lambda>county. (surveyorId, fst county)) defaultCounties in
               bind (if surveyorCountiesInserts \<noteq> [] then
                       bind (query (insert_surveyors_counties surveyorCountiesInserts)) (\<lambda>_. return ())
                     else
                       console_log ''Could not find default counties (Boulder, Broomfield, Gilpin) in the database. No counties assigned.'') (\<lambda>_.
               bind commit (\<lambda>_.
               respond 201 ''User registered successfully!'')))))))))
          (\<lambda>error.
           bind (if_connection rollback) (\<lambda>_.
           bind (console_log ''Registration error:'') (\<lambda>_.
           respond 500 ''Server error during registration.''))))
       (if_connection release))"

definition generateToken :: "env \<Rightarrow> int \<Rightarrow> string option \<Rightarrow> string" where
  "generateToken env userId mail = jwt_sign env userId mail"

definition loginUser :: "env \<Rightarrow> request \<Rightarrow> (db, response) io" where
  "loginUser env req =
     bind let_connection (\<lambda>_.
     try_finally
       (try_catch
          (let b = body req in
           if falsy (email b) \<or> falsy (password b)
           then respond 400 ''Email and password are required.''
           else
             bind getConnection (\<lambda>_.
             bind (execute_given [email b] (select_by_email (email b))) (\<lambda>users.
             case users of
               [] \<Rightarrow> respond 401 ''Invalid credentials: Email not found.''
             | usr # _ \<Rightarrow>
                 bind (compare_password env (password b) (s_password usr)) (\<lambda>isMatch.
                 if \<not> isMatch then respond 401 ''Invalid credentials: Incorrect password.''
                 else
                   (let token = generateToken env (s_id usr) (s_email usr)
                    in respond 200 ''Login successful!'')))))
          (\<lambda>error.
           bind (console_log ''Login error:'') (\<lambda>_.
           respond 500 ''Server error during login.'')))
       (if_connection release))"

definition getUserProfile :: "env \<Rightarrow> request \<Rightarrow> (db, response) io" where
  "getUserProfile env req =
     bind let_connection (\<lambda>_.
     try_finally
       (try_catch
          (let userId = params_id req in
           if userId = [] then respond 400 ''User ID is required.''
           else
             bind getConnection (\<lambda>_.
             bind (execute (select_by_id (sql_int userId))) (\<lambda>surveyorRows.
             if surveyorRows = [] then respond 404 ''User not found.''
             else
               bind (execute (select_services_of (sql_int userId))) (\<lambda>subserviceRecords.
               bind (execute (select_counties_of (sql_int userId))) (\<lambda>countiesRows.
               respond 200 [])))))
          (\<lambda>error.
           bind (console_log ''Get User Profile error:'') (\<lambda>_.
           respond 500 ''Server error fetching user profile.'')))
       (if_connection release))"

definition updateUserInfo :: "env \<Rightarrow> request \<Rightarrow> (db, response) io" where
  "updateUserInfo env req =
     bind let_connection (\<lambda>_.
     try_finally
       (try_catch
          (let userId = params_id req; b = body req in
           if userId = [] then respond 400 ''User ID is required.''
           else
             bind getConnection (\<lambda>_.
             bind beginTransaction (\<lambda>_.
             bind (execute_given
                     [firstName b, lastName b, email b, address b, city b, state b, zipCode b]
                     (update_surveyor_info (firstName b) (lastName b) (or_null (companyName b))
                        (email b) (or_null (phone b)) (address b) (city b) (state b) (zipCode b)
                        (sql_int userId))) (\<lambda>result.
             if affectedRows result = 0 then
               bind rollback (\<lambda>_.
               respond 404 ''User not found or no changes made.'')
             else
               bind commit (\<lambda>_.
               respond 200 ''User information updated successfully.'')))))
          (\<lambda>error.
           bind (if_connection rollback) (\<lambda>_.
           bind (console_log ''Update User Info error:'') (\<lambda>_.
           respond 500 ''Server error updating user information.''))))
       (if_connection release))"

definition changeUserPassword :: "env \<Rightarrow> request \<Rightarrow> (db, response) io" where
  "changeUserPassword env req =
     bind let_connection (\<lambda>_.
     try_finally
       (try_catch
          (let userId = params_id req; b = body req in
           if userId = [] \<or> falsy (currentPassword b) \<or> falsy (newPassword b)
           then respond 400 ''User ID, current password, and new password are required.''
           else
             bind getConnection (\<lambda>_.
             bind beginTransaction (\<lambda>_.
             bind (execute (select_password (sql_int userId))) (\<lambda>userRows.
             case userRows of
               [] \<Rightarrow>
                 bind rollback (\<lambda>_.
                 respond 404 ''User not found.'')
             | hashedPassword # _ \<Rightarrow>
                 bind (compare_password env (currentPassword b) hashedPassword) (\<lambda>isMatch.
                 if \<not> isMatch then
                   bind rollback (\<lambda>_.
                   respond 401 ''Incorrect current password.'')
                 else
                   bind (hashPassword env (newPassword b)) (\<lambda>newHashedPassword.
                   bind (execute (update_password (Some newHashedPassword) (sql_int userId))) (\<lambda>result.
                   if affectedRows result = 0 then
                     bind rollback (\<lambda>_.
                     respond 500 ''Password update failed. No rows affected.'')
                   else
                     bind commit (\<lambda>_.
                     respond 200 ''Password updated successfully.''))))))))
          (\<lambda>error.
           bind (if_connection rollback) (\<lambda>_.
           bind (console_log ''Change Password error:'') (\<lambda>_.
           respond 500 ''Server error changing password.''))))
       (if_connection release))"

definition updateUserServices :: "env \<Rightarrow> request \<Rightarrow> (db, response) io" where
  "updateUserServices env req =
     bind let_connection (\<lambda>_.
     try_finally
       (try_catch
          (let userId = params_id req; b = body req in
           if userId = [] then respond 400 ''User ID is required.''
           else
             bind getConnection (\<lambda>_.
             bind beginTransaction (\<lambda>_.
             bind (execute (delete_surveyors_services (sql_int userId))) (\<lambda>_.
             bind (case subservices b of
                     Some (n # ns) \<Rightarrow> execute (select_subcategory_ids (n # ns))
                   | _ \<Rightarrow> return []) (\<lambda>subcategoryIds.
             bind (if subcategoryIds \<noteq> [] then
                     (let subcategoryInserts =
                            map (\<lambda>subcategoryId. (sql_int userId, subcategoryId)) subcategoryIds
                      in bind (query (insert_surveyors_services subcategoryInserts)) (\<lambda>_. return ()))
                   else return ()) (\<lambda>_.
             bind commit (\<lambda>_.
             respond 200 ''User services updated successfully.'')))))))
          (\<lambda>error.
           bind (if_connection rollback) (\<lambda>_.
           bind (console_log ''Update User Services error:'') (\<lambda>_.
           respond 500 ''Server error updating user services.''))))
       (if_connection release))"

definition updateUserServiceAreas :: "env \<Rightarrow> request \<Rightarrow> (db, response) io" where
  "updateUserServiceAreas env req =
     bind let_connection (\<lambda>_.
     try_finally
       (try_catch
          (let userId = params_id req; b = body req in
           if userId = [] then respond 400 ''User ID is required.''
           else
             bind getConnection (\<lambda>_.
             bind beginTransaction (\<lambda>_.
             bind (execute (delete_surveyors_counties (sql_int userId))) (\<lambda>_.
             bind (case body_counties b of
                     Some (n # ns) \<Rightarrow> execute (select_county_ids (n # ns))
                   | _ \<Rightarrow> return []) (\<lambda>countyIds.
             bind (if countyIds \<noteq> [] then
                     (let countyInserts = map (\<lambda>countyId. (sql_int userId, countyId)) countyIds
                      in bind (query (insert_surveyors_counties countyInserts)) (\<lambda>_. return ()))
                   else return ()) (\<lambda>_.
             bind commit (\<lambda>_.
             respond 200 ''User service areas updated successfully.'')))))))
          (\<lambda>error.
           bind (if_connection rollback) (\<lambda>_.
           bind (console_log ''Update User Service Areas error:'') (\<lambda>_.
           respond 500 ''Server error updating user service areas.''))))
       (if_connection release))"

definition deleteUser :: "env \<Rightarrow> request \<Rightarrow> (db, response) io" where
  "deleteUser env req =
     bind let_connection (\<lambda>_.
     try_finally
       (try_catch
          (let userId = params_id req in
           if userId = [] then respond 400 ''User ID is required.''
           else
             bind getConnection (\<lambda>_.
             bind beginTransaction (\<lambda>_.
             bind (execute (delete_surveyors_services (sql_int userId))) (\<lambda>_.
             bind (execute (delete_surveyors_counties (sql_int userId))) (\<lambda>_.
             bind (execute (delete_surveyor (sql_int userId))) (\<lambda>result.
             if affectedRows result = 0 then
               bind rollback (\<lambda>_.
               respond 404 ''User not found or already deleted.'')
             else
               bind commit (\<lambda>_.
               respond 200 ''User account deleted successfully.'')))))))
          (\<lambda>error.
           bind (if_connection rollback) (\<lambda>_.
           bind (console_log ''Delete User error:'') (\<lambda>_.
           respond 500 ''Server error deleting user account.''))))
       (if_connection release))"


section \<open>Middleware and routes\<close>

text \<open>A middleware either answers the request or hands it, possibly changed, to the next one
  (\<open>next()\<close>). The model runs the rest of a chain when the middleware has finished. Express
  runs it inside \<open>next()\<close>, which \<open>authenticateToken\<close> calls before its \<open>finally\<close>: a handler
  that runs has asked the pool for its connection before the connection of
  \<open>authenticateToken\<close> goes back, and is given it afterwards. The trace of the model has the
  release first; the answers and the store do not depend on it, and a run that ends before
  the handler (a request refused by a validation, by the authentication or by the ownership
  check) makes its calls in the order of the code.\<close>

type_synonym middleware = "request \<Rightarrow> (db, response + request) io"

definition answer :: "nat \<Rightarrow> string \<Rightarrow> ('db, response + request) io" where
  "answer code msg = return (Inl \<lparr>status = code, message = msg\<rparr>)"

definition verify :: "env \<Rightarrow> string \<Rightarrow> ('db, identity) io" where
  "verify env token = (case jwt_verify env token of Inl e \<Rightarrow> throw e | Inr decoded \<Rightarrow> return decoded)"

definition authenticateToken :: "env \<Rightarrow> middleware" where
  "authenticateToken env req =
     try_catch
       (case bearer_token (authorization req) of
          None \<Rightarrow> answer 401 ''Access token required''
        | Some token \<Rightarrow>
            if token = [] then answer 401 ''Access token required''
            else
              bind (verify env token) (\<lambda>decoded.
              bind let_connection (\<lambda>_.
              try_finally
                (bind getConnection (\<lambda>_.
                 bind (execute (select_by_id (user_id decoded))) (\<lambda>users.
                 if users = [] then answer 401 ''User not found''
                 else return (Inr (req\<lparr>user := Some \<lparr>user_id = user_id decoded,
                                                      user_email = user_email decoded\<rparr>\<rparr>)))))
                (if_connection release))))
       (\<lambda>error.
          if error = JsonWebTokenError then answer 403 ''Invalid token''
          else if error = TokenExpiredError then answer 401 ''Token expired''
          else
            bind (console_log ''Authentication error:'') (\<lambda>_.
            answer 500 ''Authentication error''))"

definition optionalAuth :: "env \<Rightarrow> middleware" where
  "optionalAuth env req =
     try_catch
       (case bearer_token (authorization req) of
          None \<Rightarrow> return (Inr req)
        | Some token \<Rightarrow>
            if token = [] then return (Inr req)
            else
              bind (verify env token) (\<lambda>decoded.
              bind let_connection (\<lambda>_.
              try_finally
                (bind getConnection (\<lambda>_.
                 bind (execute (select_by_id (user_id decoded))) (\<lambda>users.
                 if users \<noteq> [] then
                   return (Inr (req\<lparr>user := Some \<lparr>user_id = user_id decoded,
                                                   user_email = user_email decoded\<rparr>\<rparr>))
                 else return (Inr req))))
                (if_connection release))))
       (\<lambda>error. return (Inr req))"

text \<open>\<open>userIdFromToken !== userIdFromParams\<close>: \<open>req.user?.id\<close> is the id of the identity, an
  integer, or \<open>undefined\<close>; \<open>parseInt(req.params.id)\<close> is a number, infinite or \<open>NaN\<close>; and
  \<open>undefined\<close>, the infinite and \<open>NaN\<close> are not strictly equal to an integer.\<close>

definition ids_differ :: "int option \<Rightarrow> jsnum \<Rightarrow> bool" where
  "ids_differ userIdFromToken userIdFromParams =
     (case (userIdFromToken, userIdFromParams) of
        (Some a, Number b) \<Rightarrow> a \<noteq> b
      | _ \<Rightarrow> True)"

definition checkResourceOwnership :: middleware where
  "checkResourceOwnership req =
     (let userIdFromToken = map_option user_id (user req);
          userIdFromParams = parseInt (params_id req)
      in if ids_differ userIdFromToken userIdFromParams
         then answer 403 ''Access denied: You can only access your own resources''
         else return (Inr req))"

definition authenticateAndOwnResource :: "env \<Rightarrow> middleware list" where
  "authenticateAndOwnResource env = [authenticateToken env, checkResourceOwnership]"

subsection \<open>Validation\<close>

text \<open>The rule lists of \<open>middleware/validation.js\<close>. The string tests are written out as
  express-validator documents them; a missing field is tested as the empty string unless the
  rule is \<open>optional()\<close>, which skips a missing field. \<open>handleValidationErrors\<close> answers 400
  when a rule has failed.\<close>

definition str_of :: "string option \<Rightarrow> string" where
  "str_of v = (case v of None \<Rightarrow> [] | Some s \<Rightarrow> s)"

definition trim :: "string \<Rightarrow> string" where
  "trim s = rev (dropWhile js_space (rev (dropWhile js_space s)))"

definition isLength :: "nat \<Rightarrow> nat option \<Rightarrow> string \<Rightarrow> bool" where
  "isLength mn mx s = (mn \<le> length s \<and> (case mx of None \<Rightarrow> True | Some m \<Rightarrow> length s \<le> m))"

text \<open>\<open>/^(?=.*[a-z])(?=.*[A-Z])(?=.*\d)/\<close>: a lower-case letter, an upper-case letter and a
  digit, each before the first line break.\<close>

definition matches_strength :: "string \<Rightarrow> bool" where
  "matches_strength s =
     (let line = takeWhile (\<lambda>c. c \<noteq> CHR 0x0A \<and> c \<noteq> CHR 0x0D) s in
      list_ex (\<lambda>c. 97 \<le> (of_char c :: nat) \<and> (of_char c :: nat) \<le> 122) line
      \<and> list_ex (\<lambda>c. 65 \<le> (of_char c :: nat) \<and> (of_char c :: nat) \<le> 90) line
      \<and> list_ex is_digit line)"

text \<open>\<open>isInt({ min: 1 })\<close>: an optional sign, decimal digits, and a value of at least 1.\<close>

definition isInt_min1 :: "string \<Rightarrow> bool" where
  "isInt_min1 s =
     (case s of
        [] \<Rightarrow> False
      | c # r \<Rightarrow>
          if c = CHR ''-'' then r \<noteq> [] \<and> list_all is_digit r \<and> 1 \<le> - int (dec_value r)
          else if c = CHR ''+'' then r \<noteq> [] \<and> list_all is_digit r \<and> 1 \<le> int (dec_value r)
          else list_all is_digit s \<and> 1 \<le> int (dec_value s))"

text \<open>A rule on an optional field, and the sanitizer of one.\<close>

definition optional :: "(string \<Rightarrow> bool) \<Rightarrow> string option \<Rightarrow> bool" where
  "optional rule v = (case v of None \<Rightarrow> True | Some s \<Rightarrow> rule s)"

definition handleValidationErrors :: "bool \<Rightarrow> request \<Rightarrow> response + request" where
  "handleValidationErrors ok req =
     (if ok then Inr req else Inl \<lparr>status = 400, message = ''Validation failed''\<rparr>)"

definition validateRegistration :: "env \<Rightarrow> request \<Rightarrow> response + request" where
  "validateRegistration env req =
     (let b = body req;
          ok = (isLength 1 (Some 50) (trim (str_of (firstName b)))
                \<and> isLength 1 (Some 50) (trim (str_of (lastName b)))
                \<and> isEmail env (str_of (email b))
                \<and> isLength 8 None (str_of (password b))
                \<and> matches_strength (str_of (password b))
                \<and> \<not> (confirmPassword b \<noteq> password b)
                \<and> optional (isMobilePhone env) (phone b)
                \<and> isLength 1 (Some 200) (trim (str_of (address b)))
                \<and> isLength 1 (Some 100) (trim (str_of (city b)))
                \<and> isLength 2 (Some 2) (trim (str_of (state b)))
                \<and> isLength 5 (Some 10) (trim (str_of (zipCode b)))
                \<and> optional (\<lambda>s. isLength 0 (Some 100) (trim s)) (companyName b))
      in handleValidationErrors ok
           (req\<lparr>body := b\<lparr>firstName := Some (trim (str_of (firstName b))),
                            lastName := Some (trim (str_of (lastName b))),
                            email := Some (normalizeEmail env (str_of (email b))),
                            address := Some (trim (str_of (address b))),
                            city := Some (trim (str_of (city b))),
                            state := Some (trim (str_of (state b))),
                            zipCode := Some (trim (str_of (zipCode b))),
                            companyName := map_option trim (companyName b)\<rparr>\<rparr>))"

definition validateLogin :: "env \<Rightarrow> request \<Rightarrow> response + request" where
  "validateLogin env req =
     (let b = body req;
          ok = (isEmail env (str_of (email b)) \<and> str_of (password b) \<noteq> [])
      in handleValidationErrors ok
           (req\<lparr>body := b\<lparr>email := Some (normalizeEmail env (str_of (email b)))\<rparr>\<rparr>))"

definition validateUserId :: "request \<Rightarrow> response + request" where
  "validateUserId req = handleValidationErrors (isInt_min1 (params_id req)) req"

definition validateUserProfileUpdate :: "env \<Rightarrow> request \<Rightarrow> response + request" where
  "validateUserProfileUpdate env req =
     (let b = body req;
          ok = (isInt_min1 (params_id req)
                \<and> optional (\<lambda>s. isLength 1 (Some 50) (trim s)) (firstName b)
                \<and> optional (\<lambda>s. isLength 1 (Some 50) (trim s)) (lastName b)
                \<and> optional (isEmail env) (email b)
                \<and> optional (isMobilePhone env) (phone b)
                \<and> optional (\<lambda>s. isLength 1 (Some 200) (trim s)) (address b)
                \<and> optional (\<lambda>s. isLength 1 (Some 100) (trim s)) (city b)
                \<and> optional (\<lambda>s. isLength 2 (Some 2) (trim s)) (state b)
                \<and> optional (\<lambda>s. isLength 5 (Some 10) (trim s)) (zipCode b)
                \<and> optional (\<lambda>s. isLength 0 (Some 100) (trim s)) (companyName b))
      in handleValidationErrors ok
           (req\<lparr>body := b\<lparr>firstName := map_option trim (firstName b),
                            lastName := map_option trim (lastName b),
                            email := map_option (normalizeEmail env) (email b),
                            address := map_option trim (address b),
                            city := map_option trim (city b),
                            state := map_option trim (state b),
                            zipCode := map_option trim (zipCode b),
                            companyName := map_option trim (companyName b)\<rparr>\<rparr>))"

definition validatePasswordChange :: "request \<Rightarrow> response + request" where
  "validatePasswordChange req =
     (let b = body req;
          ok = (isInt_min1 (params_id req)
                \<and> str_of (currentPassword b) \<noteq> []
                \<and> isLength 8 None (str_of (newPassword b))
                \<and> matches_strength (str_of (newPassword b)))
      in handleValidationErrors ok req)"

subsection \<open>Routes\<close>

definition validator :: "(request \<Rightarrow> response + request) \<Rightarrow> middleware" where
  "validator v req = return (v req)"

fun run_chain :: "middleware list \<Rightarrow> (request \<Rightarrow> (db, response) io) \<Rightarrow> request \<Rightarrow> (db, response) io" where
  "run_chain [] handler req = handler req"
| "run_chain (m # ms) handler req =
     bind (m req) (\<lambda>step.
       case step of
         Inl res \<Rightarrow> return res
       | Inr req' \<Rightarrow> run_chain ms handler req')"

text \<open>\<open>routes/registrationRoutes.js\<close>:
  \<open>router.post('/register-user', validateRegistration, registerUser)\<close>\<close>

definition registrationRoutes :: "env \<Rightarrow> request \<Rightarrow> (db, response) io" where
  "registrationRoutes env = run_chain [validator (validateRegistration env)] (registerUser env)"

text \<open>\<open>routes/userProfileRoutes.js\<close>: the six routes, each a method, a path, the chain of
  middleware and the handler; a request to the route runs \<open>run_chain\<close> on them.\<close>

definition userProfileRoutes ::
  "env \<Rightarrow> (string \<times> string \<times> middleware list \<times> (request \<Rightarrow> (db, response) io)) list" where
  "userProfileRoutes env =
     [(''GET'', ''/:id'',
         [validator validateUserId] @ authenticateAndOwnResource env, getUserProfile env),
      (''PUT'', ''/info/:id'',
         [validator validateUserId, validator (validateUserProfileUpdate env)]
         @ authenticateAndOwnResource env, updateUserInfo env),
      (''PATCH'', ''/password/:id'',
         [validator validateUserId, validator validatePasswordChange]
         @ authenticateAndOwnResource env, changeUserPassword env),
      (''PUT'', ''/services/:id'',
         [validator validateUserId] @ authenticateAndOwnResource env, updateUserServices env),
      (''PUT'', ''/areas/:id'',
         [validator validateUserId] @ authenticateAndOwnResource env, updateUserServiceAreas env),
      (''DELETE'', ''/:id'',
         [validator validateUserId] @ authenticateAndOwnResource env, deleteUser env)]"

section \<open>What is observed of a run\<close>

text \<open>\<open>wp m Q w\<close>: the run of \<open>m\<close> from \<open>w\<close> ends with a result and a world that satisfy
  \<open>Q\<close>.\<close>

definition wp :: "('db, 'a) io \<Rightarrow> ((error + 'a) \<Rightarrow> 'db world \<Rightarrow> bool) \<Rightarrow> 'db world \<Rightarrow> bool" where
  "wp m Q w = (case m w of (r, w') \<Rightarrow> Q r w')"

text \<open>A driver call of the run failed.\<close>

definition failed :: "(call \<times> bool) list \<Rightarrow> bool" where
  "failed cs = list_ex (\<lambda>e. \<not> snd e) cs"

text \<open>The controller answered with its success status.\<close>

definition succeeded :: "error + response \<Rightarrow> bool" where
  "succeeded out = (case out of Inl e \<Rightarrow> False | Inr r \<Rightarrow> status r = 200 \<or> status r = 201)"

text \<open>The pool's view of the calls: connections handed out, connections given back.\<close>

definition acquired :: "(call \<times> bool) list \<Rightarrow> nat" where
  "acquired cs = length (filter (\<lambda>e. e = (GetConnection, True)) cs)"

definition released :: "(call \<times> bool) list \<Rightarrow> nat" where
  "released cs = length (filter (\<lambda>e. fst e = Release) cs)"

text \<open>One connection's life: the pool refuses it, or it is handed out, used, and given back
  once, as the last call.\<close>

definition session :: "(call \<times> bool) list \<Rightarrow> bool" where
  "session cs =
     (case cs of
        [] \<Rightarrow> False
      | e # rest \<Rightarrow>
          if e = (GetConnection, False) then rest = []
          else e = (GetConnection, True) \<and> rest \<noteq> [] \<and> last rest = (Release, True)
               \<and> list_all (\<lambda>e. fst e \<noteq> GetConnection \<and> fst e \<noteq> Release) (butlast rest))"

subsection \<open>Example data\<close>

definition people :: gstore where
  "people =
     \<lparr>tables = (\<lambda>t. if t = ''people'' then map (\<lambda>i. [(''id'', Num i), (''active'', Num 1)]) [1..25] else []),
      auto_increment = (\<lambda>t. if t = ''people'' then 26 else 1),
      ordered = (\<lambda>by rs. rs)\<rparr>"

definition healthy :: "'db \<Rightarrow> 'db world" where
  "healthy d = \<lparr>committed = d, tx = None, faults = {}, trace = [], console = [], connection = False\<rparr>"

text \<open>What every run of a transactional controller satisfies, from the world \<open>w\<close> it starts
  in: a call that threw rules out the success answer; without the success answer nothing was
  committed; and once the transaction had begun, a rollback was issued, which, unless a
  rollback call itself failed, closed the transaction.\<close>

definition write_post :: "'db world \<Rightarrow> error + response \<Rightarrow> 'db world \<Rightarrow> bool" where
  "write_post w out w' =
     (let cs = calls_since w w' in
      (failed cs \<longrightarrow> \<not> succeeded out)
      \<and> (\<not> succeeded out \<longrightarrow> committed w' = committed w \<and> (Commit, True) \<notin> set cs)
      \<and> ((BeginTransaction, True) \<in> set cs \<and> \<not> succeeded out \<longrightarrow>
            list_ex (\<lambda>e. fst e = Rollback) cs \<and> ((Rollback, False) \<notin> set cs \<longrightarrow> tx w' = None)))"

subsection \<open>Kinds of runs\<close>

text \<open>The run from \<open>w\<close> to \<open>w'\<close> added the calls \<open>cs\<close> to the trace, and nothing else
  happened to the trace or to the faults ahead.\<close>

definition adds :: "'db world \<Rightarrow> 'db world \<Rightarrow> (call \<times> bool) list \<Rightarrow> bool" where
  "adds w w' cs = (faults w' = faults w \<and> trace w' = trace w @ cs)"

definition clean :: "(call \<times> bool) list \<Rightarrow> bool" where
  "clean cs = list_all (\<lambda>e. fst e \<noteq> GetConnection \<and> fst e \<noteq> Release) cs"

text \<open>A computation that works on the connection it is given: it neither asks the pool for
  one nor gives one back.\<close>

definition uses_connection :: "('db, 'a) io \<Rightarrow> bool" where
  "uses_connection m =
     (\<forall>w r w'. m w = (r, w') \<longrightarrow>
        connection w' = connection w \<and> (\<exists>cs. adds w w' cs \<and> clean cs))"

text \<open>A \<open>catch\<close> block: it calls the driver only on the connection it holds, if it holds
  one.\<close>

definition handles :: "('db, 'a) io \<Rightarrow> bool" where
  "handles m =
     (\<forall>w r w'. m w = (r, w') \<longrightarrow>
        connection w' = connection w
        \<and> (\<exists>cs. adds w w' cs \<and> clean cs \<and> (\<not> connection w \<longrightarrow> cs = [])))"

text \<open>The body of a \<open>try\<close> that starts without a connection: it returns before asking for one,
  or the pool refuses, or it holds the one connection it was given when it ends.\<close>

definition opens :: "('db, 'a) io \<Rightarrow> bool" where
  "opens m =
     (\<forall>w r w'. \<not> connection w \<longrightarrow> m w = (r, w') \<longrightarrow>
         (adds w w' [] \<and> \<not> connection w')
         \<or> (adds w w' [(GetConnection, False)] \<and> \<not> connection w')
         \<or> (\<exists>mid. adds w w' ((GetConnection, True) # mid) \<and> clean mid \<and> connection w'))"

text \<open>Statements inside an open transaction: they leave it open and publish nothing.\<close>

definition tx_step :: "('db, 'a) io \<Rightarrow> bool" where
  "tx_step m =
     (\<forall>w r w'. tx w \<noteq> None \<longrightarrow> m w = (r, w') \<longrightarrow>
        connection w' = connection w \<and> tx w' \<noteq> None \<and> committed w' = committed w
        \<and> (\<exists>cs. adds w w' cs \<and> list_all (\<lambda>e. fst e = Execute) cs \<and> (\<not> isl r \<longrightarrow> \<not> failed cs)))"

text \<open>The rest of a transaction: it ends with the commit and the success answer, or with a
  rollback and another answer, or it throws.\<close>

definition tx_finish :: "('db, response) io \<Rightarrow> bool" where
  "tx_finish m =
     (\<forall>w r w'. tx w \<noteq> None \<longrightarrow> connection w \<longrightarrow> m w = (r, w') \<longrightarrow>
        connection w' \<and>
        (\<exists>cs. adds w w' cs \<and>
           (if succeeded r then \<not> failed cs
            else committed w' = committed w \<and> (Commit, True) \<notin> set cs
                 \<and> (\<not> isl r \<longrightarrow> (Rollback, True) \<in> set cs \<and> tx w' = None))))"

text \<open>The body of a transactional controller, started without a connection.\<close>

definition body_ok :: "('db, response) io \<Rightarrow> bool" where
  "body_ok m =
     (\<forall>w r w'. \<not> connection w \<longrightarrow> m w = (r, w') \<longrightarrow>
        (\<exists>cs. adds w w' cs \<and>
           ((BeginTransaction, True) \<in> set cs \<longrightarrow> connection w') \<and>
           (if succeeded r then \<not> failed cs
            else committed w' = committed w \<and> (Commit, True) \<notin> set cs
                 \<and> (\<not> isl r \<and> (BeginTransaction, True) \<in> set cs \<longrightarrow>
                       (Rollback, True) \<in> set cs \<and> tx w' = None))))"

subsection \<open>The operations the properties range over\<close>

text \<open>The multi-step writes: replace-services, replace-counties, registration, profile-info
  update, password change, account deletion.\<close>

definition multi_step_writes :: "(env \<Rightarrow> request \<Rightarrow> (db, response) io) list" where
  "multi_step_writes =
     [updateUserServices, updateUserServiceAreas, registerUser, updateUserInfo,
      changeUserPassword, deleteUser]"

subsection \<open>More example data\<close>

definition example_env :: env where
  "example_env =
     \<lparr>bcrypt_hash = (\<lambda>p. ''hashed:'' @ p),
      bcrypt_compare = (\<lambda>p h. h = ''hashed:'' @ p),
      jwt_verify = (\<lambda>t. if t = ''token-of-7''
                         then Inr \<lparr>user_id = 7, user_email = Some ''ann@example.com''\<rparr>
                         else Inl JsonWebTokenError),
      jwt_sign = (\<lambda>i e. ''token-of-7''),
      isEmail = (\<lambda>s. CHR ''@'' \<in> set s),
      normalizeEmail = (\<lambda>s. s),
      isMobilePhone = (\<lambda>s. list_all is_digit s)\<rparr>"

definition ann :: surveyor where
  "ann =
     \<lparr>s_id = 7, s_first_name = Some ''Ann'', s_last_name = Some ''Lee'',
      s_address = Some ''1 Main St'', s_town = Some ''Boulder'', s_state = Some ''CO'',
      s_zip_code = Some ''80301'', s_phone = Some ''3035550100'',
      s_email = Some ''ann@example.com'', s_password = Some ''hashed:Secret123'',
      s_company_name = Some ''Lee Surveying''\<rparr>"

definition example_db :: db where
  "example_db =
     \<lparr>surveyors = [ann], next_surveyor_id = 8,
      service_categories = [(1, ''Surveying and Mapping'')],
      service_subcategories = [(1, ''Boundary Survey'', 1), (2, ''ALTA Survey'', 1)],
      counties = [(1, ''Boulder''), (2, ''Adams'')],
      surveyors_services = [(7, 1)],
      surveyors_counties = [(7, 1)]\<rparr>"

definition empty_body :: body where
  "empty_body =
     \<lparr>firstName = None, lastName = None, companyName = None, email = None, password = None,
      confirmPassword = None, phone = None, address = None, city = None, state = None,
      zipCode = None, currentPassword = None, newPassword = None, mainServices = None,
      subservices = None, body_counties = None\<rparr>"

text \<open>A request for user 7 whose body names one subservice of the reference table and one
  that is not in it, and the same for counties.\<close>

definition replace_request :: request where
  "replace_request =
     \<lparr>params_id = ''7'', authorization = Some ''Bearer token-of-7'', user = None,
      body = empty_body\<lparr>subservices := Some [''ALTA Survey'', ''Drone Mapping''],
                        body_counties := Some [''Adams'', ''Atlantis'']\<rparr>\<rparr>"

text \<open>A run of the computation takes at most one connection from the pool and gives it back
  once, as its last call; \<open>paginate\<close> does so up to twice in a row.\<close>

definition one_connection :: "('db, 'a) io \<Rightarrow> bool" where
  "one_connection m =
     (\<forall>w r w'. m w = (r, w') \<longrightarrow>
        (calls_since w w' = [] \<or> session (calls_since w w'))
        \<and> acquired (calls_since w w') \<le> 1
        \<and> released (calls_since w w') = acquired (calls_since w w'))"

definition two_connections :: "('db, 'a) io \<Rightarrow> bool" where
  "two_connections m =
     (\<forall>w r w'. m w = (r, w') \<longrightarrow>
        (\<exists>a b. calls_since w w' = a @ b \<and> session a \<and> (b = [] \<or> session b))
        \<and> acquired (calls_since w w') \<le> 2
        \<and> released (calls_since w w') = acquired (calls_since w w'))"

definition controllers :: "(env \<Rightarrow> request \<Rightarrow> (db, response) io) list" where
  "controllers =
     [registerUser, loginUser, getUserProfile, updateUserInfo, changeUserPassword,
      updateUserServices, updateUserServiceAreas, deleteUser]"

text \<open>A complete registration payload for an email that is not taken.\<close>

definition registration_request :: request where
  "registration_request =
     \<lparr>params_id = [], authorization = None, user = None,
      body = empty_body\<lparr>firstName := Some ''Bob'', lastName := Some ''Ray'',
                        companyName := Some ''Ray Land'', email := Some ''bob@example.com'',
                        password := Some ''Secret123'', confirmPassword := Some ''Secret123'',
                        phone := Some ''3035550111'', address := Some ''2 Oak Ave'',
                        city := Some ''Golden'', state := Some ''CO'', zipCode := Some ''80401''\<rparr>\<rparr>"


text \<open>The rows of an association table that belong to user \<open>u\<close>, and the name list of a
  request body (a missing list counts as the empty one).\<close>

definition associations :: "int \<Rightarrow> (int \<times> int) list \<Rightarrow> (int \<times> int) set" where
  "associations u t = set (filter (\<lambda>p. fst p = u) t)"

definition names_of :: "string list option \<Rightarrow> string list" where
  "names_of l = (case l of None \<Rightarrow> [] | Some ns \<Rightarrow> ns)"

text \<open>The ids of the reference rows that carry one of the names.\<close>

definition known_subcategories :: "string list \<Rightarrow> db \<Rightarrow> int set" where
  "known_subcategories names d =
     set (map fst (filter (\<lambda>r. fst (snd r) \<in> set names) (service_subcategories d)))"

definition known_counties :: "string list \<Rightarrow> db \<Rightarrow> int set" where
  "known_counties names d = set (map fst (filter (\<lambda>r. snd r \<in> set names) (counties d)))"

text \<open>A request for user 7 with empty name lists.\<close>

definition clear_request :: request where
  "clear_request =
     \<lparr>params_id = ''7'', authorization = Some ''Bearer token-of-7'', user = None,
      body = empty_body\<lparr>subservices := Some [], body_counties := Some []\<rparr>\<rparr>"

text \<open>The complete registration payload, with a confirmation that differs from the password.\<close>

definition mismatched_request :: request where
  "mismatched_request =
     registration_request\<lparr>body := (body registration_request)\<lparr>confirmPassword := Some ''Secret124''\<rparr>\<rparr>"

text \<open>The user rows that carry an email, and a registration payload that passes the
  controller's own checks.\<close>

definition rows_with_email :: "string option \<Rightarrow> db \<Rightarrow> surveyor list" where
  "rows_with_email e d = filter (\<lambda>r. s_email r = e) (surveyors d)"

definition complete :: "body \<Rightarrow> bool" where
  "complete b =
     (\<not> falsy (email b) \<and> \<not> falsy (password b) \<and> \<not> falsy (confirmPassword b)
      \<and> \<not> falsy (firstName b) \<and> \<not> falsy (lastName b) \<and> \<not> falsy (address b)
      \<and> \<not> falsy (city b) \<and> \<not> falsy (state b) \<and> \<not> falsy (zipCode b)
      \<and> password b = confirmPassword b)"

text \<open>Ann's email on Bob's payload.\<close>

definition duplicate_request :: request where
  "duplicate_request =
     registration_request\<lparr>body := (body registration_request)\<lparr>email := Some ''ann@example.com''\<rparr>\<rparr>"

text \<open>A store whose reference table has none of the default counties.\<close>

definition sparse_db :: db where
  "sparse_db = example_db\<lparr>counties := [(1, ''Adams''), (2, ''Denver'')]\<rparr>"

text \<open>What a chain of middleware does before the handler: the answer of the first one that
  answers, or the request as the last one passes it on.\<close>

fun before_handler :: "middleware list \<Rightarrow> middleware" where
  "before_handler [] req = return (Inr req)"
| "before_handler (m # ms) req =
     bind (m req) (\<lambda>step.
       case step of
         Inl res \<Rightarrow> return (Inl res)
       | Inr req' \<Rightarrow> before_handler ms req')"

text \<open>The identity attached to the request is the owner of the resource that the path names:
  its id is the number that the path id reads as.\<close>

definition owner :: "request \<Rightarrow> bool" where
  "owner req =
     (case user req of
        None \<Rightarrow> False
      | Some a \<Rightarrow> parseInt (params_id req) = Number (user_id a))"

text \<open>What the chain of an owner-only route does with a request before its last middleware:
  it makes no change to the committed store, and either a validation or the authentication
  answers, with 400, 401, 403 or 500, and that is the answer of the route; or the request is
  passed on with its path id and with the identity of its token attached, and then, when
  the id of that identity is not the number the path id reads as, the route answers 403
  and makes no further call.\<close>

definition guarded ::
  "env \<Rightarrow> middleware list \<Rightarrow> (request \<Rightarrow> (db, response) io) \<Rightarrow> request \<Rightarrow> db world \<Rightarrow> bool" where
  "guarded env chain handler req w =
     (\<exists>step w1.
        before_handler (butlast chain) req w = (Inr step, w1)
        \<and> committed w1 = committed w
        \<and> (case step of
              Inl res \<Rightarrow>
                status res \<in> {400, 401, 403, 500}
                \<and> run_chain chain handler req w = (Inr res, w1)
            | Inr req' \<Rightarrow>
                params_id req' = params_id req
                \<and> (\<exists>token a.
                      bearer_token (authorization req) = Some token
                      \<and> jwt_verify env token = Inr a
                      \<and> user req' = Some \<lparr>user_id = user_id a, user_email = user_email a\<rparr>
                      \<and> (parseInt (params_id req) \<noteq> Number (user_id a) \<longrightarrow>
                            run_chain chain handler req w =
                              (Inr \<lparr>status = 403,
                                    message = ''Access denied: You can only access your own resources''\<rparr>,
                               w1)))))"

text \<open>Ann, with her token, asks for the resource of user 8, who does not exist.\<close>

definition foreign_request :: request where
  "foreign_request =
     \<lparr>params_id = ''8'', authorization = Some ''Bearer token-of-7'', user = None,
      body = empty_body\<rparr>"

definition authenticated :: "db world" where
  "authenticated =
     (healthy example_db)\<lparr>trace := [(GetConnection, True), (Execute, True), (Release, True)],
                           connection := True\<rparr>"

text \<open>The same request without a token.\<close>

definition anonymous_request :: request where
  "anonymous_request = foreign_request\<lparr>authorization := None\<rparr>"

text \<open>Bob's payload without the phone, which the validation of the route does not ask for.\<close>

definition phoneless_request :: request where
  "phoneless_request =
     registration_request\<lparr>body := (body registration_request)\<lparr>phone := None\<rparr>\<rparr>"





section \<open>Rules for runs\<close>

lemma wp_return: "wp (return x) Q w = Q (Inr x) w"
  by (simp add: wp_def return_def)

lemma wp_respond: "wp (respond c m) Q w = Q (Inr \<lparr>status = c, message = m\<rparr>) w"
  by (simp add: wp_def return_def respond_def)

lemma wp_answer: "wp (answer c m) Q w = Q (Inr (Inl \<lparr>status = c, message = m\<rparr>)) w"
  by (simp add: wp_def return_def answer_def)

lemma wp_throw: "wp (throw e) Q w = Q (Inl e) w"
  by (simp add: wp_def throw_def)

lemma wp_bind:
  "wp (bind m f) Q w = wp m (\<lambda>r w'. case r of Inl e \<Rightarrow> Q (Inl e) w' | Inr x \<Rightarrow> wp (f x) Q w') w"
  by (simp add: wp_def bind_def split: prod.splits sum.splits)

lemma wp_try_catch:
  "wp (try_catch m h) Q w = wp m (\<lambda>r w'. case r of Inl e \<Rightarrow> wp (h e) Q w' | Inr x \<Rightarrow> Q (Inr x) w') w"
  by (simp add: wp_def try_catch_def split: prod.splits sum.splits)

lemma wp_try_finally:
  "wp (try_finally m fin) Q w =
     wp m (\<lambda>r w'. wp fin (\<lambda>r2 w''. case r2 of Inl e \<Rightarrow> Q (Inl e) w'' | Inr _ \<Rightarrow> Q r w'') w') w"
  by (simp add: wp_def try_finally_def split: prod.splits sum.splits)

lemma wp_console_log: "wp (console_log l) Q w = Q (Inr ()) (w\<lparr>console := console w @ [l]\<rparr>)"
  by (simp add: wp_def console_log_def)

lemma wp_attempt:
  "wp (attempt c) Q w =
     (if length (trace w) \<in> faults w then Q (Inl StoreFailure) (w\<lparr>trace := trace w @ [(c, False)]\<rparr>)
      else Q (Inr ()) (w\<lparr>trace := trace w @ [(c, True)]\<rparr>))"
  by (simp add: wp_def attempt_def Let_def)

lemma wp_let_connection: "wp let_connection Q w = Q (Inr ()) (w\<lparr>connection := False\<rparr>)"
  by (simp add: wp_def let_connection_def)

lemma wp_getConnection:
  "wp getConnection Q w =
     (if length (trace w) \<in> faults w
      then Q (Inl StoreFailure) (w\<lparr>trace := trace w @ [(GetConnection, False)]\<rparr>)
      else Q (Inr ()) (w\<lparr>trace := trace w @ [(GetConnection, True)], tx := None, connection := True\<rparr>))"
  by (simp add: getConnection_def wp_bind wp_attempt) (simp add: wp_def)

lemma wp_beginTransaction:
  "wp beginTransaction Q w =
     (if length (trace w) \<in> faults w
      then Q (Inl StoreFailure) (w\<lparr>trace := trace w @ [(BeginTransaction, False)]\<rparr>)
      else Q (Inr ())
             (case tx w of
                None \<Rightarrow> w\<lparr>trace := trace w @ [(BeginTransaction, True)], tx := Some (committed w)\<rparr>
              | Some d \<Rightarrow> w\<lparr>trace := trace w @ [(BeginTransaction, True)], committed := d, tx := Some d\<rparr>))"
  by (simp add: beginTransaction_def wp_bind wp_attempt) (simp add: wp_def split: option.splits)

lemma wp_execute:
  "wp (execute stmt) Q w =
     (if length (trace w) \<in> faults w
      then Q (Inl StoreFailure) (w\<lparr>trace := trace w @ [(Execute, False)]\<rparr>)
      else (case tx w of
              Some d \<Rightarrow> Q (fst (stmt d))
                         (w\<lparr>trace := trace w @ [(Execute, \<not> isl (fst (stmt d)))],
                            tx := Some (snd (stmt d))\<rparr>)
            | None \<Rightarrow> Q (fst (stmt (committed w)))
                       (w\<lparr>trace := trace w @ [(Execute, \<not> isl (fst (stmt (committed w))))],
                          committed := snd (stmt (committed w))\<rparr>)))"
  by (simp add: wp_def execute_def split: option.splits prod.splits)

lemma wp_execute_given:
  "wp (execute_given params stmt) Q w =
     (if None \<in> set params then Q (Inl TypeError) (w\<lparr>trace := trace w @ [(Execute, False)]\<rparr>)
      else wp (execute stmt) Q w)"
  by (simp add: wp_def execute_given_def)

lemma wp_query: "wp (query stmt) Q w = wp (execute stmt) Q w"
  by (simp add: query_def)

lemma wp_commit:
  "wp commit Q w =
     (if length (trace w) \<in> faults w
      then Q (Inl StoreFailure) (w\<lparr>trace := trace w @ [(Commit, False)]\<rparr>)
      else Q (Inr ())
             (case tx w of
                None \<Rightarrow> w\<lparr>trace := trace w @ [(Commit, True)]\<rparr>
              | Some d \<Rightarrow> w\<lparr>trace := trace w @ [(Commit, True)], committed := d, tx := None\<rparr>))"
  by (simp add: commit_def wp_bind wp_attempt) (simp add: wp_def split: option.splits)

lemma wp_rollback:
  "wp rollback Q w =
     (if length (trace w) \<in> faults w
      then Q (Inl StoreFailure) (w\<lparr>trace := trace w @ [(Rollback, False)]\<rparr>)
      else Q (Inr ()) (w\<lparr>trace := trace w @ [(Rollback, True)], tx := None\<rparr>))"
  by (simp add: rollback_def wp_bind wp_attempt) (simp add: wp_def)

lemma wp_release: "wp release Q w = Q (Inr ()) (w\<lparr>trace := trace w @ [(Release, True)]\<rparr>)"
  by (simp add: wp_def release_def)

lemma wp_if_connection:
  "wp (if_connection m) Q w = (if connection w then wp m Q w else Q (Inr ()) w)"
  by (simp add: wp_def if_connection_def)

lemma wp_if: "wp (if b then m1 else m2) Q w = (if b then wp m1 Q w else wp m2 Q w)"
  by simp

lemmas wp_rules = wp_return wp_respond wp_answer wp_throw wp_bind wp_try_catch wp_try_finally
  wp_console_log wp_let_connection wp_getConnection wp_beginTransaction wp_execute_given
  wp_execute wp_query
  wp_commit wp_rollback wp_release wp_if_connection wp_if

lemma wp_run: "wp m Q w \<Longrightarrow> m w = (r, w') \<Longrightarrow> Q r w'"
  by (simp add: wp_def)

lemma wp_result: "wp m (\<lambda>r w'. r = r0 \<and> P w') w \<Longrightarrow> \<exists>w'. m w = (r0, w') \<and> P w'"
  by (cases "m w") (simp add: wp_def)


section \<open>DatabaseService\<close>

lemma insert_never_returns: "wp (insert table dat) (\<lambda>r w'. \<forall>x. r \<noteq> Inr x) w"
  by (simp add: insert_def executeQuery_def first_of_def insert_into_def wp_rules Let_def)

lemma updateById_never_returns: "wp (updateById table i dat) (\<lambda>r w'. \<forall>x. r \<noteq> Inr x) w"
  by (simp add: updateById_def executeQuery_def first_of_def update_by_id_def wp_rules Let_def)

text \<open>
  C7. \<open>insert\<close> is documented to return the insert result with its \<open>insertId\<close>, and
  \<open>updateById\<close> the update result with its \<open>affectedRows\<close>. \<open>executeQuery\<close> has already
  taken the result out of the driver's answer (\<open>const [results] = ...\<close>); both methods take it
  apart a second time (\<open>const [result] = await this.executeQuery(...)\<close>), and a result header
  is not an array. On a healthy store \<open>insert\<close> therefore adds the row, with the next key, and
  then throws a \<open>TypeError\<close> instead of returning; \<open>updateById\<close> likewise throws after the
  update. (The two lemmas above: neither ever returns a value.)
\<close>

theorem insert_throws_after_inserting:
  "fst (insert ''people'' [(''active'', Num 0)] (healthy people)) = Inl TypeError
   \<and> tables (committed (snd (insert ''people'' [(''active'', Num 0)] (healthy people)))) ''people''
       = tables people ''people'' @ [[(''id'', Num 26), (''active'', Num 0)]]
   \<and> fst (updateById ''people'' (Num 3) [(''active'', Num 0)] (healthy people)) = Inl TypeError"
  by (simp add: insert_def updateById_def executeQuery_def first_of_def insert_into_def
        update_by_id_def healthy_def people_def return_def throw_def bind_def try_catch_def
        try_finally_def console_log_def attempt_def let_connection_def getConnection_def
        execute_def release_def if_connection_def Let_def)



section \<open>Kinds of runs and their rules\<close>

subsection \<open>Traces\<close>

lemma adds_calls_since: "adds w w' cs \<Longrightarrow> calls_since w w' = cs"
  by (simp add: adds_def calls_since_def)

lemma adds_refl [simp]: "adds w w []"
  by (simp add: adds_def)

lemma adds_trans: "adds w a cs \<Longrightarrow> adds a b ds \<Longrightarrow> adds w b (cs @ ds)"
  by (simp add: adds_def)

lemma bind_cases:
  assumes "bind m f w = (r, w')"
  obtains (thrown) e where "m w = (Inl e, w')" "r = Inl e"
        | (went_on) x w1 where "m w = (Inr x, w1)" "f x w1 = (r, w')"
  using assms by (auto simp: bind_def split: prod.splits sum.splits)

lemma if_cases: "(b \<Longrightarrow> P x) \<Longrightarrow> (\<not> b \<Longrightarrow> P y) \<Longrightarrow> P (if b then x else y)"
  by simp

lemma list_cases: "P a \<Longrightarrow> (\<And>y ys. P (f y ys)) \<Longrightarrow> P (case xs of [] \<Rightarrow> a | y # ys \<Rightarrow> f y ys)"
  by (cases xs) simp_all

lemma option_cases: "P a \<Longrightarrow> (\<And>y. P (f y)) \<Longrightarrow> P (case v of None \<Rightarrow> a | Some y \<Rightarrow> f y)"
  by (cases v) simp_all

subsection \<open>Computations that work on the connection they are given\<close>

lemma uses_connectionD:
  "uses_connection m \<Longrightarrow> m w = (r, w') \<Longrightarrow>
     connection w' = connection w \<and> (\<exists>cs. adds w w' cs \<and> clean cs)"
  by (simp add: uses_connection_def)

lemma uses_connectionI:
  assumes "\<And>w r w'. m w = (r, w') \<Longrightarrow> connection w' = connection w \<and> (\<exists>cs. adds w w' cs \<and> clean cs)"
  shows "uses_connection m"
  using assms by (simp add: uses_connection_def)

lemma uses_connection_return: "uses_connection (return x)"
  by (auto simp add: uses_connection_def return_def clean_def intro!: exI [of _ "[]"])

lemma uses_connection_throw: "uses_connection (throw e)"
  by (auto simp add: uses_connection_def throw_def clean_def intro!: exI [of _ "[]"])

lemma uses_connection_respond: "uses_connection (respond c m)"
  by (simp add: respond_def uses_connection_return)

lemma uses_connection_answer: "uses_connection (answer c m)"
  by (simp add: answer_def uses_connection_return)

lemma uses_connection_console_log: "uses_connection (console_log l)"
  by (auto simp add: uses_connection_def console_log_def clean_def adds_def intro!: exI [of _ "[]"])

lemma uses_connection_attempt:
  "c \<noteq> GetConnection \<Longrightarrow> c \<noteq> Release \<Longrightarrow> uses_connection (attempt c)"
  by (auto simp add: uses_connection_def attempt_def Let_def clean_def adds_def split: if_splits)

lemma uses_connection_bind:
  assumes "uses_connection m" "\<And>x. uses_connection (f x)"
  shows "uses_connection (bind m f)"
proof (rule uses_connectionI)
  fix w r w' assume "bind m f w = (r, w')"
  then show "connection w' = connection w \<and> (\<exists>cs. adds w w' cs \<and> clean cs)"
  proof (cases rule: bind_cases)
    case thrown
    from uses_connectionD [OF assms(1) thrown(1)] show ?thesis by metis
  next
    case (went_on x w1)
    from uses_connectionD [OF assms(1) went_on(1)] obtain cs
      where 1: "connection w1 = connection w" "adds w w1 cs" "clean cs" by metis
    from uses_connectionD [OF assms(2) went_on(2)] obtain ds
      where 2: "connection w' = connection w1" "adds w1 w' ds" "clean ds" by metis
    from 1 2 adds_trans [OF 1(2) 2(2)] show ?thesis
      by (auto simp add: clean_def intro!: exI [of _ "cs @ ds"])
  qed
qed

lemma uses_connection_beginTransaction: "uses_connection beginTransaction"
  unfolding beginTransaction_def
  by (rule uses_connection_bind, rule uses_connection_attempt, simp, simp)
     (auto simp add: uses_connection_def adds_def clean_def split: option.splits intro!: exI [of _ "[]"])

lemma uses_connection_commit: "uses_connection commit"
  unfolding commit_def
  by (rule uses_connection_bind, rule uses_connection_attempt, simp, simp)
     (auto simp add: uses_connection_def adds_def clean_def split: option.splits intro!: exI [of _ "[]"])

lemma uses_connection_rollback: "uses_connection rollback"
  unfolding rollback_def
  by (rule uses_connection_bind, rule uses_connection_attempt, simp, simp)
     (auto simp add: uses_connection_def adds_def clean_def split: option.splits intro!: exI [of _ "[]"])

lemma uses_connection_execute: "uses_connection (execute stmt)"
  by (auto simp add: uses_connection_def execute_def adds_def clean_def
        split: if_splits option.splits prod.splits)

lemma execute_given_cases:
  "(None \<in> set ps \<Longrightarrow> P (\<lambda>w. (Inl TypeError, w\<lparr>trace := trace w @ [(Execute, False)]\<rparr>))) \<Longrightarrow>
   (None \<notin> set ps \<Longrightarrow> P (execute stmt)) \<Longrightarrow> P (execute_given ps stmt)"
proof -
  assume 1: "None \<in> set ps \<Longrightarrow> P (\<lambda>w. (Inl TypeError, w\<lparr>trace := trace w @ [(Execute, False)]\<rparr>))"
     and 2: "None \<notin> set ps \<Longrightarrow> P (execute stmt)"
  have "execute_given ps stmt =
          (if None \<in> set ps then (\<lambda>w. (Inl TypeError, w\<lparr>trace := trace w @ [(Execute, False)]\<rparr>))
           else execute stmt)"
    by (rule ext) (simp add: execute_given_def)
  with 1 2 show ?thesis by simp
qed

lemma uses_connection_execute_given: "uses_connection (execute_given ps stmt)"
proof (rule execute_given_cases)
  show "uses_connection (\<lambda>w. (Inl TypeError, w\<lparr>trace := trace w @ [(Execute, False)]\<rparr>))"
    by (auto simp add: uses_connection_def adds_def clean_def)
  show "uses_connection (execute stmt)"
    by (rule uses_connection_execute)
qed

lemma uses_connection_query: "uses_connection (query stmt)"
  by (simp add: query_def uses_connection_execute)

lemma uses_connection_if_connection: "uses_connection m \<Longrightarrow> uses_connection (if_connection m)"
  by (auto simp add: uses_connection_def if_connection_def clean_def split: if_splits intro!: exI [of _ "[]"])

lemma uses_connection_hashPassword: "uses_connection (hashPassword env pw)"
  by (simp add: hashPassword_def uses_connection_return uses_connection_throw split: option.splits)

lemma uses_connection_compare_password: "uses_connection (compare_password env p h)"
  by (simp add: compare_password_def uses_connection_return uses_connection_throw split: option.splits)

lemma uses_connection_verify: "uses_connection (verify env t)"
  by (simp add: verify_def uses_connection_return uses_connection_throw split: sum.splits)

lemma uses_connection_run_script: "uses_connection (run_script s)"
  by (induction s)
     (auto intro: uses_connection_return uses_connection_throw uses_connection_bind uses_connection_execute)

lemmas uses_connection_rules =
  uses_connection_return uses_connection_throw uses_connection_respond uses_connection_answer
  uses_connection_console_log uses_connection_beginTransaction uses_connection_commit
  uses_connection_rollback uses_connection_execute_given uses_connection_execute
  uses_connection_query
  uses_connection_hashPassword uses_connection_compare_password uses_connection_verify
  uses_connection_run_script uses_connection_if_connection uses_connection_bind 
  if_cases [where P = uses_connection] list_cases [where P = uses_connection]
  option_cases [where P = uses_connection]

subsection \<open>Bodies that ask for the connection\<close>

lemma opens_return: "opens (return x)"
  by (simp add: opens_def return_def)

lemma opens_respond: "opens (respond c m)"
  by (simp add: respond_def opens_return)

lemma getConnection_cases:
  assumes "getConnection w = (r, w')"
  obtains (refused) "r = Inl StoreFailure" "adds w w' [(GetConnection, False)]"
             "connection w' = connection w" "committed w' = committed w" "tx w' = tx w"
        | (granted) "r = Inr ()" "adds w w' [(GetConnection, True)]" "connection w'"
             "committed w' = committed w" "tx w' = None"
  using assms
  by (auto simp add: getConnection_def bind_def attempt_def Let_def adds_def split: if_splits)

lemma opens_getConnection:
  assumes "\<And>x. uses_connection (f x)"
  shows "opens (bind getConnection f)"
  unfolding opens_def
proof (intro allI impI)
  fix w r w' assume idle: "\<not> connection w" and "bind getConnection f w = (r, w')"
  from this(2) show "(adds w w' [] \<and> \<not> connection w')
         \<or> (adds w w' [(GetConnection, False)] \<and> \<not> connection w')
         \<or> (\<exists>mid. adds w w' ((GetConnection, True) # mid) \<and> clean mid \<and> connection w')"
  proof (cases rule: bind_cases)
    case thrown
    from thrown(1) idle show ?thesis by (cases rule: getConnection_cases) simp_all
  next
    case (went_on x w1)
    from went_on(1) have 1: "adds w w1 [(GetConnection, True)]" "connection w1"
      by (cases rule: getConnection_cases, simp_all)+
    from uses_connectionD [OF assms went_on(2)] obtain cs
      where 2: "connection w' = connection w1" "adds w1 w' cs" "clean cs" by metis
    from adds_trans [OF 1(1) 2(2)] 1 2 show ?thesis by auto
  qed
qed

lemmas opens_rules = opens_return opens_respond opens_getConnection
  if_cases [where P = opens] list_cases [where P = opens] option_cases [where P = opens]

lemma session_held: "clean mid \<Longrightarrow> session ((GetConnection, True) # mid @ [(Release, True)])"
  by (simp add: session_def clean_def butlast_append)

lemma handlesD:
  "handles m \<Longrightarrow> m w = (r, w') \<Longrightarrow>
     connection w' = connection w
     \<and> (\<exists>cs. adds w w' cs \<and> clean cs \<and> (\<not> connection w \<longrightarrow> cs = []))"
  by (simp add: handles_def)

lemma handles_return: "handles (return x)"
  by (auto simp add: handles_def return_def clean_def intro!: exI [of _ "[]"])

lemma handles_throw: "handles (throw e)"
  by (auto simp add: handles_def throw_def clean_def intro!: exI [of _ "[]"])

lemma handles_respond: "handles (respond c m)"
  by (simp add: respond_def handles_return)

lemma handles_answer: "handles (answer c m)"
  by (simp add: answer_def handles_return)

lemma handles_console_log: "handles (console_log l)"
  by (auto simp add: handles_def console_log_def clean_def adds_def intro!: exI [of _ "[]"])

lemma handles_if_connection: "uses_connection m \<Longrightarrow> handles (if_connection m)"
  by (auto simp add: handles_def uses_connection_def if_connection_def clean_def
        split: if_splits intro!: exI [of _ "[]"])

lemma handles_bind:
  assumes "handles m" "\<And>x. handles (f x)"
  shows "handles (bind m f)"
  unfolding handles_def
proof (intro allI impI)
  fix w r w' assume "bind m f w = (r, w')"
  then show "connection w' = connection w
     \<and> (\<exists>cs. adds w w' cs \<and> clean cs \<and> (\<not> connection w \<longrightarrow> cs = []))"
  proof (cases rule: bind_cases)
    case thrown
    from handlesD [OF assms(1) thrown(1)] show ?thesis .
  next
    case (went_on x w1)
    from handlesD [OF assms(1) went_on(1)] obtain cs
      where 1: "connection w1 = connection w" "adds w w1 cs" "clean cs" "\<not> connection w \<longrightarrow> cs = []"
      by metis
    from handlesD [OF assms(2) went_on(2)] obtain ds
      where 2: "connection w' = connection w1" "adds w1 w' ds" "clean ds" "\<not> connection w1 \<longrightarrow> ds = []"
      by metis
    from 1 2 adds_trans [OF 1(2) 2(2)] show ?thesis
      by (auto simp add: clean_def intro!: exI [of _ "cs @ ds"])
  qed
qed

lemmas handles_rules = handles_return handles_throw handles_respond handles_answer
  handles_console_log handles_if_connection handles_bind if_cases [where P = handles]

lemma one_session:
  assumes body: "opens b" and handler: "\<And>e. handles (h e)"
  shows "wp (bind let_connection (\<lambda>_. try_finally (try_catch b h) (if_connection release)))
           (\<lambda>r w'. \<exists>cs. adds w w' cs \<and> (cs = [] \<or> session cs)) w"
proof -
  let ?w0 = "w\<lparr>connection := False\<rparr>"
  have w0: "adds w ?w0 []" "\<not> connection ?w0"
    by (simp_all add: adds_def)
  obtain r1 w1 where b: "b ?w0 = (r1, w1)" by (cases "b ?w0")
  obtain r2 w2 where c: "try_catch b h ?w0 = (r2, w2)" by (cases "try_catch b h ?w0")
  have "connection w2 = connection w1
          \<and> (\<exists>cs. adds w1 w2 cs \<and> clean cs \<and> (\<not> connection w1 \<longrightarrow> cs = []))"
  proof (cases r1)
    case (Inl e)
    with b c have "h e w1 = (r2, w2)" by (simp add: try_catch_def)
    from handlesD [OF handler this] show ?thesis .
  next
    case (Inr x)
    with b c show ?thesis by (auto simp add: try_catch_def clean_def intro!: exI [of _ "[]"])
  qed
  then obtain ds where 2: "connection w2 = connection w1" "adds w1 w2 ds" "clean ds"
      "\<not> connection w1 \<longrightarrow> ds = []" by metis
  have fin: "bind let_connection (\<lambda>_. try_finally (try_catch b h) (if_connection release)) w
     = (r2, if connection w2 then w2\<lparr>trace := trace w2 @ [(Release, True)]\<rparr> else w2)"
    using c by (simp add: bind_def let_connection_def try_finally_def if_connection_def release_def)
  from body w0(2) b consider
      (early) "adds ?w0 w1 []" "\<not> connection w1"
    | (refused) "adds ?w0 w1 [(GetConnection, False)]" "\<not> connection w1"
    | (held) mid where "adds ?w0 w1 ((GetConnection, True) # mid)" "clean mid" "connection w1"
    unfolding opens_def by blast
  then show ?thesis
  proof cases
    case early
    with 2 w0 fin show ?thesis
      by (auto simp add: wp_def adds_def clean_def session_def)
  next
    case refused
    with 2 w0 fin show ?thesis
      by (auto simp add: wp_def adds_def clean_def session_def)
  next
    case (held mid)
    have "session ((GetConnection, True) # (mid @ ds) @ [(Release, True)])"
      using held(2) 2(3) by (intro session_held) (simp add: clean_def)
    with held 2 w0 fin show ?thesis
      by (auto simp add: wp_def adds_def
            intro!: exI [of _ "(GetConnection, True) # mid @ ds @ [(Release, True)]"])
  qed
qed


subsection \<open>Inside a transaction\<close>

lemma tx_stepD:
  "tx_step m \<Longrightarrow> tx w \<noteq> None \<Longrightarrow> m w = (r, w') \<Longrightarrow>
     connection w' = connection w \<and> tx w' \<noteq> None \<and> committed w' = committed w
     \<and> (\<exists>cs. adds w w' cs \<and> list_all (\<lambda>e. fst e = Execute) cs \<and> (\<not> isl r \<longrightarrow> \<not> failed cs))"
  unfolding tx_step_def by blast

lemma tx_step_silent:
  assumes "\<And>w. trace (snd (m w)) = trace w \<and> faults (snd (m w)) = faults w
             \<and> connection (snd (m w)) = connection w \<and> tx (snd (m w)) = tx w
             \<and> committed (snd (m w)) = committed w"
  shows "tx_step m"
  unfolding tx_step_def
proof (intro allI impI)
  fix w r w' assume "tx w \<noteq> None" "m w = (r, w')"
  with assms [of w] have "adds w w' []" "connection w' = connection w" "tx w' \<noteq> None"
      "committed w' = committed w"
    by (simp_all add: adds_def)
  then show "connection w' = connection w \<and> tx w' \<noteq> None \<and> committed w' = committed w
     \<and> (\<exists>cs. adds w w' cs \<and> list_all (\<lambda>e. fst e = Execute) cs \<and> (\<not> isl r \<longrightarrow> \<not> failed cs))"
    by (intro conjI exI [of _ "[]"]) (simp_all add: failed_def)
qed

lemma tx_step_return: "tx_step (return x)"
  by (rule tx_step_silent) (simp add: return_def)

lemma tx_step_throw: "tx_step (throw e)"
  by (rule tx_step_silent) (simp add: throw_def)

lemma tx_step_console_log: "tx_step (console_log l)"
  by (rule tx_step_silent) (simp add: console_log_def)

lemma tx_step_execute: "tx_step (execute stmt)"
  unfolding tx_step_def
proof (intro allI impI)
  fix w r w' assume open_tx: "tx w \<noteq> None" and run: "execute stmt w = (r, w')"
  then obtain d where d: "tx w = Some d" by auto
  show "connection w' = connection w \<and> tx w' \<noteq> None \<and> committed w' = committed w
     \<and> (\<exists>cs. adds w w' cs \<and> list_all (\<lambda>e. fst e = Execute) cs \<and> (\<not> isl r \<longrightarrow> \<not> failed cs))"
  proof (cases "length (trace w) \<in> faults w")
    case True
    with run d show ?thesis
      by (auto simp add: execute_def adds_def intro!: exI [of _ "[(Execute, False)]"])
  next
    case False
    with run d show ?thesis
      by (cases "stmt d")
         (auto simp add: execute_def adds_def failed_def intro!: exI [of _ "[(Execute, \<not> isl r)]"])
  qed
qed

lemma tx_step_execute_given: "tx_step (execute_given ps stmt)"
proof (rule execute_given_cases)
  show "tx_step (\<lambda>w. (Inl TypeError, w\<lparr>trace := trace w @ [(Execute, False)]\<rparr>))"
    by (auto simp add: tx_step_def adds_def intro!: exI [of _ "[(Execute, False)]"])
  show "tx_step (execute stmt)"
    by (rule tx_step_execute)
qed

lemma tx_step_query: "tx_step (query stmt)"
  by (simp add: query_def tx_step_execute)

lemma tx_step_hashPassword: "tx_step (hashPassword env pw)"
  by (simp add: hashPassword_def tx_step_return tx_step_throw split: option.splits)

lemma tx_step_compare_password: "tx_step (compare_password env p h)"
  by (simp add: compare_password_def tx_step_return tx_step_throw split: option.splits)

lemma tx_step_bind:
  assumes "tx_step m" "\<And>x. tx_step (f x)"
  shows "tx_step (bind m f)"
  unfolding tx_step_def
proof (intro allI impI)
  fix w r w' assume open_tx: "tx w \<noteq> None" and "bind m f w = (r, w')"
  from this(2) show "connection w' = connection w \<and> tx w' \<noteq> None \<and> committed w' = committed w
     \<and> (\<exists>cs. adds w w' cs \<and> list_all (\<lambda>e. fst e = Execute) cs \<and> (\<not> isl r \<longrightarrow> \<not> failed cs))"
  proof (cases rule: bind_cases)
    case thrown
    from tx_stepD [OF assms(1) open_tx thrown(1)] thrown(2) show ?thesis by auto
  next
    case (went_on x w1)
    from tx_stepD [OF assms(1) open_tx went_on(1)] obtain cs
      where 1: "connection w1 = connection w" "tx w1 \<noteq> None" "committed w1 = committed w"
        "adds w w1 cs" "list_all (\<lambda>e. fst e = Execute) cs" "\<not> failed cs"
      by auto
    from tx_stepD [OF assms(2) 1(2) went_on(2)] obtain ds
      where 2: "connection w' = connection w1" "tx w' \<noteq> None" "committed w' = committed w1"
        "adds w1 w' ds" "list_all (\<lambda>e. fst e = Execute) ds" "\<not> isl r \<longrightarrow> \<not> failed ds"
      by auto
    from 1 2 adds_trans [OF 1(4) 2(4)] show ?thesis
      by (auto simp add: failed_def intro!: exI [of _ "cs @ ds"])
  qed
qed

lemmas tx_step_rules = tx_step_return tx_step_throw tx_step_console_log tx_step_execute_given
  tx_step_execute tx_step_query tx_step_hashPassword tx_step_compare_password tx_step_bind
  if_cases [where P = tx_step] list_cases [where P = tx_step] option_cases [where P = tx_step]

lemma tx_finishD:
  "tx_finish m \<Longrightarrow> tx w \<noteq> None \<Longrightarrow> connection w \<Longrightarrow> m w = (r, w') \<Longrightarrow>
     connection w' \<and>
        (\<exists>cs. adds w w' cs \<and>
           (if succeeded r then \<not> failed cs
            else committed w' = committed w \<and> (Commit, True) \<notin> set cs
                 \<and> (\<not> isl r \<longrightarrow> (Rollback, True) \<in> set cs \<and> tx w' = None)))"
  unfolding tx_finish_def by blast

lemma tx_finish_throw: "tx_finish (throw e)"
  by (auto simp add: tx_finish_def throw_def succeeded_def intro!: exI [of _ "[]"])

lemma commit_cases:
  assumes "commit w = (r, w')"
  obtains (refused) "r = Inl StoreFailure" "adds w w' [(Commit, False)]"
             "connection w' = connection w" "committed w' = committed w" "tx w' = tx w"
        | (went_through) "r = Inr ()" "adds w w' [(Commit, True)]" "connection w' = connection w"
             "tx w' = None"
  using assms
  by (auto simp add: commit_def bind_def attempt_def Let_def adds_def split: if_splits option.splits)

lemma rollback_cases:
  assumes "rollback w = (r, w')"
  obtains (refused) "r = Inl StoreFailure" "adds w w' [(Rollback, False)]"
             "connection w' = connection w" "committed w' = committed w" "tx w' = tx w"
        | (went_through) "r = Inr ()" "adds w w' [(Rollback, True)]" "connection w' = connection w"
             "committed w' = committed w" "tx w' = None"
  using assms
  by (auto simp add: rollback_def bind_def attempt_def Let_def adds_def split: if_splits)

lemma tx_finish_commit:
  assumes "c = 200 \<or> c = 201"
  shows "tx_finish (bind commit (\<lambda>_. respond c msg))"
  unfolding tx_finish_def
proof (intro allI impI)
  fix w r w' assume held: "connection w" and "bind commit (\<lambda>_. respond c msg) w = (r, w')"
  from this(2) show "connection w' \<and>
        (\<exists>cs. adds w w' cs \<and>
           (if succeeded r then \<not> failed cs
            else committed w' = committed w \<and> (Commit, True) \<notin> set cs
                 \<and> (\<not> isl r \<longrightarrow> (Rollback, True) \<in> set cs \<and> tx w' = None)))"
  proof (cases rule: bind_cases)
    case thrown
    from thrown(1) thrown(2) held show ?thesis
      by (cases rule: commit_cases)
         (auto simp add: succeeded_def intro!: exI [of _ "[(Commit, False)]"])
  next
    case (went_on x w1)
    from went_on(2) have "r = Inr \<lparr>status = c, message = msg\<rparr>" "w' = w1"
      by (simp_all add: respond_def return_def)
    with went_on(1) assms held show ?thesis
      by (cases rule: commit_cases)
         (auto simp add: succeeded_def failed_def intro!: exI [of _ "[(Commit, True)]"])
  qed
qed

lemma tx_finish_rollback:
  assumes "c \<noteq> 200" "c \<noteq> 201"
  shows "tx_finish (bind rollback (\<lambda>_. respond c msg))"
  unfolding tx_finish_def
proof (intro allI impI)
  fix w r w' assume held: "connection w" and "bind rollback (\<lambda>_. respond c msg) w = (r, w')"
  from this(2) show "connection w' \<and>
        (\<exists>cs. adds w w' cs \<and>
           (if succeeded r then \<not> failed cs
            else committed w' = committed w \<and> (Commit, True) \<notin> set cs
                 \<and> (\<not> isl r \<longrightarrow> (Rollback, True) \<in> set cs \<and> tx w' = None)))"
  proof (cases rule: bind_cases)
    case thrown
    from thrown(1) thrown(2) held show ?thesis
      by (cases rule: rollback_cases)
         (auto simp add: succeeded_def intro!: exI [of _ "[(Rollback, False)]"])
  next
    case (went_on x w1)
    from went_on(2) have "r = Inr \<lparr>status = c, message = msg\<rparr>" "w' = w1"
      by (simp_all add: respond_def return_def)
    with went_on(1) assms held show ?thesis
      by (cases rule: rollback_cases)
         (auto simp add: succeeded_def intro!: exI [of _ "[(Rollback, True)]"])
  qed
qed

lemma tx_finish_bind:
  assumes "tx_step m" "\<And>x. tx_finish (f x)"
  shows "tx_finish (bind m f)"
  unfolding tx_finish_def
proof (intro allI impI)
  fix w r w' assume open_tx: "tx w \<noteq> None" and held: "connection w" and "bind m f w = (r, w')"
  from this(3) show "connection w' \<and>
        (\<exists>cs. adds w w' cs \<and>
           (if succeeded r then \<not> failed cs
            else committed w' = committed w \<and> (Commit, True) \<notin> set cs
                 \<and> (\<not> isl r \<longrightarrow> (Rollback, True) \<in> set cs \<and> tx w' = None)))"
  proof (cases rule: bind_cases)
    case thrown
    from tx_stepD [OF assms(1) open_tx thrown(1)] obtain cs
      where 1: "connection w' = connection w" "committed w' = committed w"
        "adds w w' cs" "list_all (\<lambda>e. fst e = Execute) cs"
      by auto
    with thrown(2) held show ?thesis
      by (auto simp add: succeeded_def list_all_iff intro!: exI [of _ cs])
  next
    case (went_on x w1)
    from tx_stepD [OF assms(1) open_tx went_on(1)] obtain cs
      where 1: "connection w1 = connection w" "tx w1 \<noteq> None" "committed w1 = committed w"
        "adds w w1 cs" "list_all (\<lambda>e. fst e = Execute) cs" "\<not> failed cs"
      by auto
    from 1(1) held have "connection w1" by simp
    from tx_finishD [OF assms(2) 1(2) this went_on(2)] obtain ds
      where 2: "connection w'" "adds w1 w' ds"
        "if succeeded r then \<not> failed ds
            else committed w' = committed w1 \<and> (Commit, True) \<notin> set ds
                 \<and> (\<not> isl r \<longrightarrow> (Rollback, True) \<in> set ds \<and> tx w' = None)"
      by auto
    from 1(5) have 3: "(Commit, True) \<notin> set cs" by (auto simp add: list_all_iff)
    show ?thesis
    proof (cases "succeeded r")
      case True
      with 1 2 adds_trans [OF 1(4) 2(2)] show ?thesis
        by (auto simp add: failed_def intro!: exI [of _ "cs @ ds"])
    next
      case False
      with 1 2 3 adds_trans [OF 1(4) 2(2)] show ?thesis
        by (auto intro!: exI [of _ "cs @ ds"])
    qed
  qed
qed

lemmas tx_finish_rules = tx_finish_throw tx_finish_commit tx_finish_rollback tx_finish_bind
  if_cases [where P = tx_finish] list_cases [where P = tx_finish] option_cases [where P = tx_finish]

lemma body_ok_respond: "c \<noteq> 200 \<Longrightarrow> c \<noteq> 201 \<Longrightarrow> body_ok (respond c msg)"
  by (auto simp add: body_ok_def respond_def return_def succeeded_def intro!: exI [of _ "[]"])

lemma beginTransaction_cases:
  assumes "beginTransaction w = (r, w')" "tx w = None"
  obtains (refused) "r = Inl StoreFailure" "adds w w' [(BeginTransaction, False)]"
             "connection w' = connection w" "committed w' = committed w"
        | (begun) "r = Inr ()" "adds w w' [(BeginTransaction, True)]" "connection w' = connection w"
             "committed w' = committed w" "tx w' \<noteq> None"
  using assms
  by (auto simp add: beginTransaction_def bind_def attempt_def Let_def adds_def split: if_splits)

lemma body_ok_transaction:
  assumes "tx_finish t"
  shows "body_ok (bind getConnection (\<lambda>_. bind beginTransaction (\<lambda>_. t)))"
  unfolding body_ok_def
proof (intro allI impI)
  fix w r w' assume idle: "\<not> connection w"
    and "bind getConnection (\<lambda>_. bind beginTransaction (\<lambda>_. t)) w = (r, w')"
  from this(2) show "\<exists>cs. adds w w' cs \<and>
           ((BeginTransaction, True) \<in> set cs \<longrightarrow> connection w') \<and>
           (if succeeded r then \<not> failed cs
            else committed w' = committed w \<and> (Commit, True) \<notin> set cs
                 \<and> (\<not> isl r \<and> (BeginTransaction, True) \<in> set cs \<longrightarrow>
                       (Rollback, True) \<in> set cs \<and> tx w' = None))"
  proof (cases rule: bind_cases)
    case thrown
    from thrown(1) thrown(2) show ?thesis
      by (cases rule: getConnection_cases) (auto simp add: succeeded_def)
  next
    case (went_on x w1)
    from went_on(1) have 1: "adds w w1 [(GetConnection, True)]" "connection w1"
        "committed w1 = committed w" "tx w1 = None"
      by (cases rule: getConnection_cases, simp_all)+
    from went_on(2) show ?thesis
    proof (cases rule: bind_cases)
      case thrown
      from thrown(1) 1(4) show ?thesis
      proof (cases rule: beginTransaction_cases)
        case refused
        with 1 thrown(2) adds_trans [OF 1(1) refused(2)] show ?thesis
          by (auto simp add: succeeded_def intro!: exI [of _ "[(GetConnection, True), (BeginTransaction, False)]"])
      next
        case begun
        with thrown(2) show ?thesis by simp
      qed
    next
      case (went_on y w2)
      from went_on(1) 1(4) have 2: "adds w1 w2 [(BeginTransaction, True)]" "connection w2 = connection w1"
             "committed w2 = committed w1" "tx w2 \<noteq> None"
        by (cases rule: beginTransaction_cases, simp_all)+
      from 1 2 have "connection w2" by simp
      from tx_finishD [OF assms 2(4) this went_on(2)] obtain ds
        where 3: "connection w'" "adds w2 w' ds"
          "if succeeded r then \<not> failed ds
            else committed w' = committed w2 \<and> (Commit, True) \<notin> set ds
                 \<and> (\<not> isl r \<longrightarrow> (Rollback, True) \<in> set ds \<and> tx w' = None)"
        by auto
      from 1 2 3 adds_trans [OF adds_trans [OF 1(1) 2(1)] 3(2)] show ?thesis
        by (auto simp add: failed_def
              intro!: exI [of _ "(GetConnection, True) # (BeginTransaction, True) # ds"] split: if_splits)
    qed
  qed
qed

lemmas body_ok_rules = body_ok_respond body_ok_transaction if_cases [where P = body_ok]

lemma catch_rollback_cases:
  assumes "bind (if_connection rollback) (\<lambda>_. bind (console_log line) (\<lambda>_. respond 500 msg)) w = (r, w')"
  obtains (no_connection) "\<not> connection w" "\<not> succeeded r" "adds w w' []"
            "committed w' = committed w" "\<not> connection w'"
        | (rolled_back) "connection w" "\<not> succeeded r" "adds w w' [(Rollback, True)]"
            "committed w' = committed w" "connection w'" "tx w' = None"
        | (rollback_failed) "connection w" "\<not> succeeded r" "adds w w' [(Rollback, False)]"
            "committed w' = committed w" "connection w'"
  using assms
  by (auto simp add: bind_def if_connection_def rollback_def attempt_def console_log_def
        respond_def return_def Let_def adds_def succeeded_def split: if_splits)

lemma finally_release:
  "try_finally m (if_connection release) w =
     (fst (m w), if connection (snd (m w))
                 then (snd (m w))\<lparr>trace := trace (snd (m w)) @ [(Release, True)]\<rparr> else snd (m w))"
  by (simp add: try_finally_def if_connection_def release_def split: prod.splits)

lemma rolled_back: "(Rollback, ok) \<in> set cs \<Longrightarrow> list_ex (\<lambda>e. fst e = Rollback) cs"
  by (force simp add: list_ex_iff)

lemma write_postI:
  assumes "adds w w' cs"
    and "failed cs \<longrightarrow> \<not> succeeded out"
    and "\<not> succeeded out \<longrightarrow> committed w' = committed w \<and> (Commit, True) \<notin> set cs"
    and "(BeginTransaction, True) \<in> set cs \<and> \<not> succeeded out \<longrightarrow>
            list_ex (\<lambda>e. fst e = Rollback) cs \<and> ((Rollback, False) \<notin> set cs \<longrightarrow> tx w' = None)"
  shows "write_post w out w'"
  using assms by (simp add: write_post_def adds_calls_since Let_def)

lemma transactional:
  assumes body: "body_ok b"
  shows "wp (bind let_connection (\<lambda>_.
              try_finally
                (try_catch b (\<lambda>error.
                   bind (if_connection rollback) (\<lambda>_.
                   bind (console_log line) (\<lambda>_.
                   respond 500 msg))))
                (if_connection release)))
           (write_post w) w"
proof -
  let ?w0 = "w\<lparr>connection := False\<rparr>"
  let ?h = "\<lambda>error. bind (if_connection rollback) (\<lambda>_. bind (console_log line) (\<lambda>_. respond 500 msg))"
  have w0: "adds w ?w0 []" "\<not> connection ?w0" "committed ?w0 = committed w"
    by (simp_all add: adds_def)
  obtain r1 w1 where b: "b ?w0 = (r1, w1)" by (cases "b ?w0")
  obtain r2 w2 where c: "try_catch b ?h ?w0 = (r2, w2)" by (cases "try_catch b ?h ?w0")
  define w3 where "w3 = (if connection w2 then w2\<lparr>trace := trace w2 @ [(Release, True)]\<rparr> else w2)"
  have run: "bind let_connection (\<lambda>_. try_finally (try_catch b ?h) (if_connection release)) w = (r2, w3)"
    using c by (simp add: bind_def let_connection_def finally_release w3_def)
  have w3: "adds w2 w3 (if connection w2 then [(Release, True)] else [])"
      "committed w3 = committed w2" "tx w3 = tx w2"
    by (simp_all add: w3_def adds_def)
  from body w0(2) b obtain cs where 1: "adds ?w0 w1 cs"
      "(BeginTransaction, True) \<in> set cs \<longrightarrow> connection w1"
      "if succeeded r1 then \<not> failed cs
       else committed w1 = committed ?w0 \<and> (Commit, True) \<notin> set cs
            \<and> (\<not> isl r1 \<and> (BeginTransaction, True) \<in> set cs \<longrightarrow>
                  (Rollback, True) \<in> set cs \<and> tx w1 = None)"
    unfolding body_ok_def by blast
  have "write_post w r2 w3"
  proof (cases r1)
    case (Inr resp)
    with b c have same: "r2 = r1" "w2 = w1" by (simp_all add: try_catch_def)
    have total: "adds w w3 (cs @ (if connection w1 then [(Release, True)] else []))"
      using adds_trans [OF adds_trans [OF w0(1) 1(1)]] w3(1) same by auto
    show ?thesis
    proof (cases "succeeded r1")
      case True
      with 1 same show ?thesis
        by (intro write_postI [OF total]) (auto simp add: failed_def)
    next
      case False
      with 1 w0 w3 same Inr show ?thesis
        by (intro write_postI [OF total]) (auto simp add: failed_def intro: rolled_back)
    qed
  next
    case (Inl e)
    with b c have h: "?h e w1 = (r2, w2)" by (simp add: try_catch_def)
    from Inl 1(3) have kept: "committed w1 = committed w" "(Commit, True) \<notin> set cs"
      using w0 by (simp_all add: succeeded_def)
    from h show ?thesis
    proof (cases rule: catch_rollback_cases)
      case no_connection
      have total: "adds w w3 cs"
        using adds_trans [OF adds_trans [OF adds_trans [OF w0(1) 1(1)] no_connection(3)] w3(1)]
          no_connection by simp
      show ?thesis
        using 1 kept w3 no_connection
        by (intro write_postI [OF total]) auto
    next
      case rolled_back
      have total: "adds w w3 (cs @ [(Rollback, True), (Release, True)])"
        using adds_trans [OF adds_trans [OF adds_trans [OF w0(1) 1(1)] rolled_back(3)] w3(1)]
          rolled_back by simp
      show ?thesis
        using 1 kept w3 rolled_back
        by (intro write_postI [OF total]) (auto intro: rolled_back)
    next
      case rollback_failed
      have total: "adds w w3 (cs @ [(Rollback, False), (Release, True)])"
        using adds_trans [OF adds_trans [OF adds_trans [OF w0(1) 1(1)] rollback_failed(3)] w3(1)]
          rollback_failed by simp
      show ?thesis
        using 1 kept w3 rollback_failed
        by (intro write_postI [OF total]) (auto intro: rolled_back)
    qed
  qed
  with run show ?thesis by (simp add: wp_def)
qed


section \<open>The controllers keep the pool's and the transaction's discipline\<close>

lemma updateUserServices_post: "wp (updateUserServices env req) (write_post w) w"
  unfolding updateUserServices_def Let_def
  by (rule transactional) (intro body_ok_rules tx_finish_rules tx_step_rules; simp)

lemma updateUserServiceAreas_post: "wp (updateUserServiceAreas env req) (write_post w) w"
  unfolding updateUserServiceAreas_def Let_def
  by (rule transactional) (intro body_ok_rules tx_finish_rules tx_step_rules; simp)

lemma registerUser_post: "wp (registerUser env req) (write_post w) w"
  unfolding registerUser_def Let_def
  by (rule transactional) (intro body_ok_rules tx_finish_rules tx_step_rules; simp)

lemma updateUserInfo_post: "wp (updateUserInfo env req) (write_post w) w"
  unfolding updateUserInfo_def Let_def
  by (rule transactional) (intro body_ok_rules tx_finish_rules tx_step_rules; simp)

lemma changeUserPassword_post: "wp (changeUserPassword env req) (write_post w) w"
  unfolding changeUserPassword_def Let_def
  by (rule transactional) (intro body_ok_rules tx_finish_rules tx_step_rules; simp)

lemma deleteUser_post: "wp (deleteUser env req) (write_post w) w"
  unfolding deleteUser_def Let_def
  by (rule transactional) (intro body_ok_rules tx_finish_rules tx_step_rules; simp)

lemma registerUser_session:
  "wp (registerUser env req) (\<lambda>r w'. \<exists>cs. adds w w' cs \<and> (cs = [] \<or> session cs)) w"
  unfolding registerUser_def Let_def
  by (rule one_session; (intro opens_rules uses_connection_rules handles_rules)?)

lemma loginUser_session:
  "wp (loginUser env req) (\<lambda>r w'. \<exists>cs. adds w w' cs \<and> (cs = [] \<or> session cs)) w"
  unfolding loginUser_def Let_def
  by (rule one_session; (intro opens_rules uses_connection_rules handles_rules)?)

lemma getUserProfile_session:
  "wp (getUserProfile env req) (\<lambda>r w'. \<exists>cs. adds w w' cs \<and> (cs = [] \<or> session cs)) w"
  unfolding getUserProfile_def Let_def
  by (rule one_session; (intro opens_rules uses_connection_rules handles_rules)?)

lemma updateUserInfo_session:
  "wp (updateUserInfo env req) (\<lambda>r w'. \<exists>cs. adds w w' cs \<and> (cs = [] \<or> session cs)) w"
  unfolding updateUserInfo_def Let_def
  by (rule one_session; (intro opens_rules uses_connection_rules handles_rules)?)

lemma changeUserPassword_session:
  "wp (changeUserPassword env req) (\<lambda>r w'. \<exists>cs. adds w w' cs \<and> (cs = [] \<or> session cs)) w"
  unfolding changeUserPassword_def Let_def
  by (rule one_session; (intro opens_rules uses_connection_rules handles_rules)?)

lemma updateUserServices_session:
  "wp (updateUserServices env req) (\<lambda>r w'. \<exists>cs. adds w w' cs \<and> (cs = [] \<or> session cs)) w"
  unfolding updateUserServices_def Let_def
  by (rule one_session; (intro opens_rules uses_connection_rules handles_rules)?)

lemma updateUserServiceAreas_session:
  "wp (updateUserServiceAreas env req) (\<lambda>r w'. \<exists>cs. adds w w' cs \<and> (cs = [] \<or> session cs)) w"
  unfolding updateUserServiceAreas_def Let_def
  by (rule one_session; (intro opens_rules uses_connection_rules handles_rules)?)

lemma deleteUser_session:
  "wp (deleteUser env req) (\<lambda>r w'. \<exists>cs. adds w w' cs \<and> (cs = [] \<or> session cs)) w"
  unfolding deleteUser_def Let_def
  by (rule one_session; (intro opens_rules uses_connection_rules handles_rules)?)


section \<open>Claims about the controllers\<close>

text \<open>
  C1. For each of the six multi-step writes (replace-services, replace-counties, registration,
  profile-info update, password change, account deletion), whatever the request and
  whichever driver calls fail: if some call of the run threw, or the controller did not answer
  with its success status, then the committed store after the call is the one before it and
  no commit went through; and once the transaction had begun, a rollback was issued, which
  left no transaction open unless a rollback call itself failed.
\<close>

theorem failed_write_leaves_store:
  assumes op: "h \<in> set multi_step_writes"
      and run: "h env req w = (out, w')"
      and failure: "failed (calls_since w w') \<or> \<not> succeeded out"
  shows "committed w' = committed w
         \<and> (Commit, True) \<notin> set (calls_since w w')
         \<and> \<not> succeeded out
         \<and> ((BeginTransaction, True) \<in> set (calls_since w w') \<longrightarrow>
               list_ex (\<lambda>e. fst e = Rollback) (calls_since w w')
               \<and> ((Rollback, False) \<notin> set (calls_since w w') \<longrightarrow> tx w' = None))"
proof -
  have "wp (h env req) (write_post w) w"
    using op updateUserServices_post updateUserServiceAreas_post registerUser_post
      updateUserInfo_post changeUserPassword_post deleteUser_post
    by (auto simp add: multi_step_writes_def)
  from wp_run [OF this run] failure show ?thesis
    by (auto simp add: write_post_def Let_def)
qed

text \<open>The store fails the lookup that follows the delete of \<open>updateUserServices\<close>: the
  delete is rolled back and the associations are as before.\<close>

theorem failed_write_leaves_store_witness:
  "updateUserServices \<in> set multi_step_writes
   \<and> calls_since ((healthy example_db)\<lparr>faults := {3}\<rparr>)
        (snd (updateUserServices example_env replace_request ((healthy example_db)\<lparr>faults := {3}\<rparr>)))
      = [(GetConnection, True), (BeginTransaction, True), (Execute, True), (Execute, False),
         (Rollback, True), (Release, True)]
   \<and> committed (snd (updateUserServices example_env replace_request ((healthy example_db)\<lparr>faults := {3}\<rparr>)))
      = example_db
   \<and> tx (snd (updateUserServices example_env replace_request ((healthy example_db)\<lparr>faults := {3}\<rparr>)))
      = None"
proof -
  let ?w = "(healthy example_db)\<lparr>faults := {3}\<rparr>"
  let ?run = "updateUserServices example_env replace_request ?w"
  have calls: "calls_since ?w (snd ?run)
      = [(GetConnection, True), (BeginTransaction, True), (Execute, True), (Execute, False),
         (Rollback, True), (Release, True)]"
    by (simp add: updateUserServices_def replace_request_def empty_body_def healthy_def
          calls_since_def return_def throw_def bind_def try_catch_def try_finally_def
          console_log_def attempt_def let_connection_def getConnection_def beginTransaction_def
          execute_def query_def commit_def rollback_def release_def if_connection_def respond_def
          delete_surveyors_services_def Let_def)
  have op: "updateUserServices \<in> set multi_step_writes"
    by (simp add: multi_step_writes_def)
  from failed_write_leaves_store [where h = updateUserServices and env = example_env
         and req = replace_request and w = ?w and out = "fst ?run" and w' = "snd ?run"]
       calls op
  show ?thesis
    by (simp add: failed_def healthy_def)
qed

section \<open>Connections taken and given back\<close>

lemma session_counts: "session cs \<Longrightarrow> acquired cs \<le> 1 \<and> released cs = acquired cs"
proof -
  assume s: "session cs"
  show ?thesis
  proof (cases cs)
    case Nil
    with s show ?thesis by (simp add: session_def)
  next
    case (Cons e rest)
    show ?thesis
    proof (cases "e = (GetConnection, False)")
      case True
      with s Cons show ?thesis by (simp add: session_def acquired_def released_def)
    next
      case False
      with s Cons have e: "e = (GetConnection, True)" and rest: "rest \<noteq> []" "last rest = (Release, True)"
        and mid: "list_all (\<lambda>e. fst e \<noteq> GetConnection \<and> fst e \<noteq> Release) (butlast rest)"
        by (simp_all add: session_def)
      from rest have split: "rest = butlast rest @ [(Release, True)]"
        by (metis append_butlast_last_id)
      from mid have none: "filter (\<lambda>e. e = (GetConnection, True)) (butlast rest) = []"
          "filter (\<lambda>e. fst e = Release) (butlast rest) = []"
        by (auto simp add: list_all_iff filter_empty_conv)
      have "acquired rest = 0" "released rest = 1"
        by (subst split, simp add: acquired_def released_def none)+
      with Cons e show ?thesis by (simp add: acquired_def released_def)
    qed
  qed
qed

lemma one_connectionI:
  assumes "\<And>w. wp m (\<lambda>r w'. \<exists>cs. adds w w' cs \<and> (cs = [] \<or> session cs)) w"
  shows "one_connection m"
  unfolding one_connection_def
proof (intro allI impI)
  fix w r w' assume "m w = (r, w')"
  from wp_run [OF assms this] obtain cs where "adds w w' cs" "cs = [] \<or> session cs" by blast
  then show "(calls_since w w' = [] \<or> session (calls_since w w'))
        \<and> acquired (calls_since w w') \<le> 1
        \<and> released (calls_since w w') = acquired (calls_since w w')"
    using session_counts [of cs] by (auto simp add: adds_calls_since acquired_def released_def)
qed

lemma executeQuery_session:
  "wp (executeQuery stmt) (\<lambda>r w'. \<exists>cs. adds w w' cs \<and> (cs = [] \<or> session cs)) w"
  unfolding executeQuery_def
  by (rule one_session; (intro opens_rules uses_connection_rules handles_rules)?)

lemma executeTransaction_session:
  "wp (executeTransaction callback) (\<lambda>r w'. \<exists>cs. adds w w' cs \<and> (cs = [] \<or> session cs)) w"
  unfolding executeTransaction_def
  by (rule one_session; (intro opens_rules uses_connection_rules handles_rules)?)

text \<open>A computation that leaves the world alone.\<close>

lemma then_pure:
  assumes m: "\<And>w. wp m (\<lambda>r w'. \<exists>cs. adds w w' cs \<and> P cs) w"
      and f: "\<And>x w. snd (f x w) = w"
  shows "wp (bind m f) (\<lambda>r w'. \<exists>cs. adds w w' cs \<and> P cs) w"
proof -
  obtain r1 w1 where run: "m w = (r1, w1)" by (cases "m w")
  from wp_run [OF m run] obtain cs where cs: "adds w w1 cs" "P cs" by blast
  show ?thesis
  proof (cases r1)
    case (Inl e)
    with run cs show ?thesis by (auto simp add: wp_def bind_def)
  next
    case (Inr x)
    with run cs f [of x w1] show ?thesis
      by (cases "f x w1") (auto simp add: wp_def bind_def)
  qed
qed

lemma first_of_pure: "snd (first_of v w) = w"
  by (simp add: first_of_def return_def throw_def split: results.splits)

lemma total_of_pure: "snd (total_of v w) = w"
  by (simp add: total_of_def return_def throw_def split: results.splits list.splits option.splits sqlval.splits)

lemma return_pure: "snd (return x w) = w"
  by (simp add: return_def)

lemma bind_pure: "(\<And>w. snd (m w) = w) \<Longrightarrow> (\<And>x w. snd (f x w) = w) \<Longrightarrow> snd (bind m f w) = w"
  by (cases "m w") (auto simp add: bind_def split: sum.splits dest: sndI)

lemma executeQuery_based:
  assumes "\<And>x w. snd (f x w) = w"
  shows "one_connection (bind (executeQuery stmt) f)"
  by (rule one_connectionI, rule then_pure, rule executeQuery_session, rule assms)

lemma findById_one: "one_connection (findById table i columns)"
  unfolding findById_def by (rule executeQuery_based) (simp add: return_def)

lemma findByField_one: "one_connection (findByField table field v columns)"
  unfolding findByField_def by (rule one_connectionI) (rule executeQuery_session)

lemma insert_one: "one_connection (insert table dat)"
  unfolding insert_def
  by (rule executeQuery_based) (simp add: bind_pure first_of_pure return_pure)

lemma updateById_one: "one_connection (updateById table i dat)"
  unfolding updateById_def
  by (rule executeQuery_based) (simp add: bind_pure first_of_pure return_pure)

lemma deleteById_one: "one_connection (deleteById table i)"
  unfolding deleteById_def
  by (rule executeQuery_based) (simp add: bind_pure first_of_pure return_pure)

lemma existsByField_one: "one_connection (existsByField table field v)"
  unfolding existsByField_def by (rule executeQuery_based) (simp add: return_def)

lemma batchInsert_one: "one_connection (batchInsert table records)"
proof (cases "records = []")
  case True
  then show ?thesis
    by (simp add: batchInsert_def one_connection_def return_def calls_since_def acquired_def released_def)
next
  case False
  then show ?thesis
    unfolding batchInsert_def
    by (simp only: if_False) (rule executeQuery_based, simp add: bind_pure first_of_pure return_pure)
qed

lemma executeQuery_always_asks:
  "wp (executeQuery stmt) (\<lambda>r w'. \<exists>cs. adds w w' cs \<and> session cs) w"
proof -
  have "wp (executeQuery stmt)
          (\<lambda>r w'. adds w w' (calls_since w w') \<and> session (calls_since w w')) w"
    by (simp add: executeQuery_def wp_rules adds_def calls_since_def session_def
          split: sum.splits option.splits)
  then show ?thesis
    by (auto simp add: wp_def split: prod.splits)
qed

lemma pure_then:
  assumes p: "\<And>w. snd (p w) = w"
      and g: "\<And>x w. wp (g x) (\<lambda>r w'. \<exists>cs. adds w w' cs \<and> P cs) w"
      and empty: "P []"
  shows "wp (bind p g) (\<lambda>r w'. \<exists>cs. adds w w' cs \<and> P cs) w"
proof (cases "p w")
  case (Pair r1 w1)
  with p [of w] have same: "w1 = w" by simp
  show ?thesis
  proof (cases r1)
    case (Inl e)
    with Pair same empty show ?thesis
      by (auto simp add: wp_def bind_def intro!: exI [of _ "[]"])
  next
    case (Inr x)
    with Pair same g [of x w] show ?thesis
      by (simp add: wp_def bind_def)
  qed
qed

lemma two_in_a_row:
  assumes m: "\<And>w. wp m (\<lambda>r w'. \<exists>cs. adds w w' cs \<and> session cs) w"
      and f: "\<And>x w. wp (f x) (\<lambda>r w'. \<exists>cs. adds w w' cs \<and> (cs = [] \<or> session cs)) w"
  shows "wp (bind m f) (\<lambda>r w'. \<exists>a b. adds w w' (a @ b) \<and> session a \<and> (b = [] \<or> session b)) w"
proof -
  obtain r1 w1 where run: "m w = (r1, w1)" by (cases "m w")
  from wp_run [OF m run] obtain a where a: "adds w w1 a" "session a" by blast
  show ?thesis
  proof (cases r1)
    case (Inl e)
    from a have "adds w w1 (a @ []) \<and> session a \<and> ([] = [] \<or> session [])" by simp
    then have "\<exists>a b. adds w w1 (a @ b) \<and> session a \<and> (b = [] \<or> session b)" by blast
    with run Inl show ?thesis
      by (simp add: wp_def bind_def)
  next
    case (Inr x)
    obtain r2 w2 where run2: "f x w1 = (r2, w2)" by (cases "f x w1")
    from wp_run [OF f run2] obtain b where b: "adds w1 w2 b" "b = [] \<or> session b" by blast
    from adds_trans [OF a(1) b(1)] a(2) b(2)
    have "\<exists>a b. adds w w2 (a @ b) \<and> session a \<and> (b = [] \<or> session b)" by blast
    with Inr run run2 show ?thesis
      by (simp add: wp_def bind_def)
  qed
qed

lemma paginate_calls:
  "wp (paginate table pg lm wh orderBy columns)
     (\<lambda>r w'. \<exists>a b. adds w w' (a @ b) \<and> session a \<and> (b = [] \<or> session b)) w"
  unfolding paginate_def Let_def
  by (rule two_in_a_row, rule executeQuery_always_asks, rule pure_then, rule total_of_pure,
      rule then_pure, rule executeQuery_session, rule return_pure, simp)

lemma acquired_append: "acquired (a @ b) = acquired a + acquired b"
  by (simp add: acquired_def)

lemma released_append: "released (a @ b) = released a + released b"
  by (simp add: released_def)

lemma paginate_two: "two_connections (paginate table pg lm wh orderBy columns)"
  unfolding two_connections_def
proof (intro allI impI)
  fix w r w' assume "paginate table pg lm wh orderBy columns w = (r, w')"
  from wp_run [OF paginate_calls this]
  obtain a b where ab: "adds w w' (a @ b)" "session a" "b = [] \<or> session b" by blast
  from session_counts [OF ab(2)] ab(3) session_counts [of b]
  have "acquired (a @ b) \<le> 2 \<and> released (a @ b) = acquired (a @ b)"
    by (auto simp add: acquired_append released_append) (simp_all add: acquired_def released_def)
  with ab show "(\<exists>a b. calls_since w w' = a @ b \<and> session a \<and> (b = [] \<or> session b))
        \<and> acquired (calls_since w w') \<le> 2
        \<and> released (calls_since w w') = acquired (calls_since w w')"
    by (auto simp add: adds_calls_since)
qed

lemma one_connection_calls:
  assumes "\<And>w. wp m (\<lambda>r w'. calls_since w w' = [] \<or> session (calls_since w w')) w"
  shows "one_connection m"
  unfolding one_connection_def
proof (intro allI impI)
  fix w r w' assume "m w = (r, w')"
  from wp_run [OF assms this] session_counts [of "calls_since w w'"]
  show "(calls_since w w' = [] \<or> session (calls_since w w'))
        \<and> acquired (calls_since w w') \<le> 1
        \<and> released (calls_since w w') = acquired (calls_since w w')"
    by (auto simp add: acquired_def released_def)
qed

lemma authenticateToken_calls:
  "wp (authenticateToken env req)
     (\<lambda>r w'. calls_since w w' = [] \<or> session (calls_since w w')) w"
  by (simp add: authenticateToken_def verify_def wp_rules Let_def calls_since_def session_def
        split: sum.splits option.splits)

lemma optionalAuth_calls:
  "wp (optionalAuth env req)
     (\<lambda>r w'. calls_since w w' = [] \<or> session (calls_since w w')) w"
  by (simp add: optionalAuth_def verify_def wp_rules Let_def calls_since_def session_def
        split: sum.splits option.splits)

text \<open>
  C3 (amended). Every store-touching operation gives back each connection it takes, exactly
  once and as its last call, on every exit path (success, thrown error, early return): the
  driver calls of a run are those of one connection's life, or none at all when the operation
  returns before it reaches the store. No operation takes a second connection, except
  \<open>paginate\<close>, whose two queries take and give back one connection each, one after the
  other. This holds for the eight controllers, the two authentication middlewares and every
  method of \<open>DatabaseService\<close>, whichever driver calls fail.
\<close>

theorem connections_given_back:
  "(\<forall>h \<in> set controllers. one_connection (h env req))
   \<and> one_connection (authenticateToken env req)
   \<and> one_connection (optionalAuth env req)
   \<and> one_connection (executeQuery stmt)
   \<and> one_connection (executeTransaction callback)
   \<and> one_connection (findById table i columns)
   \<and> one_connection (findByField table field v columns)
   \<and> one_connection (insert table dat)
   \<and> one_connection (updateById table i dat)
   \<and> one_connection (deleteById table i)
   \<and> one_connection (existsByField table field v)
   \<and> one_connection (batchInsert table records)
   \<and> two_connections (paginate table pg lm wh orderBy columns)"
proof -
  have "\<forall>h \<in> set controllers. one_connection (h env req)"
    by (auto simp add: controllers_def
          intro!: one_connectionI registerUser_session loginUser_session getUserProfile_session
            updateUserInfo_session changeUserPassword_session updateUserServices_session
            updateUserServiceAreas_session deleteUser_session)
  moreover have "one_connection (authenticateToken env req)" "one_connection (optionalAuth env req)"
    by (rule one_connection_calls, rule authenticateToken_calls)
       (rule one_connection_calls, rule optionalAuth_calls)
  moreover have "one_connection (executeQuery stmt)" "one_connection (executeTransaction callback)"
    by (rule one_connectionI, rule executeQuery_session)
       (rule one_connectionI, rule executeTransaction_session)
  ultimately show ?thesis
    by (simp add: findById_one findByField_one insert_one updateById_one deleteById_one
          existsByField_one batchInsert_one paginate_two)
qed


text \<open>Registration on a store that fails the commit: one connection, taken first and given
  back last, after the rollback.\<close>

theorem connections_given_back_witness:
  "registerUser \<in> set controllers
   \<and> calls_since ((healthy example_db)\<lparr>faults := {6}\<rparr>)
        (snd (registerUser example_env registration_request ((healthy example_db)\<lparr>faults := {6}\<rparr>)))
      = [(GetConnection, True), (BeginTransaction, True), (Execute, True), (Execute, True),
         (Execute, True), (Execute, True), (Commit, False), (Rollback, True), (Release, True)]
   \<and> session (calls_since ((healthy example_db)\<lparr>faults := {6}\<rparr>)
        (snd (registerUser example_env registration_request ((healthy example_db)\<lparr>faults := {6}\<rparr>))))
   \<and> acquired (calls_since ((healthy example_db)\<lparr>faults := {6}\<rparr>)
        (snd (registerUser example_env registration_request ((healthy example_db)\<lparr>faults := {6}\<rparr>)))) = 1
   \<and> released (calls_since ((healthy example_db)\<lparr>faults := {6}\<rparr>)
        (snd (registerUser example_env registration_request ((healthy example_db)\<lparr>faults := {6}\<rparr>)))) = 1"
proof -
  let ?w = "(healthy example_db)\<lparr>faults := {6}\<rparr>"
  let ?run = "registerUser example_env registration_request ?w"
  have calls: "calls_since ?w (snd ?run)
      = [(GetConnection, True), (BeginTransaction, True), (Execute, True), (Execute, True),
         (Execute, True), (Execute, True), (Commit, False), (Rollback, True), (Release, True)]"
    by (simp add: registerUser_def registration_request_def empty_body_def healthy_def
          example_db_def example_env_def ann_def falsy_def or_null_def hashPassword_def
          defaultCountyNames_def
          calls_since_def return_def throw_def bind_def try_catch_def try_finally_def
          console_log_def attempt_def let_connection_def getConnection_def beginTransaction_def
          execute_given_def execute_def query_def commit_def rollback_def release_def
          if_connection_def respond_def
          select_id_by_email_def insert_surveyor_def select_counties_in_def
          insert_surveyors_counties_def Let_def)
  have op: "registerUser \<in> set controllers"
    by (simp add: controllers_def)
  from connections_given_back [of example_env registration_request] op
  have "one_connection (registerUser example_env registration_request)"
    by blast
  then have "(calls_since ?w (snd ?run) = [] \<or> session (calls_since ?w (snd ?run)))
        \<and> acquired (calls_since ?w (snd ?run)) \<le> 1
        \<and> released (calls_since ?w (snd ?run)) = acquired (calls_since ?w (snd ?run))"
    unfolding one_connection_def by (metis prod.collapse)
  with calls op show ?thesis
    by (simp add: acquired_def)
qed


text \<open>C3 as stated (exactly one connection taken on every exit path) fails: on a healthy
  store \<open>paginate\<close> takes and gives back two connections; \<open>registerUser\<close> with an incomplete
  payload and \<open>batchInsert\<close> with no records return without taking any.\<close>

theorem not_exactly_one_connection:
  "acquired (calls_since (healthy people)
      (snd (paginate ''people'' 2 10 None None [''*''] (healthy people)))) = 2
   \<and> released (calls_since (healthy people)
      (snd (paginate ''people'' 2 10 None None [''*''] (healthy people)))) = 2
   \<and> acquired (calls_since (healthy example_db)
      (snd (registerUser example_env replace_request (healthy example_db)))) = 0
   \<and> acquired (calls_since (healthy people)
      (snd (batchInsert ''people'' [] (healthy people)))) = 0"
  by (simp add: paginate_def executeQuery_def total_of_def select_count_def select_page_def
        where_rows_def batchInsert_def
        registerUser_def replace_request_def empty_body_def falsy_def
        healthy_def people_def acquired_def released_def
        calls_since_def return_def throw_def bind_def try_catch_def try_finally_def
        console_log_def attempt_def let_connection_def getConnection_def
        execute_def release_def if_connection_def respond_def Let_def)

subsection \<open>Replacing the associations of a user\<close>

text \<open>The batch insert goes through when the ids are distinct, all in the reference table,
  and the user, who exists, has no row left in the association table.\<close>


lemma insert_surveyors_services_ok:
  assumes ids: "distinct ids" "set ids \<subseteq> fst ` set (service_subcategories d)"
      and user: "u \<in> s_id ` set (surveyors d)"
      and fresh: "\<forall>p \<in> set (surveyors_services d). fst p \<noteq> u"
  shows "insert_surveyors_services (map (\<lambda>i. (u, i)) ids) d =
           (Inr \<lparr>affectedRows = length ids, insertId = 0\<rparr>,
            d\<lparr>surveyors_services := surveyors_services d @ map (\<lambda>i. (u, i)) ids\<rparr>)"
proof -
  have 1: "distinct (map (\<lambda>i. (u, i)) ids)"
    using ids(1) by (simp add: distinct_map inj_on_def)
  have 2: "set (map (\<lambda>i. (u, i)) ids) \<inter> set (surveyors_services d) = {}"
    using fresh by auto
  have 3: "fst ` set (map (\<lambda>i. (u, i)) ids) \<subseteq> s_id ` set (surveyors d)"
    using user by auto
  have 4: "snd ` set (map (\<lambda>i. (u, i)) ids) \<subseteq> fst ` set (service_subcategories d)"
    using ids(2) by auto
  show ?thesis
    unfolding insert_surveyors_services_def using 1 2 3 4 by simp
qed

lemma insert_surveyors_counties_ok:
  assumes ids: "distinct ids" "set ids \<subseteq> fst ` set (counties d)"
      and user: "u \<in> s_id ` set (surveyors d)"
      and fresh: "\<forall>p \<in> set (surveyors_counties d). fst p \<noteq> u"
  shows "insert_surveyors_counties (map (\<lambda>i. (u, i)) ids) d =
           (Inr \<lparr>affectedRows = length ids, insertId = 0\<rparr>,
            d\<lparr>surveyors_counties := surveyors_counties d @ map (\<lambda>i. (u, i)) ids\<rparr>)"
proof -
  have 1: "distinct (map (\<lambda>i. (u, i)) ids)"
    using ids(1) by (simp add: distinct_map inj_on_def)
  have 2: "set (map (\<lambda>i. (u, i)) ids) \<inter> set (surveyors_counties d) = {}"
    using fresh by auto
  have 3: "fst ` set (map (\<lambda>i. (u, i)) ids) \<subseteq> s_id ` set (surveyors d)"
    using user by auto
  have 4: "snd ` set (map (\<lambda>i. (u, i)) ids) \<subseteq> fst ` set (counties d)"
    using ids(2) by auto
  show ?thesis
    unfolding insert_surveyors_counties_def using 1 2 3 4 by simp
qed

lemma updateUserServices_replaces:
  assumes healthy: "faults w = {}"
      and id: "params_id req \<noteq> []"
      and user: "sql_int (params_id req) \<in> s_id ` set (surveyors (committed w))"
      and keys: "distinct (map fst (service_subcategories (committed w)))"
  shows "\<exists>w'. updateUserServices env req w =
             (Inr \<lparr>status = 200, message = ''User services updated successfully.''\<rparr>, w')
           \<and> committed w' = (committed w)\<lparr>surveyors_services :=
                 filter (\<lambda>(s, c). s \<noteq> sql_int (params_id req)) (surveyors_services (committed w))
                 @ map (\<lambda>i. (sql_int (params_id req), i))
                     (map fst (filter (\<lambda>(i, n, c). n \<in> set (case subservices (body req) of
                                                                None \<Rightarrow> [] | Some ns \<Rightarrow> ns))
                                (service_subcategories (committed w))))\<rparr>"
proof -
  let ?u = "sql_int (params_id req)"
  let ?d0 = "committed w"
  let ?d1 = "?d0\<lparr>surveyors_services := filter (\<lambda>(s, c). s \<noteq> ?u) (surveyors_services ?d0)\<rparr>"
  define names where "names = (case subservices (body req) of None \<Rightarrow> [] | Some ns \<Rightarrow> ns)"
  define ids where "ids = map fst (filter (\<lambda>(i, n, c). n \<in> set names) (service_subcategories ?d0))"
  have del: "delete_surveyors_services ?u ?d0 =
      (Inr \<lparr>affectedRows = length (filter (\<lambda>(s, c). s = ?u) (surveyors_services ?d0)), insertId = 0\<rparr>, ?d1)"
    by (simp add: delete_surveyors_services_def)
  have sel: "select_subcategory_ids names ?d1 = (Inr ids, ?d1)"
    by (simp add: select_subcategory_ids_def ids_def)
  have ins: "insert_surveyors_services (map (\<lambda>i. (?u, i)) ids) ?d1 =
      (Inr \<lparr>affectedRows = length ids, insertId = 0\<rparr>,
       ?d1\<lparr>surveyors_services := surveyors_services ?d1 @ map (\<lambda>i. (?u, i)) ids\<rparr>)"
    using user keys unfolding ids_def
    by (intro insert_surveyors_services_ok) (auto simp add: distinct_map_filter)
  have "wp (updateUserServices env req)
          (\<lambda>r w'. r = Inr \<lparr>status = 200, message = ''User services updated successfully.''\<rparr>
                 \<and> committed w' = ?d0\<lparr>surveyors_services :=
                       filter (\<lambda>(s, c). s \<noteq> ?u) (surveyors_services ?d0) @ map (\<lambda>i. (?u, i)) ids\<rparr>) w"
  proof (cases "names = []")
    case True
    then have none: "ids = []" "subservices (body req) = None \<or> subservices (body req) = Some []"
      by (auto simp add: ids_def names_def split: option.splits)
    from none(2) show ?thesis
      by (auto simp add: updateUserServices_def wp_rules healthy id Let_def del none(1))
  next
    case False
    then obtain n ns where some: "subservices (body req) = Some (n # ns)" "names = n # ns"
      by (auto simp add: names_def neq_Nil_conv split: option.splits)
    show ?thesis
      using sel ins unfolding some(2)
      by (simp add: updateUserServices_def wp_rules healthy id Let_def del some(1))
  qed
  then show ?thesis
    unfolding ids_def names_def by (rule wp_result)
qed


lemma updateUserServiceAreas_replaces:
  assumes healthy: "faults w = {}"
      and id: "params_id req \<noteq> []"
      and user: "sql_int (params_id req) \<in> s_id ` set (surveyors (committed w))"
      and keys: "distinct (map fst (counties (committed w)))"
  shows "\<exists>w'. updateUserServiceAreas env req w =
             (Inr \<lparr>status = 200, message = ''User service areas updated successfully.''\<rparr>, w')
           \<and> committed w' = (committed w)\<lparr>surveyors_counties :=
                 filter (\<lambda>(s, c). s \<noteq> sql_int (params_id req)) (surveyors_counties (committed w))
                 @ map (\<lambda>i. (sql_int (params_id req), i))
                     (map fst (filter (\<lambda>(i, n). n \<in> set (case body_counties (body req) of
                                                             None \<Rightarrow> [] | Some ns \<Rightarrow> ns))
                                (counties (committed w))))\<rparr>"
proof -
  let ?u = "sql_int (params_id req)"
  let ?d0 = "committed w"
  let ?d1 = "?d0\<lparr>surveyors_counties := filter (\<lambda>(s, c). s \<noteq> ?u) (surveyors_counties ?d0)\<rparr>"
  define names where "names = (case body_counties (body req) of None \<Rightarrow> [] | Some ns \<Rightarrow> ns)"
  define ids where "ids = map fst (filter (\<lambda>(i, n). n \<in> set names) (counties ?d0))"
  have del: "delete_surveyors_counties ?u ?d0 =
      (Inr \<lparr>affectedRows = length (filter (\<lambda>(s, c). s = ?u) (surveyors_counties ?d0)), insertId = 0\<rparr>, ?d1)"
    by (simp add: delete_surveyors_counties_def)
  have sel: "select_county_ids names ?d1 = (Inr ids, ?d1)"
    by (simp add: select_county_ids_def ids_def)
  have ins: "insert_surveyors_counties (map (\<lambda>i. (?u, i)) ids) ?d1 =
      (Inr \<lparr>affectedRows = length ids, insertId = 0\<rparr>,
       ?d1\<lparr>surveyors_counties := surveyors_counties ?d1 @ map (\<lambda>i. (?u, i)) ids\<rparr>)"
    using user keys unfolding ids_def
    by (intro insert_surveyors_counties_ok) (auto simp add: distinct_map_filter)
  have "wp (updateUserServiceAreas env req)
          (\<lambda>r w'. r = Inr \<lparr>status = 200, message = ''User service areas updated successfully.''\<rparr>
                 \<and> committed w' = ?d0\<lparr>surveyors_counties :=
                       filter (\<lambda>(s, c). s \<noteq> ?u) (surveyors_counties ?d0) @ map (\<lambda>i. (?u, i)) ids\<rparr>) w"
  proof (cases "names = []")
    case True
    then have none: "ids = []" "body_counties (body req) = None \<or> body_counties (body req) = Some []"
      by (auto simp add: ids_def names_def split: option.splits)
    from none(2) show ?thesis
      by (auto simp add: updateUserServiceAreas_def wp_rules healthy id Let_def del none(1))
  next
    case False
    then obtain n ns where some: "body_counties (body req) = Some (n # ns)" "names = n # ns"
      by (auto simp add: names_def neq_Nil_conv split: option.splits)
    show ?thesis
      using sel ins unfolding some(2)
      by (simp add: updateUserServiceAreas_def wp_rules healthy id Let_def del some(1))
  qed
  then show ?thesis
    unfolding ids_def names_def by (rule wp_result)
qed

text \<open>
  C2. On a store that fails no call, for an existing user \<open>u\<close> (the path id as the store reads
  it) and reference tables with distinct ids, \<open>updateUserServices\<close> and
  \<open>updateUserServiceAreas\<close> answer 200 and the rows of \<open>u\<close> in the association table are
  afterwards exactly the pairs \<open>(u, id)\<close> for the ids of the reference rows whose name is in
  the list of the request: a name that is not in the reference table adds nothing and raises
  no error, and an empty or missing list leaves \<open>u\<close> without rows. The rows of the other users
  and the reference table are as before. Names are compared as the strings they are.
\<close>

theorem replace_associations:
  assumes healthy: "faults w = {}"
      and id: "params_id req \<noteq> []"
      and u: "u = sql_int (params_id req)"
      and user: "u \<in> s_id ` set (surveyors (committed w))"
      and keys: "distinct (map fst (service_subcategories (committed w)))"
                "distinct (map fst (counties (committed w)))"
  shows "(\<exists>w'. updateUserServices env req w =
                 (Inr \<lparr>status = 200, message = ''User services updated successfully.''\<rparr>, w')
              \<and> associations u (surveyors_services (committed w'))
                  = Pair u ` known_subcategories (names_of (subservices (body req))) (committed w)
              \<and> filter (\<lambda>p. fst p \<noteq> u) (surveyors_services (committed w'))
                  = filter (\<lambda>p. fst p \<noteq> u) (surveyors_services (committed w))
              \<and> service_subcategories (committed w') = service_subcategories (committed w))
       \<and> (\<exists>w'. updateUserServiceAreas env req w =
                 (Inr \<lparr>status = 200, message = ''User service areas updated successfully.''\<rparr>, w')
              \<and> associations u (surveyors_counties (committed w'))
                  = Pair u ` known_counties (names_of (body_counties (body req))) (committed w)
              \<and> filter (\<lambda>p. fst p \<noteq> u) (surveyors_counties (committed w'))
                  = filter (\<lambda>p. fst p \<noteq> u) (surveyors_counties (committed w))
              \<and> counties (committed w') = counties (committed w))"
proof
  from updateUserServices_replaces [OF healthy id user [unfolded u] keys(1), of env]
  obtain w' where run: "updateUserServices env req w =
        (Inr \<lparr>status = 200, message = ''User services updated successfully.''\<rparr>, w')"
    and after: "committed w' = (committed w)\<lparr>surveyors_services :=
                 filter (\<lambda>(s, c). s \<noteq> u) (surveyors_services (committed w))
                 @ map (\<lambda>i. (u, i))
                     (map fst (filter (\<lambda>(i, n, c). n \<in> set (names_of (subservices (body req))))
                                (service_subcategories (committed w))))\<rparr>"
    unfolding u names_of_def by blast
  have 1: "associations u (surveyors_services (committed w'))
             = Pair u ` known_subcategories (names_of (subservices (body req))) (committed w)"
    unfolding after by (auto simp add: associations_def known_subcategories_def image_iff; blast)
  have 2: "filter (\<lambda>p. fst p \<noteq> u) (surveyors_services (committed w'))
             = filter (\<lambda>p. fst p \<noteq> u) (surveyors_services (committed w))"
    unfolding after by (auto simp add: filter_empty_conv intro: filter_cong)
  have 3: "service_subcategories (committed w') = service_subcategories (committed w)"
    unfolding after by simp
  from run 1 2 3 show "\<exists>w'. updateUserServices env req w =
                 (Inr \<lparr>status = 200, message = ''User services updated successfully.''\<rparr>, w')
              \<and> associations u (surveyors_services (committed w'))
                  = Pair u ` known_subcategories (names_of (subservices (body req))) (committed w)
              \<and> filter (\<lambda>p. fst p \<noteq> u) (surveyors_services (committed w'))
                  = filter (\<lambda>p. fst p \<noteq> u) (surveyors_services (committed w))
              \<and> service_subcategories (committed w') = service_subcategories (committed w)"
    by blast
next
  from updateUserServiceAreas_replaces [OF healthy id user [unfolded u] keys(2), of env]
  obtain w' where run: "updateUserServiceAreas env req w =
        (Inr \<lparr>status = 200, message = ''User service areas updated successfully.''\<rparr>, w')"
    and after: "committed w' = (committed w)\<lparr>surveyors_counties :=
                 filter (\<lambda>(s, c). s \<noteq> u) (surveyors_counties (committed w))
                 @ map (\<lambda>i. (u, i))
                     (map fst (filter (\<lambda>(i, n). n \<in> set (names_of (body_counties (body req))))
                                (counties (committed w))))\<rparr>"
    unfolding u names_of_def by blast
  have 1: "associations u (surveyors_counties (committed w'))
             = Pair u ` known_counties (names_of (body_counties (body req))) (committed w)"
    unfolding after by (auto simp add: associations_def known_counties_def image_iff; blast)
  have 2: "filter (\<lambda>p. fst p \<noteq> u) (surveyors_counties (committed w'))
             = filter (\<lambda>p. fst p \<noteq> u) (surveyors_counties (committed w))"
    unfolding after by (auto simp add: filter_empty_conv intro: filter_cong)
  have 3: "counties (committed w') = counties (committed w)"
    unfolding after by simp
  from run 1 2 3 show "\<exists>w'. updateUserServiceAreas env req w =
                 (Inr \<lparr>status = 200, message = ''User service areas updated successfully.''\<rparr>, w')
              \<and> associations u (surveyors_counties (committed w'))
                  = Pair u ` known_counties (names_of (body_counties (body req))) (committed w)
              \<and> filter (\<lambda>p. fst p \<noteq> u) (surveyors_counties (committed w'))
                  = filter (\<lambda>p. fst p \<noteq> u) (surveyors_counties (committed w))
              \<and> counties (committed w') = counties (committed w)"
    by blast
qed


text \<open>User 7 had subservice 1 and county 1; asking for one known and one unknown name each
  leaves subservice 2 and county 2, and asking for the empty lists leaves nothing.\<close>

theorem replace_associations_witness:
  "fst (updateUserServices example_env replace_request (healthy example_db))
     = Inr \<lparr>status = 200, message = ''User services updated successfully.''\<rparr>
   \<and> associations 7 (surveyors_services (committed (snd
         (updateUserServices example_env replace_request (healthy example_db))))) = {(7, 2)}
   \<and> fst (updateUserServiceAreas example_env replace_request (healthy example_db))
     = Inr \<lparr>status = 200, message = ''User service areas updated successfully.''\<rparr>
   \<and> associations 7 (surveyors_counties (committed (snd
         (updateUserServiceAreas example_env replace_request (healthy example_db))))) = {(7, 2)}
   \<and> associations 7 (surveyors_services (committed (snd
         (updateUserServices example_env clear_request (healthy example_db))))) = {}
   \<and> associations 7 (surveyors_counties (committed (snd
         (updateUserServiceAreas example_env clear_request (healthy example_db))))) = {}"
proof -
  have seven: "(7 :: int) = sql_int ''7''"
    by (simp add: sql_int_def is_space_def is_digit_def dec_value_def)
  have user: "(7 :: int) \<in> s_id ` set (surveyors (committed (healthy example_db)))"
    by (simp add: healthy_def example_db_def ann_def)
  have keys: "distinct (map fst (service_subcategories (committed (healthy example_db))))"
      "distinct (map fst (counties (committed (healthy example_db))))"
    by (simp_all add: healthy_def example_db_def)
  have known: "known_subcategories (names_of (subservices (body replace_request)))
                 (committed (healthy example_db)) = {2}"
      "known_counties (names_of (body_counties (body replace_request)))
                 (committed (healthy example_db)) = {2}"
      "known_subcategories (names_of (subservices (body clear_request)))
                 (committed (healthy example_db)) = {}"
      "known_counties (names_of (body_counties (body clear_request)))
                 (committed (healthy example_db)) = {}"
    by (simp_all add: known_subcategories_def known_counties_def names_of_def
          replace_request_def clear_request_def empty_body_def healthy_def example_db_def)
  from replace_associations [where w = "healthy example_db" and req = replace_request
         and u = 7 and env = example_env]
       replace_associations [where w = "healthy example_db" and req = clear_request
         and u = 7 and env = example_env]
       seven user keys known
  show ?thesis
    by (auto simp add: healthy_def replace_request_def clear_request_def)
qed
subsection \<open>Registration\<close>

text \<open>
  C5. Whatever else a registration payload holds, and whatever the state of the store: when
  \<open>password\<close> and \<open>confirmPassword\<close> differ, \<open>registerUser\<close> answers 400 without a single call
  to the store, so the committed store and an open transaction are as before and no user row
  is created; and the route \<open>POST /register-user\<close> answers 400 from its validation, before the
  controller runs, leaving everything as it was.
\<close>

theorem mismatched_passwords_rejected:
  assumes differ: "password (body req) \<noteq> confirmPassword (body req)"
  shows "(\<exists>out w'. registerUser env req w = (Inr out, w') \<and> status out = 400
            \<and> committed w' = committed w \<and> tx w' = tx w \<and> calls_since w w' = [])
       \<and> (\<exists>out. registrationRoutes env req w = (Inr out, w) \<and> status out = 400)"
proof
  have "registerUser env req w =
          (Inr \<lparr>status = 400,
                message = (if falsy (email (body req)) \<or> falsy (password (body req))
                              \<or> falsy (confirmPassword (body req)) \<or> falsy (firstName (body req))
                              \<or> falsy (lastName (body req)) \<or> falsy (address (body req))
                              \<or> falsy (city (body req)) \<or> falsy (state (body req))
                              \<or> falsy (zipCode (body req))
                           then ''All required fields must be provided.''
                           else ''Passwords do not match.'')\<rparr>,
           w\<lparr>connection := False\<rparr>)"
    using differ
    by (simp add: registerUser_def bind_def let_connection_def try_finally_def try_catch_def
          respond_def return_def if_connection_def Let_def)
  then show "\<exists>out w'. registerUser env req w = (Inr out, w') \<and> status out = 400
            \<and> committed w' = committed w \<and> tx w' = tx w \<and> calls_since w w' = []"
    by (simp add: calls_since_def)
next
  have "validateRegistration env req = Inl \<lparr>status = 400, message = ''Validation failed''\<rparr>"
    using differ by (auto simp add: validateRegistration_def handleValidationErrors_def Let_def)
  then have "registrationRoutes env req w = (Inr \<lparr>status = 400, message = ''Validation failed''\<rparr>, w)"
    by (simp add: registrationRoutes_def validator_def bind_def return_def)
  then show "\<exists>out. registrationRoutes env req w = (Inr out, w) \<and> status out = 400"
    by simp
qed

text \<open>The payload of Bob with \<open>Secret123\<close> confirmed as \<open>Secret124\<close>.\<close>

theorem mismatched_passwords_rejected_witness:
  "password (body mismatched_request) \<noteq> confirmPassword (body mismatched_request)
   \<and> (\<exists>out w'. registerUser example_env mismatched_request (healthy example_db) = (Inr out, w')
          \<and> status out = 400 \<and> committed w' = example_db \<and> tx w' = None
          \<and> trace w' = [])
   \<and> (\<exists>out. registrationRoutes example_env mismatched_request (healthy example_db)
                = (Inr out, healthy example_db) \<and> status out = 400)"
proof -
  have differ: "password (body mismatched_request) \<noteq> confirmPassword (body mismatched_request)"
    by (simp add: mismatched_request_def registration_request_def empty_body_def)
  from mismatched_passwords_rejected [OF differ, of example_env "healthy example_db"] differ
  show ?thesis
    by (simp add: healthy_def calls_since_def)
qed
lemma registrationRoutes_passes:
  "validateRegistration env req0 = Inr req \<Longrightarrow> registrationRoutes env req0 = registerUser env req"
  by (rule ext) (simp add: registrationRoutes_def validator_def bind_def return_def)

text \<open>
  C4. On a store that fails no call: a registration whose payload passes the controller's own
  checks (the required fields given, the password confirmed) and whose email is the email of
  exactly one user row is answered 409; nothing is committed, the transaction is rolled back,
  and the store still holds exactly that one row for the email. The route
  \<open>POST /register-user\<close> gives the same answer for a payload its validation lets through.
\<close>

theorem duplicate_email_rejected:
  assumes healthy: "faults w = {}"
      and payload: "complete (body req)"
      and taken: "rows_with_email (email (body req)) (committed w) = [r]"
  shows "\<exists>w'. registerUser env req w =
               (Inr \<lparr>status = 409, message = ''User with that email already exists.''\<rparr>, w')
            \<and> committed w' = committed w
            \<and> tx w' = None
            \<and> rows_with_email (email (body req)) (committed w') = [r]
            \<and> (Commit, True) \<notin> set (calls_since w w')
            \<and> (\<forall>req0. validateRegistration env req0 = Inr req \<longrightarrow>
                   registrationRoutes env req0 w = registerUser env req w)"
proof -
  from payload have given: "email (body req) \<noteq> None"
    by (auto simp add: complete_def falsy_def)
  have sel: "select_id_by_email (email (body req)) (committed w) = (Inr [s_id r], committed w)"
    using taken given by (simp add: select_id_by_email_def rows_with_email_def)
  have "wp (registerUser env req)
          (\<lambda>out w'. out = Inr \<lparr>status = 409, message = ''User with that email already exists.''\<rparr>
                   \<and> (committed w' = committed w \<and> tx w' = None
                      \<and> (Commit, True) \<notin> set (calls_since w w'))) w"
    using payload
    by (simp add: registerUser_def wp_rules healthy Let_def sel complete_def calls_since_def
          given given [symmetric])
  from wp_result [OF this] taken show ?thesis
    by (auto simp add: registrationRoutes_passes)
qed


text \<open>Bob's payload with Ann's email, on the store that holds Ann.\<close>

theorem duplicate_email_rejected_witness:
  "complete (body duplicate_request)
   \<and> rows_with_email (email (body duplicate_request)) (committed (healthy example_db)) = [ann]
   \<and> fst (registerUser example_env duplicate_request (healthy example_db))
       = Inr \<lparr>status = 409, message = ''User with that email already exists.''\<rparr>
   \<and> surveyors (committed (snd (registerUser example_env duplicate_request (healthy example_db))))
       = [ann]
   \<and> validateRegistration example_env duplicate_request = Inr duplicate_request
   \<and> fst (registrationRoutes example_env duplicate_request (healthy example_db))
       = Inr \<lparr>status = 409, message = ''User with that email already exists.''\<rparr>"
proof -
  have payload: "complete (body duplicate_request)"
    by (simp add: complete_def falsy_def duplicate_request_def registration_request_def
          empty_body_def)
  have taken: "rows_with_email (email (body duplicate_request)) (committed (healthy example_db))
                 = [ann]"
    by (simp add: rows_with_email_def duplicate_request_def registration_request_def
          empty_body_def healthy_def example_db_def ann_def)
  have valid: "validateRegistration example_env duplicate_request = Inr duplicate_request"
    by (simp add: validateRegistration_def handleValidationErrors_def Let_def
          duplicate_request_def registration_request_def empty_body_def example_env_def
          isLength_def matches_strength_def str_of_def trim_def optional_def js_space_def is_space_def
          is_digit_def)
  from duplicate_email_rejected [where w = "healthy example_db" and req = duplicate_request
         and r = ann and env = example_env] payload taken valid
  show ?thesis
    by (auto simp add: healthy_def example_db_def)
qed
lemma given_if_not_falsy: "\<not> falsy v \<Longrightarrow> v \<noteq> None"
  by (auto simp add: falsy_def)

text \<open>On a store that fails no call, a registration whose payload passes the controller's
  own checks, with a phone and an email that no user row carries, when the reference table
  has no county named Boulder, Broomfield or Gilpin, is answered 201: the user row is
  committed, with the next id, the fields of the payload and the hashed password; no row is
  added to \<open>surveyors_counties\<close>, so the new user, whose id no association row carried, has
  no county; and the missing defaults are written to the console.\<close>

lemma registration_without_default_counties:
  assumes healthy: "faults w = {}"
      and payload: "complete (body req)"
      and phone_given: "phone (body req) \<noteq> None"
      and fresh_email: "rows_with_email (email (body req)) (committed w) = []"
      and no_defaults: "known_counties defaultCountyNames (committed w) = {}"
      and fresh_id: "associations (next_surveyor_id (committed w))
                       (surveyors_counties (committed w)) = {}"
  shows "\<exists>w'. registerUser env req w =
               (Inr \<lparr>status = 201, message = ''User registered successfully!''\<rparr>, w')
            \<and> surveyors (committed w') = surveyors (committed w) @
                 [\<lparr>s_id = next_surveyor_id (committed w),
                   s_first_name = firstName (body req), s_last_name = lastName (body req),
                   s_address = address (body req), s_town = city (body req),
                   s_state = state (body req), s_zip_code = zipCode (body req),
                   s_phone = phone (body req), s_email = email (body req),
                   s_password = map_option (bcrypt_hash env) (password (body req)),
                   s_company_name = or_null (companyName (body req))\<rparr>]
            \<and> surveyors_counties (committed w') = surveyors_counties (committed w)
            \<and> associations (next_surveyor_id (committed w)) (surveyors_counties (committed w')) = {}
            \<and> console w' = console w @
                 [''Could not find default counties (Boulder, Broomfield, Gilpin) in the database. No counties assigned.'']"
proof -
  from payload obtain p where pw: "password (body req) = Some p"
    by (auto simp add: complete_def falsy_def)
  from payload have fields: "\<not> falsy (email (body req))" "\<not> falsy (password (body req))"
      "\<not> falsy (confirmPassword (body req))" "\<not> falsy (firstName (body req))"
      "\<not> falsy (lastName (body req))" "\<not> falsy (address (body req))"
      "\<not> falsy (city (body req))" "\<not> falsy (state (body req))" "\<not> falsy (zipCode (body req))"
      "confirmPassword (body req) = password (body req)"
    by (simp_all add: complete_def)
  from fields phone_given have bound: "None \<noteq> email (body req)"
      "None \<noteq> firstName (body req)" "None \<noteq> lastName (body req)"
      "None \<noteq> address (body req)" "None \<noteq> city (body req)" "None \<noteq> state (body req)"
      "None \<noteq> zipCode (body req)" "None \<noteq> phone (body req)"
    by (auto dest: given_if_not_falsy)
  from fresh_email have new: "email (body req) \<notin> s_email ` set (surveyors (committed w))"
    by (auto simp add: rows_with_email_def filter_empty_conv)
  have sel1: "select_id_by_email (email (body req)) (committed w) = (Inr [], committed w)"
    using new by (force simp add: select_id_by_email_def filter_empty_conv image_iff)
  from no_defaults have none: "\<And>d. counties d = counties (committed w) \<Longrightarrow>
      select_counties_in defaultCountyNames d = (Inr [], d)"
    by (auto simp add: known_counties_def select_counties_in_def filter_empty_conv)
  have "wp (registerUser env req)
          (\<lambda>out w'. out = Inr \<lparr>status = 201, message = ''User registered successfully!''\<rparr>
             \<and> (surveyors (committed w') = surveyors (committed w) @
                 [\<lparr>s_id = next_surveyor_id (committed w),
                   s_first_name = firstName (body req), s_last_name = lastName (body req),
                   s_address = address (body req), s_town = city (body req),
                   s_state = state (body req), s_zip_code = zipCode (body req),
                   s_phone = phone (body req), s_email = email (body req),
                   s_password = map_option (bcrypt_hash env) (password (body req)),
                   s_company_name = or_null (companyName (body req))\<rparr>]
               \<and> surveyors_counties (committed w') = surveyors_counties (committed w)
               \<and> console w' = console w @
                 [''Could not find default counties (Boulder, Broomfield, Gilpin) in the database. No counties assigned.''])) w"
    using new
    by (simp add: registerUser_def wp_rules healthy Let_def sel1 fields [unfolded pw] pw
          hashPassword_def insert_surveyor_def none bound)
  from wp_result [OF this] fresh_id show ?thesis
    by auto
qed

lemma registration_without_phone_never_succeeds:
  assumes no_phone: "phone (body req) = None"
  shows "wp (registerUser env req) (\<lambda>out w'. \<not> succeeded out) w"
  by (simp add: registerUser_def wp_rules Let_def no_phone hashPassword_def succeeded_def
        select_id_by_email_def split: option.splits)

text \<open>
  C8. The claim does not hold of the code: \<open>registerUser\<close> passes \<open>phone\<close> to the INSERT as the
  body has it, and a body without a phone, which the validation of the route lets through,
  makes it \<open>undefined\<close>, on which the driver throws. So a registration without a phone never
  succeeds, whatever the store and whatever the calls that fail, and the store is as before;
  on a store that fails no call, with a payload that passes the controller's own checks and
  an email that no user row carries, the INSERT is the call that throws, the transaction is
  rolled back and the answer is 500, whether or not the default counties are in the
  reference table. (With a phone the registration succeeds without them, as
  \<open>registration_without_default_counties\<close> shows.)
\<close>

theorem registration_without_phone_fails:
  assumes healthy: "faults w = {}"
      and payload: "complete (body req)"
      and no_phone: "phone (body req) = None"
      and fresh_email: "rows_with_email (email (body req)) (committed w) = []"
  shows "\<exists>w'. registerUser env req w =
               (Inr \<lparr>status = 500, message = ''Server error during registration.''\<rparr>, w')
            \<and> committed w' = committed w
            \<and> tx w' = None
            \<and> calls_since w w' =
                 [(GetConnection, True), (BeginTransaction, True), (Execute, True),
                  (Execute, False), (Rollback, True), (Release, True)]
            \<and> (\<forall>req0. validateRegistration env req0 = Inr req \<longrightarrow>
                   registrationRoutes env req0 w = registerUser env req w)
            \<and> (\<forall>w0. \<not> succeeded (fst (registerUser env req w0))
                      \<and> committed (snd (registerUser env req w0)) = committed w0)"
proof -
  from payload obtain p where pw: "password (body req) = Some p"
    by (auto simp add: complete_def falsy_def)
  from payload have fields: "\<not> falsy (email (body req))" "\<not> falsy (password (body req))"
      "\<not> falsy (confirmPassword (body req))" "\<not> falsy (firstName (body req))"
      "\<not> falsy (lastName (body req))" "\<not> falsy (address (body req))"
      "\<not> falsy (city (body req))" "\<not> falsy (state (body req))" "\<not> falsy (zipCode (body req))"
      "confirmPassword (body req) = password (body req)"
    by (simp_all add: complete_def)
  from fields have bound: "None \<noteq> email (body req)"
    by (auto dest: given_if_not_falsy)
  from fresh_email have new: "email (body req) \<notin> s_email ` set (surveyors (committed w))"
    by (auto simp add: rows_with_email_def filter_empty_conv)
  have sel1: "select_id_by_email (email (body req)) (committed w) = (Inr [], committed w)"
    using new by (force simp add: select_id_by_email_def filter_empty_conv image_iff)
  have "wp (registerUser env req)
          (\<lambda>out w'. out = Inr \<lparr>status = 500, message = ''Server error during registration.''\<rparr>
             \<and> (committed w' = committed w \<and> tx w' = None
                \<and> calls_since w w' =
                     [(GetConnection, True), (BeginTransaction, True), (Execute, True),
                      (Execute, False), (Rollback, True), (Release, True)])) w"
    by (simp add: registerUser_def wp_rules healthy Let_def sel1 fields [unfolded pw] pw
          hashPassword_def calls_since_def bound no_phone)
  from wp_result [OF this] obtain w' where answered:
      "registerUser env req w =
         (Inr \<lparr>status = 500, message = ''Server error during registration.''\<rparr>, w')"
      "committed w' = committed w" "tx w' = None"
      "calls_since w w' =
         [(GetConnection, True), (BeginTransaction, True), (Execute, True),
          (Execute, False), (Rollback, True), (Release, True)]"
    by blast
  have never: "\<not> succeeded (fst (registerUser env req w0))
        \<and> committed (snd (registerUser env req w0)) = committed w0" for w0
  proof -
    have run: "registerUser env req w0 = (fst (registerUser env req w0), snd (registerUser env req w0))"
      by simp
    from wp_run [OF registration_without_phone_never_succeeds [OF no_phone] run]
    have 1: "\<not> succeeded (fst (registerUser env req w0))" .
    from wp_run [OF registerUser_post run] 1
    show ?thesis by (simp add: write_post_def Let_def)
  qed
  from answered never show ?thesis
    by (auto simp add: registrationRoutes_passes)
qed


text \<open>Bob registers, with his phone, on a store whose counties are Adams and Denver: he is
  user 8, and the only association is still Ann's.\<close>

lemma registration_without_default_counties_example:
  "complete (body registration_request)
   \<and> phone (body registration_request) \<noteq> None
   \<and> rows_with_email (email (body registration_request)) (committed (healthy sparse_db)) = []
   \<and> known_counties defaultCountyNames (committed (healthy sparse_db)) = {}
   \<and> fst (registerUser example_env registration_request (healthy sparse_db))
       = Inr \<lparr>status = 201, message = ''User registered successfully!''\<rparr>
   \<and> map s_id (surveyors (committed (snd (registerUser example_env registration_request
        (healthy sparse_db))))) = [7, 8]
   \<and> surveyors_counties (committed (snd (registerUser example_env registration_request
        (healthy sparse_db)))) = [(7, 1)]
   \<and> associations 8 (surveyors_counties (committed (snd (registerUser example_env
        registration_request (healthy sparse_db))))) = {}"
proof -
  have payload: "complete (body registration_request)"
    by (simp add: complete_def falsy_def registration_request_def empty_body_def)
  have phone_given: "phone (body registration_request) \<noteq> None"
    by (simp add: registration_request_def empty_body_def)
  have fresh_email: "rows_with_email (email (body registration_request))
                       (committed (healthy sparse_db)) = []"
    by (simp add: rows_with_email_def registration_request_def empty_body_def healthy_def
          sparse_db_def example_db_def ann_def)
  have no_defaults: "known_counties defaultCountyNames (committed (healthy sparse_db)) = {}"
    by (simp add: known_counties_def defaultCountyNames_def healthy_def sparse_db_def)
  have fresh_id: "associations (next_surveyor_id (committed (healthy sparse_db)))
                       (surveyors_counties (committed (healthy sparse_db))) = {}"
    by (simp add: associations_def healthy_def sparse_db_def example_db_def)
  from registration_without_default_counties [where w = "healthy sparse_db"
         and req = registration_request and env = example_env]
       payload phone_given fresh_email no_defaults fresh_id
  show ?thesis
    by (auto simp add: healthy_def sparse_db_def example_db_def ann_def)
qed

text \<open>Bob registers without a phone on the store whose counties are Adams and Denver: the
  validation passes, the answer is 500 and Ann is still the only user.\<close>

theorem registration_without_phone_fails_witness:
  "complete (body phoneless_request)
   \<and> phone (body phoneless_request) = None
   \<and> rows_with_email (email (body phoneless_request)) (committed (healthy sparse_db)) = []
   \<and> known_counties defaultCountyNames (committed (healthy sparse_db)) = {}
   \<and> validateRegistration example_env phoneless_request = Inr phoneless_request
   \<and> fst (registrationRoutes example_env phoneless_request (healthy sparse_db))
       = Inr \<lparr>status = 500, message = ''Server error during registration.''\<rparr>
   \<and> surveyors (committed (snd (registrationRoutes example_env phoneless_request
        (healthy sparse_db)))) = [ann]"
proof -
  have payload: "complete (body phoneless_request)"
    by (simp add: complete_def falsy_def phoneless_request_def registration_request_def
          empty_body_def)
  have no_phone: "phone (body phoneless_request) = None"
    by (simp add: phoneless_request_def)
  have fresh_email: "rows_with_email (email (body phoneless_request))
                       (committed (healthy sparse_db)) = []"
    by (simp add: rows_with_email_def phoneless_request_def registration_request_def
          empty_body_def healthy_def sparse_db_def example_db_def ann_def)
  have no_defaults: "known_counties defaultCountyNames (committed (healthy sparse_db)) = {}"
    by (simp add: known_counties_def defaultCountyNames_def healthy_def sparse_db_def)
  have valid: "validateRegistration example_env phoneless_request = Inr phoneless_request"
    by (simp add: validateRegistration_def handleValidationErrors_def Let_def
          phoneless_request_def registration_request_def empty_body_def example_env_def
          isLength_def matches_strength_def str_of_def trim_def optional_def js_space_def
          is_space_def is_digit_def)
  from registration_without_phone_fails [where w = "healthy sparse_db"
         and req = phoneless_request and env = example_env]
       payload no_phone fresh_email no_defaults valid
  show ?thesis
    by (auto simp add: healthy_def sparse_db_def example_db_def)
qed

subsection \<open>The owner-only routes\<close>

text \<open>A string of decimal digits that says a number below \<open>2 ^ 53\<close> is read by \<open>parseInt\<close>
  as that number.\<close>

lemma bit_length_le: "n < 2 ^ k \<Longrightarrow> bit_length n \<le> k"
proof (induction k arbitrary: n)
  case 0
  then show ?case by (simp add: bit_length.simps)
next
  case (Suc k)
  show ?case
  proof (cases "n = 0")
    case True
    then show ?thesis by (simp add: bit_length.simps)
  next
    case False
    from Suc.prems have "n div 2 < 2 ^ k" by simp
    from Suc.IH [OF this] False show ?thesis
      by (subst bit_length.simps) simp
  qed
qed


lemma double_of_nat_exact: "n < 2 ^ 53 \<Longrightarrow> double_of_nat n = Some n"
  unfolding double_of_nat_def using bit_length_le [of n 53] by (simp only: if_True)

lemma js_number_exact: "n < 2 ^ 53 \<Longrightarrow> js_number False n = Number (int n)"
  by (simp add: js_number_def double_of_nat_exact del: power_numeral)


lemma unsigned_int_digits:
  assumes "s \<noteq> []" "list_all is_digit s"
  shows "unsigned_int s = Some (dec_value s)"
proof -
  have all: "takeWhile is_digit s = s"
    using assms(2) by (simp add: takeWhile_eq_all_conv list_all_iff)
  show ?thesis
  proof (cases s)
    case Nil
    with assms(1) show ?thesis by simp
  next
    case (Cons a t)
    show ?thesis
    proof (cases t)
      case Nil
      with Cons all assms(1) show ?thesis
        by (simp add: unsigned_int_def Let_def)
    next
      case (Cons b r)
      with \<open>s = a # t\<close> assms(2) have "is_digit b" by simp
      then have "b \<noteq> CHR ''x''" "b \<noteq> CHR ''X''"
        by (auto simp add: is_digit_def)
      with Cons \<open>s = a # t\<close> all assms(1) show ?thesis
        by (simp add: unsigned_int_def Let_def)
    qed
  qed
qed

lemma parseInt_digits:
  assumes "s \<noteq> []" "list_all is_digit s" "dec_value s < 2 ^ 53"
  shows "parseInt s = Number (int (dec_value s))"
proof -
  from assms(1) obtain c r where s: "s = c # r" by (cases s) auto
  with assms(2) have c: "is_digit c" by simp
  then have c': "\<not> js_space c" "c \<noteq> CHR ''-''" "c \<noteq> CHR ''+''"
    by (auto simp add: is_digit_def js_space_def is_space_def)
  from c'(1) have "dropWhile js_space s = s"
    by (simp add: s)
  with c'(2,3) unsigned_int_digits [OF assms(1,2)] js_number_exact [OF assms(3)] show ?thesis
    by (simp add: parseInt_def s del: power_numeral)
qed


text \<open>A chain that ends with one more middleware.\<close>

lemma run_chain_Nil: "run_chain [] h = h"
  by (rule ext) simp

lemma run_chain_snoc:
  "before_handler ms req w = (Inr (Inr req'), w1) \<Longrightarrow>
   run_chain (ms @ [m]) h req w =
     bind (m req') (\<lambda>step. case step of Inl res \<Rightarrow> return res | Inr req'' \<Rightarrow> h req'') w1"
proof (induction ms arbitrary: req w)
  case Nil
  then show ?case by (simp add: return_def run_chain_Nil)
next
  case (Cons a ms)
  then show ?case
    by (auto simp add: bind_def return_def split: prod.splits sum.splits)
qed

lemma run_chain_refused:
  "before_handler ms req w = (Inr (Inl res), w1) \<Longrightarrow>
   run_chain (ms @ [m]) h req w = (Inr res, w1)"
proof (induction ms arbitrary: req w)
  case Nil
  then show ?case by (simp add: return_def)
next
  case (Cons a ms)
  then show ?case
    by (auto simp add: bind_def return_def split: prod.splits sum.splits)
qed

lemma checkResourceOwnership_owner:
  "checkResourceOwnership req w =
     (if owner req then (Inr (Inr req), w)
      else (Inr (Inl \<lparr>status = 403,
                       message = ''Access denied: You can only access your own resources''\<rparr>), w))"
  by (cases "parseInt (params_id req)")
     (auto simp add: checkResourceOwnership_def owner_def ids_differ_def answer_def return_def
        split: option.splits)

lemma authenticateToken_answers:
  "wp (authenticateToken env req)
     (\<lambda>r w1. committed w1 = committed w
        \<and> (\<exists>step. r = Inr step
              \<and> (case step of
                    Inl res \<Rightarrow> status res \<in> {401, 403, 500}
                  | Inr req' \<Rightarrow>
                      \<exists>token a. bearer_token (authorization req) = Some token
                        \<and> jwt_verify env token = Inr a
                        \<and> req' = req\<lparr>user := Some \<lparr>user_id = user_id a,
                                                    user_email = user_email a\<rparr>\<rparr>))) w"
  by (simp add: authenticateToken_def wp_rules verify_def select_by_id_def
        split: option.splits sum.splits)


lemma guarded_base: "guarded env (authenticateAndOwnResource env) h req w"
proof -
  let ?forbidden = "\<lparr>status = 403,
    message = ''Access denied: You can only access your own resources''\<rparr>"
  obtain r w1 where run: "authenticateToken env req w = (r, w1)"
    by (cases "authenticateToken env req w")
  from wp_run [OF authenticateToken_answers run] obtain step
    where same: "committed w1 = committed w" and r: "r = Inr step"
      and step: "case step of
                    Inl res \<Rightarrow> status res \<in> {401, 403, 500}
                  | Inr req' \<Rightarrow>
                      \<exists>token a. bearer_token (authorization req) = Some token
                        \<and> jwt_verify env token = Inr a
                        \<and> req' = req\<lparr>user := Some \<lparr>user_id = user_id a,
                                                    user_email = user_email a\<rparr>\<rparr>"
    by blast
  have before: "before_handler [authenticateToken env] req w = (Inr step, w1)"
    using run r by (cases step) (simp_all add: bind_def return_def)
  have chain: "butlast (authenticateAndOwnResource env) = [authenticateToken env]"
      "authenticateAndOwnResource env = [authenticateToken env] @ [checkResourceOwnership]"
    by (simp_all add: authenticateAndOwnResource_def)
  show ?thesis
  proof (cases step)
    case (Inl res)
    with step have status: "status res \<in> {400, 401, 403, 500}" by auto
    from before have "run_chain ([authenticateToken env] @ [checkResourceOwnership]) h req w
        = (Inr res, w1)"
      unfolding Inl by (rule run_chain_refused)
    with before status same show ?thesis
      unfolding guarded_def chain(1) unfolding chain(2) Inl by auto
  next
    case (Inr req')
    with step obtain token a where token: "bearer_token (authorization req) = Some token"
        "jwt_verify env token = Inr a"
        "req' = req\<lparr>user := Some \<lparr>user_id = user_id a, user_email = user_email a\<rparr>\<rparr>"
      by auto
    have forbidden: "run_chain ([authenticateToken env] @ [checkResourceOwnership]) h req w
        = (Inr ?forbidden, w1)"
      if differ: "parseInt (params_id req) \<noteq> Number (user_id a)"
    proof -
      from differ token(3) have "\<not> owner req'"
        by (simp add: owner_def)
      then have "bind (checkResourceOwnership req')
                   (\<lambda>step. case step of Inl res \<Rightarrow> return res | Inr req'' \<Rightarrow> h req'') w1
                 = (Inr ?forbidden, w1)"
        by (simp add: checkResourceOwnership_owner bind_def return_def)
      with run_chain_snoc [OF before [unfolded Inr], of checkResourceOwnership h]
      show ?thesis by (simp only:)
    qed
    have id: "params_id req' = params_id req"
      using token(3) by simp
    from before same token(1,2) token(3) [THEN arg_cong, of user] forbidden id show ?thesis
      unfolding guarded_def chain(1) unfolding chain(2) Inr by auto
  qed
qed


lemma guarded_validator:
  assumes rest: "\<And>r. guarded env chain h r w" and ne: "chain \<noteq> []"
      and refuses: "\<And>res. v req = Inl res \<Longrightarrow> status res = 400"
      and keeps: "\<And>r. v req = Inr r \<Longrightarrow>
                    params_id r = params_id req \<and> authorization r = authorization req"
  shows "guarded env (validator v # chain) h req w"
proof (cases "v req")
  case (Inl res)
  have 1: "before_handler (butlast (validator v # chain)) req w = (Inr (Inl res), w)"
    using Inl ne by (simp add: validator_def bind_def return_def)
  have 2: "run_chain (validator v # chain) h req w = (Inr res, w)"
    using Inl by (simp add: validator_def bind_def return_def)
  from refuses [OF Inl] show ?thesis
    unfolding guarded_def 1 2 by simp
next
  case (Inr r)
  from keeps [OF Inr] have same: "params_id r = params_id req" "authorization r = authorization req"
    by simp_all
  have 1: "before_handler (butlast (validator v # chain)) req w = before_handler (butlast chain) r w"
    using Inr ne by (simp add: validator_def bind_def return_def)
  have 2: "run_chain (validator v # chain) h req w = run_chain chain h r w"
    using Inr by (simp add: validator_def bind_def return_def)
  from rest [of r] show ?thesis
    unfolding guarded_def 1 2 same .
qed

lemma validateUserId_refuses: "validateUserId req = Inl res \<Longrightarrow> status res = 400"
  by (auto simp add: validateUserId_def handleValidationErrors_def split: if_splits)

lemma validateUserId_keeps:
  "validateUserId req = Inr r \<Longrightarrow>
     params_id r = params_id req \<and> authorization r = authorization req"
  by (auto simp add: validateUserId_def handleValidationErrors_def split: if_splits)

lemma validateUserProfileUpdate_refuses:
  "validateUserProfileUpdate env req = Inl res \<Longrightarrow> status res = 400"
  by (auto simp add: validateUserProfileUpdate_def handleValidationErrors_def Let_def
        split: if_splits)

lemma validateUserProfileUpdate_keeps:
  "validateUserProfileUpdate env req = Inr r \<Longrightarrow>
     params_id r = params_id req \<and> authorization r = authorization req"
  by (auto simp add: validateUserProfileUpdate_def handleValidationErrors_def Let_def
        split: if_splits)

lemma validatePasswordChange_refuses:
  "validatePasswordChange req = Inl res \<Longrightarrow> status res = 400"
  by (auto simp add: validatePasswordChange_def handleValidationErrors_def Let_def
        split: if_splits)

lemma validatePasswordChange_keeps:
  "validatePasswordChange req = Inr r \<Longrightarrow>
     params_id r = params_id req \<and> authorization r = authorization req"
  by (auto simp add: validatePasswordChange_def handleValidationErrors_def Let_def
        split: if_splits)


lemma guarded_after_id:
  "guarded env (validator validateUserId # authenticateAndOwnResource env) h req w"
proof (rule guarded_validator)
  show "guarded env (authenticateAndOwnResource env) h r w" for r
    by (rule guarded_base)
  show "authenticateAndOwnResource env \<noteq> []"
    by (simp add: authenticateAndOwnResource_def)
qed (rule validateUserId_refuses validateUserId_keeps, assumption)+

lemma guarded_after_two:
  assumes "\<And>req res. v req = Inl res \<Longrightarrow> status res = 400"
      and "\<And>req r. v req = Inr r \<Longrightarrow>
             params_id r = params_id req \<and> authorization r = authorization req"
  shows "guarded env (validator validateUserId # validator v # authenticateAndOwnResource env)
           h req w"
proof (rule guarded_validator)
  show "guarded env (validator v # authenticateAndOwnResource env) h r w" for r
  proof (rule guarded_validator)
    show "guarded env (authenticateAndOwnResource env) h r' w" for r'
      by (rule guarded_base)
    show "authenticateAndOwnResource env \<noteq> []"
      by (simp add: authenticateAndOwnResource_def)
  qed (rule assms, assumption)+
  show "validator v # authenticateAndOwnResource env \<noteq> []"
    by simp
qed (rule validateUserId_refuses validateUserId_keeps, assumption)+

lemma guarded_routes:
  "\<forall>(method, path, chain, handler) \<in> set (userProfileRoutes env).
     last chain = checkResourceOwnership \<and> (\<forall>req w. guarded env chain handler req w)"
proof -
  have last: "authenticateAndOwnResource env \<noteq> []"
      "last (authenticateAndOwnResource env) = checkResourceOwnership"
    by (simp_all add: authenticateAndOwnResource_def)
  note two = guarded_after_two [OF validateUserProfileUpdate_refuses validateUserProfileUpdate_keeps]
    guarded_after_two [OF validatePasswordChange_refuses validatePasswordChange_keeps]
  show ?thesis
    unfolding userProfileRoutes_def
    by (simp add: last) (intro conjI allI guarded_after_id two)
qed


text \<open>
  C9, amended. \<open>checkResourceOwnership\<close> passes a request on when an identity is attached to
  it whose id is the number that \<open>parseInt\<close> reads in the path id, and answers 403 in every
  other case: no identity attached, a path id that is not a number, or another number (a
  path id of decimal digits is read as the number it says). On each of the six routes of
  \<open>userProfileRoutes\<close> it is the last middleware of the chain, and for every request and
  every state of the store, whatever calls fail: the middleware before it changes nothing in
  the committed store; either one of them answers, a validation with 400 or
  \<open>authenticateToken\<close> with 401, 403 or 500, and that is the answer of the route; or the
  request reaches the check with its path id and with the identity of its token attached,
  and then, when the id of that identity is not the number of the path id, the route answers
  403 and makes no call beyond those of the authentication: the handler has not run, and
  nothing was asked about the user that the path names.
\<close>

theorem foreign_resource_forbidden:
  "checkResourceOwnership req w =
     (case user req of
        None \<Rightarrow>
          (Inr (Inl \<lparr>status = 403,
                      message = ''Access denied: You can only access your own resources''\<rparr>), w)
      | Some a \<Rightarrow>
          if parseInt (params_id req) = Number (user_id a) then (Inr (Inr req), w)
          else (Inr (Inl \<lparr>status = 403,
                           message = ''Access denied: You can only access your own resources''\<rparr>),
                w))
   \<and> (\<forall>s. s \<noteq> [] \<and> list_all is_digit s \<and> dec_value s < 2 ^ 53 \<longrightarrow>
          parseInt s = Number (int (dec_value s)))
   \<and> (\<forall>(method, path, chain, handler) \<in> set (userProfileRoutes env).
          last chain = checkResourceOwnership
          \<and> (\<forall>req w. guarded env chain handler req w))"
proof (intro conjI)
  show "checkResourceOwnership req w =
     (case user req of
        None \<Rightarrow>
          (Inr (Inl \<lparr>status = 403,
                      message = ''Access denied: You can only access your own resources''\<rparr>), w)
      | Some a \<Rightarrow>
          if parseInt (params_id req) = Number (user_id a) then (Inr (Inr req), w)
          else (Inr (Inl \<lparr>status = 403,
                           message = ''Access denied: You can only access your own resources''\<rparr>),
                w))"
    by (simp add: checkResourceOwnership_owner owner_def split: option.splits)
  show "\<forall>s. s \<noteq> [] \<and> list_all is_digit s \<and> dec_value s < 2 ^ 53 \<longrightarrow>
          parseInt s = Number (int (dec_value s))"
    using parseInt_digits by blast
  show "\<forall>(method, path, chain, handler) \<in> set (userProfileRoutes env).
          last chain = checkResourceOwnership
          \<and> (\<forall>req w. guarded env chain handler req w)"
    by (rule guarded_routes)
qed

text \<open>A request without identity is refused by the check; and Ann, with her token, asks to
  delete user 8, who does not exist: 403 after the three calls of the authentication.\<close>

theorem foreign_resource_forbidden_witness:
  "user anonymous_request = None
   \<and> checkResourceOwnership anonymous_request (healthy example_db) =
       (Inr (Inl \<lparr>status = 403,
                   message = ''Access denied: You can only access your own resources''\<rparr>),
        healthy example_db)
   \<and> parseInt ''8'' = Number 8
   \<and> select_by_id 8 example_db = (Inr [], example_db)
   \<and> (''DELETE'', ''/:id'', [validator validateUserId] @ authenticateAndOwnResource example_env,
        deleteUser example_env) \<in> set (userProfileRoutes example_env)
   \<and> run_chain ([validator validateUserId] @ authenticateAndOwnResource example_env)
        (deleteUser example_env) foreign_request (healthy example_db)
      = (Inr \<lparr>status = 403,
               message = ''Access denied: You can only access your own resources''\<rparr>,
         authenticated)
   \<and> committed authenticated = example_db"
proof -
  let ?req = "foreign_request\<lparr>user := Some \<lparr>user_id = 7, user_email = Some ''ann@example.com''\<rparr>\<rparr>"
  let ?chain = "[validator validateUserId] @ authenticateAndOwnResource example_env"
  note claim = foreign_resource_forbidden [of anonymous_request "healthy example_db" example_env]
  have anonymous: "user anonymous_request = None"
    by (simp add: anonymous_request_def foreign_request_def)
  note check = claim [THEN conjunct1]
    and reads = claim [THEN conjunct2, THEN conjunct1, THEN spec, of "''8''"]
    and routes = claim [THEN conjunct2, THEN conjunct2, THEN bspec]
  from check anonymous
  have refused: "checkResourceOwnership anonymous_request (healthy example_db) =
       (Inr (Inl \<lparr>status = 403,
                   message = ''Access denied: You can only access your own resources''\<rparr>),
        healthy example_db)"
    by simp
  have digits: "''8'' \<noteq> []" "list_all is_digit ''8''" "dec_value ''8'' = 8"
    by (simp_all add: is_digit_def dec_value_def)
  from reads digits have eight: "parseInt ''8'' = Number 8"
    by simp
  have absent: "select_by_id 8 example_db = (Inr [], example_db)"
    by (simp add: select_by_id_def example_db_def ann_def)
  have member: "(''DELETE'', ''/:id'', ?chain, deleteUser example_env)
                  \<in> set (userProfileRoutes example_env)"
    by (simp add: userProfileRoutes_def)
  have valid: "validateUserId foreign_request = Inr foreign_request"
    by (simp add: validateUserId_def handleValidationErrors_def isInt_min1_def foreign_request_def
          is_digit_def dec_value_def)
  have token: "bearer_token (authorization foreign_request) = Some ''token-of-7''"
    by (simp add: bearer_token_def foreign_request_def)
  have auth: "authenticateToken example_env foreign_request (healthy example_db)
                = (Inr (Inr ?req), authenticated)"
    by (simp add: authenticateToken_def token verify_def example_env_def try_catch_def bind_def
          return_def let_connection_def try_finally_def getConnection_def attempt_def
          execute_def select_by_id_def if_connection_def release_def healthy_def
          authenticated_def example_db_def ann_def Let_def)
  have reach: "before_handler (butlast ?chain) foreign_request (healthy example_db)
                 = (Inr (Inr ?req), authenticated)"
    by (simp add: authenticateAndOwnResource_def validator_def valid auth bind_def return_def)
  from routes [OF member]
  have "guarded example_env ?chain (deleteUser example_env) foreign_request (healthy example_db)"
    by simp
  then obtain t a where "bearer_token (authorization foreign_request) = Some t"
      "jwt_verify example_env t = Inr a"
      "parseInt (params_id foreign_request) \<noteq> Number (user_id a) \<longrightarrow>
         run_chain ?chain (deleteUser example_env) foreign_request (healthy example_db) =
           (Inr \<lparr>status = 403,
                 message = ''Access denied: You can only access your own resources''\<rparr>,
            authenticated)"
    unfolding guarded_def reach by auto
  with token eight
  have "run_chain ?chain (deleteUser example_env) foreign_request (healthy example_db) =
           (Inr \<lparr>status = 403,
                 message = ''Access denied: You can only access your own resources''\<rparr>,
            authenticated)"
    by (auto simp add: example_env_def foreign_request_def)
  moreover have "committed authenticated = example_db"
    by (simp add: authenticated_def healthy_def)
  ultimately show ?thesis
    using anonymous refused eight absent member by blast
qed

text \<open>Without a token no identity is attached, and the route answers 401, not 403; and with
  Ann's token, a password change for user 8 with an empty body is answered 400 by the
  validation.\<close>

theorem forbidden_only_after_authentication:
  "user anonymous_request = None
   \<and> (''DELETE'', ''/:id'', [validator validateUserId] @ authenticateAndOwnResource example_env,
        deleteUser example_env) \<in> set (userProfileRoutes example_env)
   \<and> run_chain ([validator validateUserId] @ authenticateAndOwnResource example_env)
        (deleteUser example_env) anonymous_request (healthy example_db)
      = (Inr \<lparr>status = 401, message = ''Access token required''\<rparr>, healthy example_db)
   \<and> (''PATCH'', ''/password/:id'',
        [validator validateUserId, validator validatePasswordChange]
        @ authenticateAndOwnResource example_env,
        changeUserPassword example_env) \<in> set (userProfileRoutes example_env)
   \<and> run_chain ([validator validateUserId, validator validatePasswordChange]
                  @ authenticateAndOwnResource example_env)
        (changeUserPassword example_env) foreign_request (healthy example_db)
      = (Inr \<lparr>status = 400, message = ''Validation failed''\<rparr>, healthy example_db)"
proof -
  have valid: "validateUserId anonymous_request = Inr anonymous_request"
      "validateUserId foreign_request = Inr foreign_request"
    by (simp_all add: validateUserId_def handleValidationErrors_def isInt_min1_def
          anonymous_request_def foreign_request_def is_digit_def dec_value_def)
  have weak: "validatePasswordChange foreign_request
                = Inl \<lparr>status = 400, message = ''Validation failed''\<rparr>"
    by (simp add: validatePasswordChange_def handleValidationErrors_def foreign_request_def
          empty_body_def str_of_def isLength_def Let_def)
  show ?thesis
    by (simp add: valid weak userProfileRoutes_def authenticateAndOwnResource_def validator_def
          bind_def return_def authenticateToken_def try_catch_def answer_def bearer_token_def)
       (simp add: anonymous_request_def foreign_request_def answer_def return_def)
qed

subsection \<open>The profile update\<close>










end
